theory Spec2Isabelle
  imports Complex_Main "HOL-Library.Char_ord" "HOL-Library.List_Lexorder"
begin

section \<open>Python values, errors and library functions\<close>

text \<open>
  Python floats are modelled as exact reals and Python ints as \<open>int\<close>. Every exception
  the modelled code can raise is a value of \<open>py_error\<close>; a fallible computation returns
  \<open>py_error + 'a\<close> with \<open>Inl\<close> the raised exception.
\<close>

datatype py_error =
    ZeroDivisionError
  | TypeError
  | KeyError string
  | ValueError string
  | JSONDecodeError
  | FileNotFoundError

text \<open>True division \<open>a / b\<close>.\<close>

definition py_truediv :: "real \<Rightarrow> real \<Rightarrow> py_error + real" where
  "py_truediv a b = (if b = 0 then Inl ZeroDivisionError else Inr (a / b))"

text \<open>Floor division \<open>a // b\<close> of ints.\<close>

definition py_floordiv :: "int \<Rightarrow> int \<Rightarrow> py_error + int" where
  "py_floordiv a b = (if b = 0 then Inl ZeroDivisionError else Inr (a div b))"

text \<open>Sequencing: the second computation runs only if the first raised nothing.\<close>

definition py_bind :: "py_error + 'a \<Rightarrow> ('a \<Rightarrow> py_error + 'b) \<Rightarrow> py_error + 'b" where
  "py_bind m f = (case m of Inl e \<Rightarrow> Inl e | Inr x \<Rightarrow> f x)"

text \<open>An operand that is \<open>None\<close> where a number is needed raises \<open>TypeError\<close>.\<close>

definition number :: "real option \<Rightarrow> py_error + real" where
  "number v = (case v of None \<Rightarrow> Inl TypeError | Some x \<Rightarrow> Inr x)"

text \<open>Float remainder \<open>a % m\<close> (the result has the sign of \<open>m\<close>).\<close>

definition py_fmod :: "real \<Rightarrow> real \<Rightarrow> real" where
  "py_fmod a m = a - m * of_int \<lfloor>a / m\<rfloor>"

definition radians :: "real \<Rightarrow> real" where
  "radians d = d * (pi / 180)"

definition degrees :: "real \<Rightarrow> real" where
  "degrees r = r * (180 / pi)"

text \<open>\<open>math.atan2(y, x)\<close> / \<open>numpy.arctan2(y, x)\<close>: the angle of the point \<open>(x, y)\<close> in \<open>(-pi, pi]\<close>.\<close>

definition atan2 :: "real \<Rightarrow> real \<Rightarrow> real" where
  "atan2 y x =
     (if 0 < x then arctan (y / x)
      else if x < 0 then (if 0 \<le> y then arctan (y / x) + pi else arctan (y / x) - pi)
      else if 0 < y then pi / 2
      else if y < 0 then - (pi / 2)
      else 0)"

text \<open>\<open>math.sqrt\<close> and \<open>math.asin\<close> raise \<open>ValueError\<close> outside their domain.\<close>

definition math_sqrt :: "real \<Rightarrow> py_error + real" where
  "math_sqrt x = (if x < 0 then Inl (ValueError ''math domain error'') else Inr (sqrt x))"

definition math_asin :: "real \<Rightarrow> py_error + real" where
  "math_asin x =
     (if x < -1 \<or> 1 < x then Inl (ValueError ''math domain error'') else Inr (arcsin x))"

text \<open>\<open>int(x)\<close> of a float truncates towards zero.\<close>

definition py_int :: "real \<Rightarrow> int" where
  "py_int x = (if 0 \<le> x then \<lfloor>x\<rfloor> else \<lceil>x\<rceil>)"

text \<open>\<open>str.lower()\<close> on ASCII text.\<close>

definition lower_char :: "char \<Rightarrow> char" where
  "lower_char c =
     (if CHR ''A'' \<le> c \<and> c \<le> CHR ''Z'' then char_of (of_char c + (32 :: nat)) else c)"

definition lower :: "string \<Rightarrow> string" where
  "lower s = map lower_char s"

subsection \<open>Number formatting\<close>

definition digit_char :: "nat \<Rightarrow> char" where
  "digit_char d = (''0123456789abcdef'' ! d)"

fun digits_of :: "nat \<Rightarrow> nat \<Rightarrow> string" where
  "digits_of b n =
     (if b < 2 \<or> n < b then [digit_char n]
      else digits_of b (n div b) @ [digit_char (n mod b)])"

declare digits_of.simps [simp del]

text \<open>\<open>str(n)\<close> of an int.\<close>

definition str_int :: "int \<Rightarrow> string" where
  "str_int n = (if n < 0 then ''-'' @ digits_of 10 (nat (- n)) else digits_of 10 (nat n))"

text \<open>\<open>format(n, 'x')\<close> of an int.\<close>

definition format_x :: "int \<Rightarrow> string" where
  "format_x n = (if n < 0 then ''-'' @ digits_of 16 (nat (- n)) else digits_of 16 (nat n))"

definition zero_pad :: "nat \<Rightarrow> string \<Rightarrow> string" where
  "zero_pad w s = replicate (w - length s) (CHR ''0'') @ s"

text \<open>\<open>f"{n:05d}"\<close>: zero padding to width 5, the sign counted in the width.\<close>

definition format_05d :: "int \<Rightarrow> string" where
  "format_05d n =
     (if n < 0 then ''-'' @ zero_pad 4 (digits_of 10 (nat (- n)))
      else zero_pad 5 (digits_of 10 (nat n)))"

subsection \<open>The random source\<close>

text \<open>
  The module-level generator of \<open>random\<close> is a hidden state. It is modelled as the two
  sequences of values its calls return, \<open>random.random()\<close> in \<open>[0, 1)\<close> and
  \<open>random.randint(0x100000, 0xFFFFFF)\<close>, together with the number of calls made so far.
\<close>

record rng =
  unit_draws :: "nat \<Rightarrow> real"
  int_draws :: "nat \<Rightarrow> int"
  unit_pos :: nat
  int_pos :: nat

definition rng_ok :: "rng \<Rightarrow> bool" where
  "rng_ok g \<longleftrightarrow>
     (\<forall>k. 0 \<le> unit_draws g k \<and> unit_draws g k < 1) \<and>
     (\<forall>k. 0x100000 \<le> int_draws g k \<and> int_draws g k \<le> 0xFFFFFF)"

text \<open>\<open>random.uniform(a, b)\<close> is \<open>a + (b - a) * random()\<close>.\<close>

definition random_uniform :: "real \<Rightarrow> real \<Rightarrow> rng \<Rightarrow> real \<times> rng" where
  "random_uniform a b g =
     (a + (b - a) * unit_draws g (unit_pos g), g\<lparr>unit_pos := Suc (unit_pos g)\<rparr>)"

definition random_icao :: "rng \<Rightarrow> int \<times> rng" where
  "random_icao g = (int_draws g (int_pos g), g\<lparr>int_pos := Suc (int_pos g)\<rparr>)"

subsection \<open>Loops\<close>

text \<open>
  A \<open>for\<close> loop that appends one element per iteration, threads a state through the
  iterations and stops at the first exception.
\<close>

fun for_each ::
  "('b \<Rightarrow> 's \<Rightarrow> py_error + ('a \<times> 's)) \<Rightarrow> 'b list \<Rightarrow> 's \<Rightarrow> py_error + ('a list \<times> 's)" where
  "for_each body [] s = Inr ([], s)"
| "for_each body (x # xs) s =
     (case body x s of
        Inl e \<Rightarrow> Inl e
      | Inr (p, s') \<Rightarrow>
          (case for_each body xs s' of
             Inl e \<Rightarrow> Inl e
           | Inr (ps, s'') \<Rightarrow> Inr (p # ps, s'')))"

text \<open>\<open>range(n)\<close> and \<open>enumerate(xs)\<close>.\<close>

definition py_range :: "int \<Rightarrow> nat list" where
  "py_range n = [0..<nat n]"

definition py_enumerate :: "'a list \<Rightarrow> (nat \<times> 'a) list" where
  "py_enumerate xs = zip [0..<length xs] xs"

text \<open>The extended slice \<open>xs[::k]\<close> for a positive step: the elements at \<open>0, k, 2k, ...\<close>\<close>

fun slice_step :: "nat \<Rightarrow> 'a list \<Rightarrow> 'a list" where
  "slice_step k [] = []"
| "slice_step k (x # xs) = x # slice_step k (drop (k - 1) xs)"

section \<open>artificial\_tracks.py\<close>

subsection \<open>haversine\<close>

definition haversine_a :: "real \<Rightarrow> real \<Rightarrow> real \<Rightarrow> real \<Rightarrow> real" where
  "haversine_a lon1 lat1 lon2 lat2 =
     (let phi1 = radians lat1;
          phi2 = radians lat2;
          d_phi = radians (lat2 - lat1);
          d_lambda = radians (lon2 - lon1)
      in (sin (d_phi / 2))\<^sup>2 + cos phi1 * cos phi2 * (sin (d_lambda / 2))\<^sup>2)"

definition haversine :: "real \<Rightarrow> real \<Rightarrow> real \<Rightarrow> real \<Rightarrow> py_error + real" where
  "haversine lon1 lat1 lon2 lat2 =
     (let a = haversine_a lon1 lat1 lon2 lat2 in
      py_bind (math_sqrt a) (\<lambda>sa.
      py_bind (math_sqrt (1 - a)) (\<lambda>sb.
      Inr (6371000 * (2 * atan2 sa sb)))))"

subsection \<open>BaseTrackGenerator\<close>

text \<open>
  A track point is the dictionary built by \<open>_create_track_point\<close>. Instants are seconds
  on the real line: \<open>timestamp\<close> is \<open>start_time + timedelta(seconds = time_delta)\<close> before
  its rendering as ISO-8601 text.
\<close>

record track_point =
  eventName :: string
  trackId :: string
  sourceId :: string
  trackType :: string
  timestamp :: real
  data :: string
  altitudeReference :: string
  sourceTrackId :: string
  longitude :: real
  latitude :: real
  altitude :: real
  aglAltitude :: real
  mslAltitude :: real
  wgs84Altitude :: real
  distance_m :: real

record base_gen =
  center_lat :: real
  center_lon :: real
  center_alt :: real
  min_alt :: real
  max_alt :: real
  track_id :: int
  source_id :: string
  track_type :: string
  altitude_reference :: string
  source_track_id :: string
  start_time :: real

text \<open>
  \<open>BaseTrackGenerator.__init__\<close>; \<open>now\<close> is the value of \<open>datetime.now(timezone.utc)\<close>.
  An altitude bound that is \<open>None\<close> defaults to \<open>center_alt\<close>.
\<close>

definition BaseTrackGenerator ::
  "real \<Rightarrow> real \<Rightarrow> real \<Rightarrow> real option \<Rightarrow> real option \<Rightarrow> int \<Rightarrow> string \<Rightarrow> string \<Rightarrow> string
   \<Rightarrow> real \<Rightarrow> base_gen" where
  "BaseTrackGenerator clat clon calt mn mx tid src ttype aref now =
     \<lparr> center_lat = clat, center_lon = clon, center_alt = calt,
       min_alt = (case mn of Some m \<Rightarrow> m | None \<Rightarrow> calt),
       max_alt = (case mx of Some m \<Rightarrow> m | None \<Rightarrow> calt),
       track_id = tid, source_id = src, track_type = ttype, altitude_reference = aref,
       source_track_id = src @ ''::'' @ str_int tid,
       start_time = now \<rparr>"

definition create_track_point ::
  "'z base_gen_scheme \<Rightarrow> real \<Rightarrow> real \<Rightarrow> real \<Rightarrow> real \<Rightarrow> rng \<Rightarrow> py_error + (track_point \<times> rng)" where
  "create_track_point self lon lat alt time_delta g =
     (let ts = start_time self + time_delta;
          (hex_icao, g') = random_icao g;
          data_field = ''Hex-ICAO:'' @ format_x hex_icao @ ''|Alt-Baro:'' @ str_int (py_int alt)
      in py_bind (haversine (center_lon self) (center_lat self) lon lat) (\<lambda>distance.
             Inr (\<lparr> eventName = ''track.appended'',
                    trackId = format_05d (track_id self),
                    sourceId = source_id self,
                    trackType = track_type self,
                    timestamp = ts,
                    data = data_field,
                    altitudeReference = altitude_reference self,
                    sourceTrackId = source_track_id self,
                    longitude = lon,
                    latitude = lat,
                    altitude = alt,
                    aglAltitude = alt * 0.35,
                    mslAltitude = alt,
                    wgs84Altitude = alt - 50,
                    distance_m = distance \<rparr>, g')))"

definition get_altitude :: "'z base_gen_scheme \<Rightarrow> rng \<Rightarrow> real \<times> rng" where
  "get_altitude self g = random_uniform (min_alt self) (max_alt self) g"

subsection \<open>The maneuver generators\<close>

text \<open>
  Each subclass extends the base record with its shape parameters. The \<open>__init__\<close> of a
  subclass is \<open>X_init\<close>, its \<open>generate\<close> is \<open>X_generate\<close>, and the body of the loop of
  \<open>generate\<close> is \<open>X_body\<close>.
\<close>

record circular_gen = base_gen +
  radius :: real

record elliptical_gen = base_gen +
  radius_x :: real
  radius_y :: real

record flyby_gen = base_gen +
  approach_distance :: real
  exit_distance :: real
  bearing :: real

record square_gen = base_gen +
  side_length :: real

record rectangle_gen = base_gen +
  width :: real
  height :: real

record zigzag_gen = base_gen +
  direction :: real
  amplitude :: real
  frequency :: real

record spiral_gen = base_gen +
  initial_radius :: real
  radius_increment :: real
  rotations :: real

definition CircularTrackGenerator_init :: "base_gen \<Rightarrow> real \<Rightarrow> circular_gen" where
  "CircularTrackGenerator_init b r = base_gen.extend b (circular_gen.fields r)"

definition EllipticalTrackGenerator_init :: "base_gen \<Rightarrow> real \<Rightarrow> real \<Rightarrow> elliptical_gen" where
  "EllipticalTrackGenerator_init b rx ry = base_gen.extend b (elliptical_gen.fields rx ry)"

definition FlybyTrackGenerator_init :: "base_gen \<Rightarrow> real \<Rightarrow> real \<Rightarrow> real \<Rightarrow> flyby_gen" where
  "FlybyTrackGenerator_init b approach exit bearing_deg =
     base_gen.extend b (flyby_gen.fields approach exit (radians bearing_deg))"

definition SquareTrackGenerator_init :: "base_gen \<Rightarrow> real \<Rightarrow> square_gen" where
  "SquareTrackGenerator_init b side = base_gen.extend b (square_gen.fields side)"

definition RectangleTrackGenerator_init :: "base_gen \<Rightarrow> real \<Rightarrow> real \<Rightarrow> rectangle_gen" where
  "RectangleTrackGenerator_init b w h = base_gen.extend b (rectangle_gen.fields w h)"

definition ZigzagTrackGenerator_init :: "base_gen \<Rightarrow> real \<Rightarrow> real \<Rightarrow> real \<Rightarrow> zigzag_gen" where
  "ZigzagTrackGenerator_init b direction_deg amp freq =
     base_gen.extend b (zigzag_gen.fields (radians direction_deg) amp freq)"

definition SpiralTrackGenerator_init :: "base_gen \<Rightarrow> real \<Rightarrow> real \<Rightarrow> real \<Rightarrow> spiral_gen" where
  "SpiralTrackGenerator_init b r0 dr rot = base_gen.extend b (spiral_gen.fields r0 dr rot)"

text \<open>The three statements that end every loop body.\<close>

definition emit_point ::
  "'z base_gen_scheme \<Rightarrow> real \<Rightarrow> real \<Rightarrow> real \<Rightarrow> nat \<Rightarrow> rng \<Rightarrow> py_error + (track_point \<times> rng)" where
  "emit_point self lat lon interval_seconds i g =
     (let (alt, g') = get_altitude self g;
          time_delta = real i * interval_seconds
      in create_track_point self lon lat alt time_delta g')"

definition RandomTrackGenerator_body ::
  "base_gen \<Rightarrow> real \<Rightarrow> nat \<Rightarrow> rng \<Rightarrow> py_error + (track_point \<times> rng)" where
  "RandomTrackGenerator_body self interval_seconds i g =
     (let (delta_lat, g1) = random_uniform (- 0.01) 0.01 g;
          (delta_lon, g2) = random_uniform (- 0.01) 0.01 g1;
          lat = center_lat self + delta_lat;
          lon = center_lon self + delta_lon
      in emit_point self lat lon interval_seconds i g2)"

definition RandomTrackGenerator_generate ::
  "base_gen \<Rightarrow> int \<Rightarrow> real \<Rightarrow> rng \<Rightarrow> py_error + (track_point list \<times> rng)" where
  "RandomTrackGenerator_generate self num_points interval_seconds g =
     for_each (RandomTrackGenerator_body self interval_seconds) (py_range num_points) g"

definition CircularTrackGenerator_body ::
  "circular_gen \<Rightarrow> int \<Rightarrow> real \<Rightarrow> nat \<Rightarrow> rng \<Rightarrow> py_error + (track_point \<times> rng)" where
  "CircularTrackGenerator_body self num_points interval_seconds i g =
     py_bind (py_truediv (2 * pi) (of_int num_points)) (\<lambda>q.
       let angle = q * real i;
           delta_lat = radius self * cos angle;
           delta_lon = radius self * sin angle;
           lat = center_lat self + delta_lat;
           lon = center_lon self + delta_lon
       in emit_point self lat lon interval_seconds i g)"

definition CircularTrackGenerator_generate ::
  "circular_gen \<Rightarrow> int \<Rightarrow> real \<Rightarrow> rng \<Rightarrow> py_error + (track_point list \<times> rng)" where
  "CircularTrackGenerator_generate self num_points interval_seconds g =
     for_each (CircularTrackGenerator_body self num_points interval_seconds) (py_range num_points) g"

definition EllipticalTrackGenerator_body ::
  "elliptical_gen \<Rightarrow> int \<Rightarrow> real \<Rightarrow> nat \<Rightarrow> rng \<Rightarrow> py_error + (track_point \<times> rng)" where
  "EllipticalTrackGenerator_body self num_points interval_seconds i g =
     py_bind (py_truediv (2 * pi) (of_int num_points)) (\<lambda>q.
       let angle = q * real i;
           delta_lat = radius_y self * sin angle;
           delta_lon = radius_x self * cos angle;
           lat = center_lat self + delta_lat;
           lon = center_lon self + delta_lon
       in emit_point self lat lon interval_seconds i g)"

definition EllipticalTrackGenerator_generate ::
  "elliptical_gen \<Rightarrow> int \<Rightarrow> real \<Rightarrow> rng \<Rightarrow> py_error + (track_point list \<times> rng)" where
  "EllipticalTrackGenerator_generate self num_points interval_seconds g =
     for_each (EllipticalTrackGenerator_body self num_points interval_seconds) (py_range num_points) g"

definition FlybyTrackGenerator_body ::
  "flyby_gen \<Rightarrow> int \<Rightarrow> real \<Rightarrow> nat \<Rightarrow> rng \<Rightarrow> py_error + (track_point \<times> rng)" where
  "FlybyTrackGenerator_body self num_points interval_seconds i g =
     (let total_distance = approach_distance self + exit_distance self in
      py_bind (py_truediv (real i) (of_int (num_points - 1))) (\<lambda>frac.
        let offset = - approach_distance self + total_distance * frac;
            delta_lat = offset * cos (bearing self);
            delta_lon = offset * sin (bearing self);
            lat = center_lat self + delta_lat;
            lon = center_lon self + delta_lon
        in emit_point self lat lon interval_seconds i g))"

definition FlybyTrackGenerator_generate ::
  "flyby_gen \<Rightarrow> int \<Rightarrow> real \<Rightarrow> rng \<Rightarrow> py_error + (track_point list \<times> rng)" where
  "FlybyTrackGenerator_generate self num_points interval_seconds g =
     for_each (FlybyTrackGenerator_body self num_points interval_seconds) (py_range num_points) g"

text \<open>
  The perimeter path of the square and rectangle generators: every corner followed by the
  midpoint of the edge to the next corner.
\<close>

definition perimeter_path :: "(real \<times> real) list \<Rightarrow> (real \<times> real) list" where
  "perimeter_path corners =
     concat (map (\<lambda>i.
       let next_corner = corners ! ((i + 1) mod length corners);
           mid_lat = (fst (corners ! i) + fst next_corner) / 2;
           mid_lon = (snd (corners ! i) + snd next_corner) / 2
       in [corners ! i, (mid_lat, mid_lon)]) [0..<length corners])"

definition path_body ::
  "'z base_gen_scheme \<Rightarrow> real \<Rightarrow> nat \<times> (real \<times> real) \<Rightarrow> rng \<Rightarrow> py_error + (track_point \<times> rng)" where
  "path_body self interval_seconds ip g =
     (case ip of (i, (lat, lon)) \<Rightarrow> emit_point self lat lon interval_seconds i g)"

text \<open>From \<open>step = max(1, len(path) // num_points)\<close> to the end of \<open>generate\<close>.\<close>

definition sample_path ::
  "'z base_gen_scheme \<Rightarrow> (real \<times> real) list \<Rightarrow> int \<Rightarrow> real \<Rightarrow> rng
   \<Rightarrow> py_error + (track_point list \<times> rng)" where
  "sample_path self path num_points interval_seconds g =
     py_bind (py_floordiv (int (length path)) num_points) (\<lambda>q.
       let step = max 1 q
       in for_each (path_body self interval_seconds)
            (py_enumerate (slice_step (nat step) path)) g)"

definition square_path :: "square_gen \<Rightarrow> (real \<times> real) list" where
  "square_path self =
     (let half = side_length self / 2;
          corners = [(center_lat self - half, center_lon self - half),
                     (center_lat self - half, center_lon self + half),
                     (center_lat self + half, center_lon self + half),
                     (center_lat self + half, center_lon self - half)]
      in perimeter_path corners)"

definition SquareTrackGenerator_generate ::
  "square_gen \<Rightarrow> int \<Rightarrow> real \<Rightarrow> rng \<Rightarrow> py_error + (track_point list \<times> rng)" where
  "SquareTrackGenerator_generate self num_points interval_seconds g =
     sample_path self (square_path self) num_points interval_seconds g"

definition rectangle_path :: "rectangle_gen \<Rightarrow> (real \<times> real) list" where
  "rectangle_path self =
     (let half_w = width self / 2;
          half_h = height self / 2;
          corners = [(center_lat self - half_h, center_lon self - half_w),
                     (center_lat self - half_h, center_lon self + half_w),
                     (center_lat self + half_h, center_lon self + half_w),
                     (center_lat self + half_h, center_lon self - half_w)]
      in perimeter_path corners)"

definition RectangleTrackGenerator_generate ::
  "rectangle_gen \<Rightarrow> int \<Rightarrow> real \<Rightarrow> rng \<Rightarrow> py_error + (track_point list \<times> rng)" where
  "RectangleTrackGenerator_generate self num_points interval_seconds g =
     sample_path self (rectangle_path self) num_points interval_seconds g"

definition ZigzagTrackGenerator_body ::
  "zigzag_gen \<Rightarrow> int \<Rightarrow> real \<Rightarrow> nat \<Rightarrow> rng \<Rightarrow> py_error + (track_point \<times> rng)" where
  "ZigzagTrackGenerator_body self num_points interval_seconds i g =
     (let total_distance = 0.01 in
      py_bind (if num_points > 1 then py_truediv (real i) (of_int (num_points - 1)) else Inr 0)
        (\<lambda>fraction.
        let main_offset = total_distance * fraction;
            lateral_offset = amplitude self * sin (2 * pi * frequency self * fraction);
            delta_lat_main = main_offset * cos (direction self);
            delta_lon_main = main_offset * sin (direction self);
            delta_lat_perp = lateral_offset * cos (direction self + pi / 2);
            delta_lon_perp = lateral_offset * sin (direction self + pi / 2);
            lat = center_lat self + delta_lat_main + delta_lat_perp;
            lon = center_lon self + delta_lon_main + delta_lon_perp
        in emit_point self lat lon interval_seconds i g))"

definition ZigzagTrackGenerator_generate ::
  "zigzag_gen \<Rightarrow> int \<Rightarrow> real \<Rightarrow> rng \<Rightarrow> py_error + (track_point list \<times> rng)" where
  "ZigzagTrackGenerator_generate self num_points interval_seconds g =
     for_each (ZigzagTrackGenerator_body self num_points interval_seconds) (py_range num_points) g"

definition SpiralTrackGenerator_body ::
  "spiral_gen \<Rightarrow> int \<Rightarrow> real \<Rightarrow> nat \<Rightarrow> rng \<Rightarrow> py_error + (track_point \<times> rng)" where
  "SpiralTrackGenerator_body self num_points interval_seconds i g =
     py_bind (py_truediv (real i) (of_int num_points)) (\<lambda>q.
       let angle = 2 * pi * rotations self * q;
           r = initial_radius self + radius_increment self * real i;
           delta_lat = r * cos angle;
           delta_lon = r * sin angle;
           lat = center_lat self + delta_lat;
           lon = center_lon self + delta_lon
       in emit_point self lat lon interval_seconds i g)"

definition SpiralTrackGenerator_generate ::
  "spiral_gen \<Rightarrow> int \<Rightarrow> real \<Rightarrow> rng \<Rightarrow> py_error + (track_point list \<times> rng)" where
  "SpiralTrackGenerator_generate self num_points interval_seconds g =
     for_each (SpiralTrackGenerator_body self num_points interval_seconds) (py_range num_points) g"

subsection \<open>OwnshipRelativeTrackGenerator\<close>

text \<open>
  A sample of the reference track is a dictionary with numeric values. It comes from an
  ownship file (keys \<open>time\<close>, \<open>lat\<close>, \<open>lon\<close>, \<open>alt\<close> or their long names) or is a
  generated track point, of which only the numeric entries are ever read here.
\<close>

type_synonym sample = "string \<rightharpoonup> real"

definition dict_get :: "sample \<Rightarrow> string \<Rightarrow> real option \<Rightarrow> real option" where
  "dict_get d k dflt = (case d k of Some v \<Rightarrow> Some v | None \<Rightarrow> dflt)"

definition track_point_dict :: "track_point \<Rightarrow> sample" where
  "track_point_dict p =
     [''longitude'' \<mapsto> longitude p, ''latitude'' \<mapsto> latitude p, ''altitude'' \<mapsto> altitude p,
      ''aglAltitude'' \<mapsto> aglAltitude p, ''mslAltitude'' \<mapsto> mslAltitude p,
      ''wgs84Altitude'' \<mapsto> wgs84Altitude p, ''distance_m'' \<mapsto> distance_m p]"

record ownship_relative_gen = base_gen +
  ownship_track :: "sample list"
  separation_distance :: real
  relative_direction :: string
  alt_offset :: real

text \<open>
  \<open>__init__\<close>: the base is built with center \<open>(0, 0, 0)\<close> and the keyword arguments that
  were passed on; \<open>relative_direction\<close> is lowercased.
\<close>

definition OwnshipRelativeTrackGenerator_init ::
  "sample list \<Rightarrow> real \<Rightarrow> string \<Rightarrow> real \<Rightarrow> real option \<Rightarrow> real option \<Rightarrow> int \<Rightarrow> string
   \<Rightarrow> string \<Rightarrow> string \<Rightarrow> real \<Rightarrow> ownship_relative_gen" where
  "OwnshipRelativeTrackGenerator_init own sep dir off mn mx tid src ttype aref now =
     base_gen.extend (BaseTrackGenerator 0 0 0 mn mx tid src ttype aref now)
       (ownship_relative_gen.fields own sep (lower dir) off)"

definition compute_bearing :: "real \<Rightarrow> real \<Rightarrow> real \<Rightarrow> real \<Rightarrow> real" where
  "compute_bearing lat1d lon1d lat2d lon2d =
     (let lat1 = radians lat1d; lon1 = radians lon1d;
          lat2 = radians lat2d; lon2 = radians lon2d;
          d_lon = lon2 - lon1;
          x = sin d_lon * cos lat2;
          y = cos lat1 * sin lat2 - sin lat1 * cos lat2 * cos d_lon;
          b = atan2 x y
      in if b < 0 then b + 2 * pi else b)"

definition destination_arg :: "real \<Rightarrow> real \<Rightarrow> real \<Rightarrow> real" where
  "destination_arg lat_rad angular_distance brg =
     sin lat_rad * cos angular_distance + cos lat_rad * sin angular_distance * cos brg"

definition destination_point :: "real \<Rightarrow> real \<Rightarrow> real \<Rightarrow> real \<Rightarrow> py_error + (real \<times> real)" where
  "destination_point lat lon brg distance =
     (let R = 6371000;
          lat_rad = radians lat;
          lon_rad = radians lon;
          angular_distance = distance / R
      in py_bind (math_asin (destination_arg lat_rad angular_distance brg)) (\<lambda>new_lat.
           let new_lon = lon_rad + atan2 (sin brg * sin angular_distance * cos lat_rad)
                                         (cos angular_distance - sin lat_rad * sin new_lat)
           in Inr (degrees new_lat, degrees new_lon)))"

text \<open>The bearing chosen at sample \<open>i\<close>, with the new value of \<open>previous_bearing\<close>.\<close>

definition choose_bearing ::
  "sample list \<Rightarrow> nat \<Rightarrow> real option \<Rightarrow> real option \<Rightarrow> real option
   \<Rightarrow> py_error + (real \<times> real option)" where
  "choose_bearing ownship i lat lon previous_bearing =
     (if int i < int (length ownship) - 1 then
        (let next_pt = ownship ! (i + 1);
             lat2 = dict_get next_pt ''lat'' (next_pt ''latitude'');
             lon2 = dict_get next_pt ''lon'' (next_pt ''longitude'')
         in py_bind (number lat) (\<lambda>a.
            py_bind (number lon) (\<lambda>b.
            py_bind (number lat2) (\<lambda>c.
            py_bind (number lon2) (\<lambda>d.
              let brg = compute_bearing a b c d in Inr (brg, Some brg))))))
      else (case previous_bearing of
              Some brg \<Rightarrow> Inr (brg, previous_bearing)
            | None \<Rightarrow> Inr (0, previous_bearing)))"

definition choose_offset :: "string \<Rightarrow> real \<Rightarrow> real \<Rightarrow> real \<times> real" where
  "choose_offset rel_dir brg sep =
     (if rel_dir = ''ahead'' then (brg, sep)
      else if rel_dir = ''behind'' then (brg, - sep)
      else if rel_dir = ''opposite'' then (py_fmod (brg + pi) (2 * pi), sep)
      else (brg, sep))"

definition OwnshipRelativeTrackGenerator_body ::
  "ownship_relative_gen \<Rightarrow> nat \<times> sample \<Rightarrow> real option \<times> rng
   \<Rightarrow> py_error + (track_point \<times> (real option \<times> rng))" where
  "OwnshipRelativeTrackGenerator_body self ipt st =
     (case ipt of (i, pt) \<Rightarrow> case st of (previous_bearing, g) \<Rightarrow>
      let lat = dict_get pt ''lat'' (pt ''latitude'');
          lon = dict_get pt ''lon'' (pt ''longitude'');
          alt = dict_get pt ''alt'' (pt ''altitude'');
          time_delta = (case pt ''time'' of Some t \<Rightarrow> t | None \<Rightarrow> real (i * 10))
      in py_bind (choose_bearing (ownship_track self) i lat lon previous_bearing) (\<lambda>(brg, prev').
           let (offset_bearing, offset_distance) =
                 choose_offset (relative_direction self) brg (separation_distance self)
           in py_bind (number lat) (\<lambda>a.
              py_bind (number lon) (\<lambda>b.
              py_bind (destination_point a b offset_bearing offset_distance) (\<lambda>(new_lat, new_lon).
              py_bind (number alt) (\<lambda>h.
                let new_alt = h + alt_offset self
                in py_bind (create_track_point self new_lon new_lat new_alt time_delta g)
                     (\<lambda>(tp, g'). Inr (tp, (prev', g')))))))))"

definition OwnshipRelativeTrackGenerator_generate ::
  "ownship_relative_gen \<Rightarrow> rng \<Rightarrow> py_error + (track_point list \<times> rng)" where
  "OwnshipRelativeTrackGenerator_generate self g =
     py_bind (for_each (OwnshipRelativeTrackGenerator_body self)
                (py_enumerate (ownship_track self)) (None, g))
       (\<lambda>(points, st). Inr (points, snd st))"

subsection \<open>load\_ownship\_trajectory\<close>

text \<open>
  The files are outside the program: \<open>open_json path\<close> is the outcome of opening \<open>path\<close>
  and \<open>json.load\<close> on it, \<open>open_csv path\<close> the outcome of opening it and reading all rows
  with \<open>csv.reader\<close>, and \<open>py_float s\<close> is \<open>float(s)\<close>, \<open>None\<close> where it raises.
\<close>

record file_env =
  open_json :: "string \<Rightarrow> py_error + sample list"
  open_csv :: "string \<Rightarrow> py_error + string list list"
  py_float :: "string \<Rightarrow> real option"

definition normalize_keys :: "sample \<Rightarrow> sample" where
  "normalize_keys pt =
     (let pt1 = (if pt ''lat'' = None \<and> pt ''latitude'' \<noteq> None
                 then pt(''lat'' := pt ''latitude'') else pt);
          pt2 = (if pt1 ''lon'' = None \<and> pt1 ''longitude'' \<noteq> None
                 then pt1(''lon'' := pt1 ''longitude'') else pt1);
          pt3 = (if pt2 ''alt'' = None \<and> pt2 ''altitude'' \<noteq> None
                 then pt2(''alt'' := pt2 ''altitude'') else pt2)
      in pt3)"

text \<open>
  The \<open>try\<close> block of the CSV loop: any exception in it (a short row, a cell that is not
  a number) skips the row.
\<close>

definition csv_lat_lon_alt :: "file_env \<Rightarrow> string list \<Rightarrow> (real \<times> real \<times> real) option" where
  "csv_lat_lon_alt env row =
     (if length row < 3 then None
      else case (py_float env (row ! 0), py_float env (row ! 1), py_float env (row ! 2)) of
             (Some lat, Some lon, Some alt) \<Rightarrow> Some (lat, lon, alt)
           | _ \<Rightarrow> None)"

fun csv_loop :: "file_env \<Rightarrow> (nat \<times> string list) list \<Rightarrow> py_error + sample list" where
  "csv_loop env [] = Inr []"
| "csv_loop env ((i, row) # rest) =
     (case csv_lat_lon_alt env row of
        None \<Rightarrow> csv_loop env rest
      | Some (lat, lon, alt) \<Rightarrow>
          py_bind (if length row > 3
                   then (case py_float env (row ! 3) of
                           None \<Rightarrow> Inl (ValueError ''could not convert string to float'')
                         | Some t \<Rightarrow> Inr t)
                   else Inr (real i)) (\<lambda>time_val.
          py_bind (csv_loop env rest) (\<lambda>trajectory.
            Inr ([''time'' \<mapsto> time_val, ''lat'' \<mapsto> lat, ''lon'' \<mapsto> lon, ''alt'' \<mapsto> alt]
                 # trajectory))))"

definition unsupported_format :: py_error where
  "unsupported_format = ValueError ''Unsupported ownship format. Use 'json' or 'csv'.''"

definition load_ownship_trajectory :: "file_env \<Rightarrow> string \<Rightarrow> string \<Rightarrow> py_error + sample list" where
  "load_ownship_trajectory env file_path file_format =
     (if lower file_format = ''json'' then
        py_bind (open_json env file_path) (\<lambda>data. Inr (map normalize_keys data))
      else if lower file_format = ''csv'' then
        py_bind (open_csv env file_path) (\<lambda>rows. csv_loop env (py_enumerate rows))
      else Inl unsupported_format)"

subsection \<open>ArtificialTrackGenerator\<close>

datatype generator =
    RandomTrackGenerator base_gen
  | CircularTrackGenerator circular_gen
  | EllipticalTrackGenerator elliptical_gen
  | FlybyTrackGenerator flyby_gen
  | SquareTrackGenerator square_gen
  | RectangleTrackGenerator rectangle_gen
  | ZigzagTrackGenerator zigzag_gen
  | SpiralTrackGenerator spiral_gen

text \<open>The method call \<open>generator.generate(num_points, interval_seconds)\<close>.\<close>

fun generator_generate ::
  "generator \<Rightarrow> int \<Rightarrow> real \<Rightarrow> rng \<Rightarrow> py_error + (track_point list \<times> rng)" where
  "generator_generate (RandomTrackGenerator self) = RandomTrackGenerator_generate self"
| "generator_generate (CircularTrackGenerator self) = CircularTrackGenerator_generate self"
| "generator_generate (EllipticalTrackGenerator self) = EllipticalTrackGenerator_generate self"
| "generator_generate (FlybyTrackGenerator self) = FlybyTrackGenerator_generate self"
| "generator_generate (SquareTrackGenerator self) = SquareTrackGenerator_generate self"
| "generator_generate (RectangleTrackGenerator self) = RectangleTrackGenerator_generate self"
| "generator_generate (ZigzagTrackGenerator self) = ZigzagTrackGenerator_generate self"
| "generator_generate (SpiralTrackGenerator self) = SpiralTrackGenerator_generate self"

text \<open>The assignment \<open>generator.start_time = t\<close>.\<close>

fun set_start_time :: "real \<Rightarrow> generator \<Rightarrow> generator" where
  "set_start_time t (RandomTrackGenerator self) = RandomTrackGenerator (self\<lparr>start_time := t\<rparr>)"
| "set_start_time t (CircularTrackGenerator self) = CircularTrackGenerator (self\<lparr>start_time := t\<rparr>)"
| "set_start_time t (EllipticalTrackGenerator self) =
     EllipticalTrackGenerator (self\<lparr>start_time := t\<rparr>)"
| "set_start_time t (FlybyTrackGenerator self) = FlybyTrackGenerator (self\<lparr>start_time := t\<rparr>)"
| "set_start_time t (SquareTrackGenerator self) = SquareTrackGenerator (self\<lparr>start_time := t\<rparr>)"
| "set_start_time t (RectangleTrackGenerator self) =
     RectangleTrackGenerator (self\<lparr>start_time := t\<rparr>)"
| "set_start_time t (ZigzagTrackGenerator self) = ZigzagTrackGenerator (self\<lparr>start_time := t\<rparr>)"
| "set_start_time t (SpiralTrackGenerator self) = SpiralTrackGenerator (self\<lparr>start_time := t\<rparr>)"

text \<open>
  The attributes of \<open>ArtificialTrackGenerator\<close>; those that share a name with an attribute
  of the generators carry the prefix \<open>cfg\<close>.
\<close>

record artificial_gen =
  num_tracks :: int
  track_generator_class :: string
  cfg_center_lat :: real
  cfg_center_lon :: real
  cfg_center_alt :: real
  cfg_separation_distance :: real
  time_delay :: real
  cfg_min_alt :: real
  cfg_max_alt :: real
  fly_along :: bool
  initial_track_id :: int
  ownship_trajectory_file :: "string option"
  ownship_format :: string
  cfg_num_points :: int
  cfg_interval_seconds :: real

definition ArtificialTrackGenerator_init ::
  "int \<Rightarrow> string \<Rightarrow> real \<Rightarrow> real \<Rightarrow> real \<Rightarrow> real \<Rightarrow> real \<Rightarrow> real option \<Rightarrow> real option \<Rightarrow> bool
   \<Rightarrow> string option \<Rightarrow> string \<Rightarrow> int \<Rightarrow> real \<Rightarrow> artificial_gen" where
  "ArtificialTrackGenerator_init n cls clat clon calt sep delay mn mx fly file fmt npts ival =
     \<lparr> num_tracks = n, track_generator_class = lower cls,
       cfg_center_lat = clat, cfg_center_lon = clon, cfg_center_alt = calt,
       cfg_separation_distance = sep, time_delay = delay,
       cfg_min_alt = (case mn of Some m \<Rightarrow> m | None \<Rightarrow> calt),
       cfg_max_alt = (case mx of Some m \<Rightarrow> m | None \<Rightarrow> calt),
       fly_along = fly, initial_track_id = 10000,
       ownship_trajectory_file = file, ownship_format = fmt,
       cfg_num_points = npts, cfg_interval_seconds = ival \<rparr>"

text \<open>
  \<open>_select_generator(**kwargs)\<close>; \<open>b\<close> is the base object that \<open>BaseTrackGenerator.__init__\<close>
  builds from \<open>kwargs\<close>, and the shape parameters take the defaults of each subclass.
\<close>

definition select_generator :: "artificial_gen \<Rightarrow> base_gen \<Rightarrow> generator" where
  "select_generator self b =
     (let gen_class = track_generator_class self in
      if gen_class = ''random'' then RandomTrackGenerator b
      else if gen_class = ''circular'' then
        CircularTrackGenerator (CircularTrackGenerator_init b 0.005)
      else if gen_class = ''elliptical'' then
        EllipticalTrackGenerator (EllipticalTrackGenerator_init b 0.01 0.005)
      else if gen_class = ''flyby'' then
        FlybyTrackGenerator (FlybyTrackGenerator_init b 0.02 0.02 45)
      else if gen_class = ''square'' then
        SquareTrackGenerator (SquareTrackGenerator_init b 0.02)
      else if gen_class = ''rectangle'' then
        RectangleTrackGenerator (RectangleTrackGenerator_init b 0.03 0.01)
      else if gen_class = ''zigzag'' then
        ZigzagTrackGenerator (ZigzagTrackGenerator_init b 0 0.005 2)
      else if gen_class = ''spiral'' then
        SpiralTrackGenerator (SpiralTrackGenerator_init b 0.002 0.001 3)
      else RandomTrackGenerator b)"

text \<open>
  \<open>generate_track\<close>; \<open>now\<close> is the clock reading taken by \<open>__init__\<close>, replaced by
  \<open>start_time\<close> before any point is made.
\<close>

definition generate_track ::
  "artificial_gen \<Rightarrow> real \<Rightarrow> int \<Rightarrow> real \<Rightarrow> real \<Rightarrow> real \<Rightarrow> rng
   \<Rightarrow> py_error + (track_point list \<times> rng)" where
  "generate_track self now tid clat clon t0 g =
     (let b = BaseTrackGenerator clat clon (cfg_center_alt self)
                (Some (cfg_min_alt self)) (Some (cfg_max_alt self)) tid
                ''ARTIFICIAL'' ''Surveillance'' ''MSL'' now;
          generator = set_start_time t0 (select_generator self b)
      in generator_generate generator (cfg_num_points self) (cfg_interval_seconds self) g)"

text \<open>
  A generated track is a list of track points; in fly-along mode with an ownship file the
  first track is the list of samples read from the file.
\<close>

datatype track = TrackPoints "track_point list" | OwnshipSamples "sample list"

definition independent_track ::
  "artificial_gen \<Rightarrow> real \<Rightarrow> nat \<Rightarrow> rng \<Rightarrow> py_error + (track \<times> rng)" where
  "independent_track self base_start_time i g =
     (let offset_deg = cfg_separation_distance self * real i;
          track_center_lat = cfg_center_lat self + offset_deg;
          track_center_lon = cfg_center_lon self;
          track_start_time = base_start_time + real i * time_delay self
      in py_bind (generate_track self base_start_time (initial_track_id self + int i)
                    track_center_lat track_center_lon track_start_time g)
           (\<lambda>(points, g'). Inr (TrackPoints points, g')))"

definition relative_track ::
  "artificial_gen \<Rightarrow> sample list \<Rightarrow> real \<Rightarrow> nat \<Rightarrow> rng \<Rightarrow> py_error + (track \<times> rng)" where
  "relative_track self ownship base_start_time i g =
     (let track_start_time = base_start_time + real i * time_delay self;
          relative_generator =
            OwnshipRelativeTrackGenerator_init ownship (cfg_separation_distance self * 111000)
              ''ahead'' 0 None None (initial_track_id self + int i)
              ''ARTIFICIAL'' ''Surveillance'' ''MSL'' base_start_time
      in py_bind (OwnshipRelativeTrackGenerator_generate
                    (relative_generator\<lparr>start_time := track_start_time\<rparr>) g)
           (\<lambda>(points, g'). Inr (TrackPoints points, g')))"

definition ArtificialTrackGenerator_generate ::
  "artificial_gen \<Rightarrow> file_env \<Rightarrow> real \<Rightarrow> rng \<Rightarrow> py_error + (track list \<times> rng)" where
  "ArtificialTrackGenerator_generate self env base_start_time g =
     (if fly_along self then
        py_bind
          (case ownship_trajectory_file self of
             Some path \<Rightarrow>
               (if path \<noteq> [] then
                  py_bind (load_ownship_trajectory env path (ownship_format self))
                    (\<lambda>samples. Inr (OwnshipSamples samples, samples, g))
                else
                  py_bind (generate_track self base_start_time (initial_track_id self)
                             (cfg_center_lat self) (cfg_center_lon self) base_start_time g)
                    (\<lambda>(points, g'). Inr (TrackPoints points, map track_point_dict points, g')))
           | None \<Rightarrow>
               py_bind (generate_track self base_start_time (initial_track_id self)
                          (cfg_center_lat self) (cfg_center_lon self) base_start_time g)
                 (\<lambda>(points, g'). Inr (TrackPoints points, map track_point_dict points, g')))
          (\<lambda>(first, ownship, g1).
             py_bind (for_each (relative_track self ownship base_start_time)
                        [1..<nat (num_tracks self)] g1)
               (\<lambda>(rest, g2). Inr (first # rest, g2)))
      else for_each (independent_track self base_start_time) (py_range (num_tracks self)) g)"

section \<open>scenario\_generator.py\<close>

text \<open>
  The trajectory folder is outside the program: \<open>listdir\<close> is the result of \<open>os.listdir\<close>
  and \<open>json_load path\<close> the outcome of opening \<open>path\<close> and \<open>json.load\<close> on it, a list of
  waypoints.
\<close>

record folder =
  listdir :: "string list"
  json_load :: "string \<Rightarrow> py_error + sample list"

definition endswith :: "string \<Rightarrow> string \<Rightarrow> bool" where
  "endswith s suffix \<longleftrightarrow>
     length suffix \<le> length s \<and> drop (length s - length suffix) s = suffix"

text \<open>\<open>s.split('_')[0]\<close>: the text before the first underscore.\<close>

definition split_first :: "string \<Rightarrow> string" where
  "split_first s = takeWhile (\<lambda>c. c \<noteq> CHR ''_'') s"

text \<open>\<open>os.path.join\<close> of two components on a POSIX system.\<close>

definition path_join :: "string \<Rightarrow> string \<Rightarrow> string" where
  "path_join a b =
     (if b \<noteq> [] \<and> hd b = CHR ''/'' then b
      else if a = [] \<or> last a = CHR ''/'' then a @ b
      else a @ ''/'' @ b)"

text \<open>
  The entries of the scenario document that depend on the input. The fixed entries
  (clock, weather, renderers, asset paths, transforms, message types, the constant initial
  values of the models) are left out.
\<close>

record world_origin =
  origin_latitude :: real
  origin_longitude :: real
  origin_altitude :: real

record actor =
  actor_name :: string
  actor_description :: string
  state_topic :: string
  effector_topic :: string
  trajectory_visualization_topic :: string

record sensor_config =
  sensor_name :: string
  sensor_parent :: "string option"

record fmu_model =
  fmu_id :: string
  fmu_model_path :: string
  component_input_topics :: "string list"
  component_output_topics :: "string list"
  fmu_initial_vals :: "(string \<times> string) list"

text \<open>
  The state of the loop over the trajectory files: the scenario under construction and the
  list \<open>add_sensors_to_vehicles\<close>, which the loop appends to. An \<open>origin\<close> of \<open>None\<close> is
  the empty dictionary the scenario starts with.
\<close>

record scenario =
  origin :: "world_origin option"
  sync_topics :: "(string \<times> int) list"
  actors :: "actor list"
  sensors :: "sensor_config list"
  fmu_models :: "fmu_model list"
  add_sensors_to_vehicles :: "string list"

definition sensor_fmu :: "string \<Rightarrow> string \<Rightarrow> string \<Rightarrow> string \<Rightarrow> fmu_model" where
  "sensor_fmu kind actor_nm vehicle_topic model_path =
     \<lparr> fmu_id = kind @ ''_publisher'',
       fmu_model_path = model_path,
       component_input_topics = [vehicle_topic],
       component_output_topics = [],
       fmu_initial_vals =
         [(''output_'' @ kind @ ''_topic_name'', ''aerosim.'' @ actor_nm @ ''.sensor.'' @ kind)] \<rparr>"

text \<open>One iteration of the loop, for file number \<open>idx\<close> (counted from 1).\<close>

definition scenario_step ::
  "folder \<Rightarrow> string \<Rightarrow> string \<Rightarrow> sensor_config list \<Rightarrow> nat \<times> string \<Rightarrow> scenario
   \<Rightarrow> py_error + scenario" where
  "scenario_step dir trajectories_folder fmu_path sensor_configs it sc =
     (case it of (idx, traj_file) \<Rightarrow>
      let track_id = split_first traj_file;
          traj_path = path_join trajectories_folder traj_file
      in py_bind (json_load dir traj_path) (\<lambda>waypoints.
         if waypoints = [] then Inr sc
         else
           let first_waypoint = hd waypoints in
           py_bind
             (if idx = 1 then
                (case first_waypoint ''lat'' of
                   None \<Rightarrow> Inl (KeyError ''lat'')
                 | Some lat \<Rightarrow>
                     (case first_waypoint ''lon'' of
                        None \<Rightarrow> Inl (KeyError ''lon'')
                      | Some lon \<Rightarrow>
                          Inr (sc\<lparr>origin := Some
                                 \<lparr> origin_latitude = lat, origin_longitude = lon,
                                   origin_altitude =
                                     (case first_waypoint ''alt'' of
                                        Some alt \<Rightarrow> alt | None \<Rightarrow> 116.09) \<rparr>\<rparr>)))
              else Inr sc) (\<lambda>sc1.
           let actor_nm = ''actor'' @ track_id;
               vehicle_topic = ''aerosim.'' @ actor_nm @ ''.vehicle_state'';
               trajectory_vis_topic = ''aerosim.'' @ actor_nm @ ''.trajectory_visualization'';
               effector_tp = ''aerosim.'' @ actor_nm @ ''.effector1.state'';
               sc2 = sc1\<lparr>sync_topics := sync_topics sc1 @ [(vehicle_topic, 20)]\<rparr>;
               new_actor = \<lparr> actor_name = actor_nm,
                             actor_description = ''Trajectory follower '' @ track_id,
                             state_topic = vehicle_topic,
                             effector_topic = effector_tp,
                             trajectory_visualization_topic = trajectory_vis_topic \<rparr>;
               sc3 = sc2\<lparr>actors := actors sc2 @ [new_actor]\<rparr>;
               sc4 = (if idx = 1 \<and> add_sensors_to_vehicles sc3 = []
                      then sc3\<lparr>add_sensors_to_vehicles := add_sensors_to_vehicles sc3 @ [actor_nm]\<rparr>
                      else sc3);
               sc5 = (if actor_nm \<in> set (add_sensors_to_vehicles sc4)
                      then sc4\<lparr>sensors := sensors sc4 @
                             map (\<lambda>sensor. sensor\<lparr>sensor_parent := Some actor_nm\<rparr>) sensor_configs\<rparr>
                      else sc4);
               traj_follower_fmu =
                 \<lparr> fmu_id = ''trajectory_follower_'' @ track_id,
                   fmu_model_path = fmu_path,
                   component_input_topics = [],
                   component_output_topics = [vehicle_topic, trajectory_vis_topic],
                   fmu_initial_vals =
                     [(''waypoints_json_path'', path_join trajectories_folder traj_file)] \<rparr>;
               sc6 = sc5\<lparr>fmu_models := fmu_models sc5 @ [traj_follower_fmu]\<rparr>;
               sc7 = (if idx = 1
                      then sc6\<lparr>fmu_models := fmu_models sc6 @
                             [sensor_fmu ''gnss'' actor_nm vehicle_topic ''fmu/gnss_sensor_fmu_model.fmu'',
                              sensor_fmu ''adsb'' actor_nm vehicle_topic ''fmu/adsb_sensor_fmu_model.fmu'',
                              sensor_fmu ''imu'' actor_nm vehicle_topic ''fmu/imu_sensor_fmu_model.fmu'']\<rparr>
                      else sc6)
           in Inr sc7)))"

fun scenario_loop ::
  "folder \<Rightarrow> string \<Rightarrow> string \<Rightarrow> sensor_config list \<Rightarrow> (nat \<times> string) list \<Rightarrow> scenario
   \<Rightarrow> py_error + scenario" where
  "scenario_loop dir tf fp scs [] sc = Inr sc"
| "scenario_loop dir tf fp scs (it # rest) sc =
     py_bind (scenario_step dir tf fp scs it sc) (scenario_loop dir tf fp scs rest)"

text \<open>The sorted list of trajectory files, numbered from 1.\<close>

definition trajectory_files :: "folder \<Rightarrow> (nat \<times> string) list" where
  "trajectory_files dir =
     (let files = sort (filter (\<lambda>f. endswith f ''_trajectory.json'') (listdir dir))
      in zip [1..<Suc (length files)] files)"

text \<open>
  \<open>generate_scenario_json\<close> up to the point where the scenario is written out; the result
  is the scenario that is dumped to the output file.
\<close>

definition generate_scenario_json ::
  "folder \<Rightarrow> string \<Rightarrow> string \<Rightarrow> sensor_config list option \<Rightarrow> string list option
   \<Rightarrow> py_error + scenario" where
  "generate_scenario_json dir trajectories_folder fmu_path sensor_configs_arg add_sensors_arg =
     (let sensor_configs =
            (case sensor_configs_arg of
               None \<Rightarrow> [\<lparr> sensor_name = ''rgb_camera_0'', sensor_parent = None \<rparr>]
             | Some scs \<Rightarrow> scs);
          add_sensors = (case add_sensors_arg of None \<Rightarrow> [] | Some vs \<Rightarrow> vs);
          sc0 = \<lparr> origin = None, sync_topics = [], actors = [], sensors = [],
                  fmu_models = [], add_sensors_to_vehicles = add_sensors \<rparr>
      in scenario_loop dir trajectories_folder fmu_path sensor_configs (trajectory_files dir) sc0)"

section \<open>utils.py\<close>










section \<open>Notions used in the statements\<close>

text \<open>What every loop body establishes about the point it appends.\<close>

definition emitted ::
  "'z base_gen_scheme \<Rightarrow> real \<Rightarrow> real \<Rightarrow> real \<Rightarrow> nat \<Rightarrow> rng \<Rightarrow> track_point \<Rightarrow> rng \<Rightarrow> bool" where
  "emitted self lat lon ival i g p g' \<longleftrightarrow>
     latitude p = lat \<and> longitude p = lon
     \<and> altitude p = min_alt self + (max_alt self - min_alt self) * unit_draws g (unit_pos g)
     \<and> timestamp p = start_time self + real i * ival
     \<and> trackId p = format_05d (track_id self)
     \<and> unit_draws g' = unit_draws g \<and> int_draws g' = int_draws g"

text \<open>The angle of point \<open>i\<close> in \<open>CircularTrackGenerator.generate\<close>.\<close>

definition circular_angle :: "int \<Rightarrow> nat \<Rightarrow> real" where
  "circular_angle num_points i = (2 * pi / of_int num_points) * real i"

definition in_band :: "'z base_gen_scheme \<Rightarrow> track_point \<Rightarrow> bool" where
  "in_band self p \<longleftrightarrow>
     min (min_alt self) (max_alt self) \<le> altitude p
     \<and> altitude p \<le> max (min_alt self) (max_alt self)"

definition stamped :: "'z base_gen_scheme \<Rightarrow> real \<Rightarrow> nat \<Rightarrow> track_point \<Rightarrow> bool" where
  "stamped self ival i p \<longleftrightarrow>
     timestamp p = start_time self + real i * ival
     \<and> trackId p = format_05d (track_id self)"

fun gen_base :: "generator \<Rightarrow> base_gen" where
  "gen_base (RandomTrackGenerator self) = self"
| "gen_base (CircularTrackGenerator self) = base_gen.truncate self"
| "gen_base (EllipticalTrackGenerator self) = base_gen.truncate self"
| "gen_base (FlybyTrackGenerator self) = base_gen.truncate self"
| "gen_base (SquareTrackGenerator self) = base_gen.truncate self"
| "gen_base (RectangleTrackGenerator self) = base_gen.truncate self"
| "gen_base (ZigzagTrackGenerator self) = base_gen.truncate self"
| "gen_base (SpiralTrackGenerator self) = base_gen.truncate self"

text \<open>
  When \<open>generate\<close> of a maneuver generator raises \<open>ZeroDivisionError\<close>, and the stride of
  the square and rectangle generators.
\<close>

fun raises_zero_division :: "generator \<Rightarrow> int \<Rightarrow> bool" where
  "raises_zero_division (FlybyTrackGenerator self) n = (n = 1)"
| "raises_zero_division (SquareTrackGenerator self) n = (n = 0)"
| "raises_zero_division (RectangleTrackGenerator self) n = (n = 0)"
| "raises_zero_division gen n = False"

definition path_step :: "(real \<times> real) list \<Rightarrow> int \<Rightarrow> nat" where
  "path_step path num_points = nat (max 1 (int (length path) div num_points))"

text \<open>The selectors that \<open>_select_generator\<close> tests for.\<close>

definition maneuver_names :: "string set" where
  "maneuver_names = {''random'', ''circular'', ''elliptical'', ''flyby'', ''square'',
     ''rectangle'', ''zigzag'', ''spiral''}"

text \<open>The configurations whose every call of \<open>generate_track\<close> raises \<open>ZeroDivisionError\<close>.\<close>

definition config_raises :: "artificial_gen \<Rightarrow> bool" where
  "config_raises self \<longleftrightarrow>
     track_generator_class self = ''flyby'' \<and> cfg_num_points self = 1
     \<or> track_generator_class self \<in> {''square'', ''rectangle''} \<and> cfg_num_points self = 0"

text \<open>What \<open>generate_track\<close> establishes about point \<open>k\<close> of the track it returns.\<close>

definition track_point_ok :: "artificial_gen \<Rightarrow> int \<Rightarrow> real \<Rightarrow> nat \<Rightarrow> track_point \<Rightarrow> bool" where
  "track_point_ok self tid t0 k p \<longleftrightarrow>
     trackId p = format_05d tid
     \<and> timestamp p = t0 + real k * cfg_interval_seconds self
     \<and> min (cfg_min_alt self) (cfg_max_alt self) \<le> altitude p
     \<and> altitude p \<le> max (cfg_min_alt self) (cfg_max_alt self)"

text \<open>
  The position of a reference sample as \<open>OwnshipRelativeTrackGenerator.generate\<close> reads it
  (key \<open>lat\<close>, else \<open>latitude\<close>, and so on). The next three notions follow the loop and
  serve its invariant: the value \<open>compute_bearing\<close> returns for the segment from sample
  \<open>i\<close> to sample \<open>i + 1\<close>, the point that \<open>destination_point\<close> returns for a sample and
  a bearing, and the bearing the loop uses at sample \<open>i\<close>.
\<close>

definition sample_lat :: "sample \<Rightarrow> real option" where
  "sample_lat pt = dict_get pt ''lat'' (pt ''latitude'')"

definition sample_lon :: "sample \<Rightarrow> real option" where
  "sample_lon pt = dict_get pt ''lon'' (pt ''longitude'')"

definition sample_alt :: "sample \<Rightarrow> real option" where
  "sample_alt pt = dict_get pt ''alt'' (pt ''altitude'')"

definition positioned :: "sample \<Rightarrow> bool" where
  "positioned pt \<longleftrightarrow> sample_lat pt \<noteq> None \<and> sample_lon pt \<noteq> None \<and> sample_alt pt \<noteq> None"

definition segment_bearing :: "sample list \<Rightarrow> nat \<Rightarrow> real" where
  "segment_bearing own i =
     compute_bearing (the (sample_lat (own ! i))) (the (sample_lon (own ! i)))
       (the (sample_lat (own ! Suc i))) (the (sample_lon (own ! Suc i)))"

definition displaced :: "ownship_relative_gen \<Rightarrow> sample \<Rightarrow> real \<Rightarrow> track_point \<Rightarrow> bool" where
  "displaced self pt brg p \<longleftrightarrow>
     (case choose_offset (relative_direction self) brg (separation_distance self) of
        (offset_bearing, offset_distance) \<Rightarrow>
          destination_point (the (sample_lat pt)) (the (sample_lon pt))
            offset_bearing offset_distance = Inr (latitude p, longitude p))
     \<and> altitude p = the (sample_alt pt) + alt_offset self"

definition bearing_at :: "sample list \<Rightarrow> nat \<Rightarrow> real" where
  "bearing_at own i =
     (if Suc i < length own then segment_bearing own i
      else if 2 \<le> length own then segment_bearing own (length own - 2)
      else 0)"

text \<open>
  The great circle on the sphere of radius 6371000 m, written out: the initial bearing, in
  radians in \<open>[0, 2 pi)\<close>, of the great circle from one position to another, and the
  position reached from a position by travelling a distance along a bearing (a negative
  distance leads backwards). \<open>relative_position\<close> is the position at the separation distance
  from a position for each relative direction: along the bearing for \<open>ahead\<close> (and for
  any unknown direction), backwards along the bearing for \<open>behind\<close>, and along the bearing
  turned by \<open>pi\<close> for \<open>opposite\<close>. \<open>placed_along\<close> says that a track point is at that
  position of a reference sample, at the altitude of the sample plus the altitude offset.
\<close>

definition initial_bearing :: "real \<Rightarrow> real \<Rightarrow> real \<Rightarrow> real \<Rightarrow> real" where
  "initial_bearing lat1 lon1 lat2 lon2 =
     (let theta = atan2 (sin (radians lon2 - radians lon1) * cos (radians lat2))
                    (cos (radians lat1) * sin (radians lat2)
                       - sin (radians lat1) * cos (radians lat2) * cos (radians lon2 - radians lon1))
      in if theta < 0 then theta + 2 * pi else theta)"

definition great_circle_destination :: "real \<Rightarrow> real \<Rightarrow> real \<Rightarrow> real \<Rightarrow> real \<times> real" where
  "great_circle_destination lat lon theta d =
     (let delta = d / 6371000;
          lat2 = arcsin (sin (radians lat) * cos delta + cos (radians lat) * sin delta * cos theta);
          lon2 = radians lon + atan2 (sin theta * sin delta * cos (radians lat))
                                 (cos delta - sin (radians lat) * sin lat2)
      in (degrees lat2, degrees lon2))"

definition relative_position :: "string \<Rightarrow> real \<Rightarrow> real \<Rightarrow> real \<Rightarrow> real \<Rightarrow> real \<times> real" where
  "relative_position rel_dir sep lat lon theta =
     (if rel_dir = ''behind'' then great_circle_destination lat lon theta (- sep)
      else if rel_dir = ''opposite''
      then great_circle_destination lat lon (py_fmod (theta + pi) (2 * pi)) sep
      else great_circle_destination lat lon theta sep)"

definition reference_bearing :: "sample list \<Rightarrow> nat \<Rightarrow> real" where
  "reference_bearing own i =
     initial_bearing (the (sample_lat (own ! i))) (the (sample_lon (own ! i)))
       (the (sample_lat (own ! Suc i))) (the (sample_lon (own ! Suc i)))"

definition placed_along :: "ownship_relative_gen \<Rightarrow> sample \<Rightarrow> real \<Rightarrow> track_point \<Rightarrow> bool" where
  "placed_along self pt theta p \<longleftrightarrow>
     (latitude p, longitude p)
       = relative_position (relative_direction self) (separation_distance self)
           (the (sample_lat pt)) (the (sample_lon pt)) theta
     \<and> altitude p = the (sample_alt pt) + alt_offset self"

text \<open>
  The tracks of \<open>ArtificialTrackGenerator\<close>, written out. \<open>track_length\<close> is the number of
  points of a track: the square and rectangle generators sample their 8-point perimeter at
  the stride \<open>max(1, 8 // num_points)\<close>, every other generator makes \<open>num_points\<close> points.
  \<open>perimeter_offsets h w\<close> lists the corners and edge midpoints of the perimeter relative
  to its center, for the half height \<open>h\<close> (latitude) and the half width \<open>w\<close> (longitude).
  \<open>maneuver_offset\<close> is the offset (latitude, longitude) of point \<open>j\<close> from the center of
  its track for the seven shaped maneuvers, with the shape parameters that
  \<open>_select_generator\<close> leaves at their defaults. \<open>track_point_at\<close> says that a point is
  point \<open>j\<close> of a track around a center: at the offset of the maneuver, or, for the
  random generator (the selector \<open>random\<close> or an unknown one), within 0.01 degrees of the
  center in latitude and in longitude.
\<close>

definition track_length :: "artificial_gen \<Rightarrow> nat" where
  "track_length self =
     (if track_generator_class self \<in> {''square'', ''rectangle''}
      then (let stride = nat (max 1 (8 div cfg_num_points self)) in (7 + stride) div stride)
      else nat (cfg_num_points self))"

definition perimeter_offsets :: "real \<Rightarrow> real \<Rightarrow> (real \<times> real) list" where
  "perimeter_offsets h w =
     [(- h, - w), (- h, 0), (- h, w), (0, w), (h, w), (h, 0), (h, - w), (0, - w)]"

definition maneuver_offset :: "string \<Rightarrow> int \<Rightarrow> nat \<Rightarrow> real \<times> real" where
  "maneuver_offset cls n j =
     (if cls = ''circular'' then
        (let a = 2 * pi / of_int n * real j in (0.005 * cos a, 0.005 * sin a))
      else if cls = ''elliptical'' then
        (let a = 2 * pi / of_int n * real j in (0.005 * sin a, 0.01 * cos a))
      else if cls = ''flyby'' then
        (let along = - 0.02 + 0.04 * (real j / of_int (n - 1))
         in (along * cos (radians 45), along * sin (radians 45)))
      else if cls = ''square'' then perimeter_offsets 0.01 0.01 ! (j * nat (max 1 (8 div n)))
      else if cls = ''rectangle'' then perimeter_offsets 0.005 0.015 ! (j * nat (max 1 (8 div n)))
      else if cls = ''zigzag'' then
        (let f = (if 1 < n then real j / of_int (n - 1) else 0)
         in (0.01 * f, 0.005 * sin (2 * pi * 2 * f)))
      else
        (let a = 2 * pi * 3 * (real j / of_int n); r = 0.002 + 0.001 * real j
         in (r * cos a, r * sin a)))"

definition track_point_at :: "artificial_gen \<Rightarrow> real \<Rightarrow> real \<Rightarrow> nat \<Rightarrow> track_point \<Rightarrow> bool" where
  "track_point_at self clat clon j p \<longleftrightarrow>
     (if track_generator_class self \<in> {''circular'', ''elliptical'', ''flyby'', ''square'',
          ''rectangle'', ''zigzag'', ''spiral''}
      then latitude p
             = clat + fst (maneuver_offset (track_generator_class self) (cfg_num_points self) j)
         \<and> longitude p
             = clon + snd (maneuver_offset (track_generator_class self) (cfg_num_points self) j)
      else \<bar>latitude p - clat\<bar> \<le> 0.01 \<and> \<bar>longitude p - clon\<bar> \<le> 0.01)"









section \<open>Example inputs\<close>

definition example_rng :: rng where
  "example_rng = \<lparr> unit_draws = (\<lambda>_. 1 / 2), int_draws = (\<lambda>_. 0xABCDEF), unit_pos = 0, int_pos = 0 \<rparr>"

definition example_base :: base_gen where
  "example_base = BaseTrackGenerator 34 (- 118) 1000 (Some 900) (Some 1100) 10000
     ''ARTIFICIAL'' ''Surveillance'' ''MSL'' 0"

definition example_circular :: circular_gen where
  "example_circular = CircularTrackGenerator_init example_base 0.005"

definition example_flyby :: flyby_gen where
  "example_flyby = FlybyTrackGenerator_init example_base 0.02 0.02 45"

definition example_zigzag :: zigzag_gen where
  "example_zigzag = ZigzagTrackGenerator_init example_base 0 0.005 2"

definition example_env :: file_env where
  "example_env = \<lparr> open_json = (\<lambda>path. Inr [[''time'' \<mapsto> 0, ''latitude'' \<mapsto> 1, ''lon'' \<mapsto> 2, ''alt'' \<mapsto> 3]]),
                   open_csv = (\<lambda>path. Inr [[''1'', ''2'', ''3'', ''x'']]),
                   py_float = (\<lambda>s. if s = ''1'' then Some 1 else if s = ''2'' then Some 2
                                     else if s = ''3'' then Some 3 else None) \<rparr>"

definition example_config :: artificial_gen where
  "example_config = ArtificialTrackGenerator_init 3 ''circular'' 33.75 (- 118.25) 1000 0.005 30
     None None False None ''json'' 20 10"

definition example_square :: square_gen where
  "example_square = SquareTrackGenerator_init example_base 0.02"

definition example_rectangle :: rectangle_gen where
  "example_rectangle = RectangleTrackGenerator_init example_base 0.03 0.01"

definition example_ownship :: "sample list" where
  "example_ownship =
     [[''time'' \<mapsto> 0, ''lat'' \<mapsto> 0, ''lon'' \<mapsto> 0, ''alt'' \<mapsto> 5000],
      [''latitude'' \<mapsto> 1, ''longitude'' \<mapsto> 0, ''altitude'' \<mapsto> 5100]]"

definition example_relative :: ownship_relative_gen where
  "example_relative = OwnshipRelativeTrackGenerator_init example_ownship 1000 ''Ahead'' 50
     (Some 900) (Some 1100) 10001 ''ARTIFICIAL'' ''Surveillance'' ''MSL'' 0"

definition example_single :: ownship_relative_gen where
  "example_single = OwnshipRelativeTrackGenerator_init
     [[''lat'' \<mapsto> 10, ''lon'' \<mapsto> 20, ''alt'' \<mapsto> 500]] 1000 ''ahead'' 0
     None None 10001 ''ARTIFICIAL'' ''Surveillance'' ''MSL'' 0"

definition example_folder :: folder where
  "example_folder =
     \<lparr> listdir = [''10001_trajectory.json'', ''notes.txt'', ''10000_trajectory.json''],
       json_load = (\<lambda>path.
         if path = ''trajectories/10000_trajectory.json'' then Inr []
         else if path = ''trajectories/10001_trajectory.json''
         then Inr [[''time'' \<mapsto> 0, ''lat'' \<mapsto> 1, ''lon'' \<mapsto> 2, ''alt'' \<mapsto> 3]]
         else Inl FileNotFoundError) \<rparr>"

section \<open>Basic facts\<close>


lemma py_bind_Inr [simp]: "py_bind (Inr x) f = f x"
  by (simp add: py_bind_def)

lemma py_bind_Inl [simp]: "py_bind (Inl e) f = Inl e"
  by (simp add: py_bind_def)

lemma py_bind_eq_Inr:
  "py_bind m f = Inr y \<longleftrightarrow> (\<exists>x. m = Inr x \<and> f x = Inr y)"
  by (cases m) simp_all

lemma sin_half_sq: "(sin (x / 2))\<^sup>2 = (1 - cos x) / 2" for x :: real
  using cos_double_sin [of "x / 2"] by simp

lemma haversine_a_bounds:
  "0 \<le> haversine_a lon1 lat1 lon2 lat2 \<and> haversine_a lon1 lat1 lon2 lat2 \<le> 1"
proof -
  define p1 where "p1 = radians lat1"
  define p2 where "p2 = radians lat2"
  define s where "s = (sin (radians (lon2 - lon1) / 2))\<^sup>2"
  define h where "h = (sin ((p2 - p1) / 2))\<^sup>2"
  define c where "c = cos p1 * cos p2"
  have r: "radians (lat2 - lat1) = p2 - p1"
    by (simp add: radians_def p1_def p2_def left_diff_distrib)
  have a: "haversine_a lon1 lat1 lon2 lat2 = h + c * s"
    unfolding haversine_a_def Let_def r by (simp add: h_def c_def s_def p1_def p2_def)
  have s01: "0 \<le> s" "s \<le> 1"
    unfolding s_def by (simp_all add: abs_square_le_1)
  have h01: "0 \<le> h" "h \<le> 1"
    unfolding h_def by (simp_all add: abs_square_le_1)
  have hc: "h + c = (1 + cos (p1 + p2)) / 2"
    unfolding h_def c_def sin_half_sq by (simp add: cos_diff cos_add field_simps)
  obtain t where t: "cos (p1 + p2) = t" "- 1 \<le> t" "t \<le> 1"
    by simp
  have hc01: "0 \<le> h + c" "h + c \<le> 1"
    unfolding hc t(1) using t(2,3) by simp_all
  show ?thesis
  proof (cases "0 \<le> c")
    case True
    have "c * s \<le> c * 1" using True s01 by (intro mult_left_mono) auto
    moreover have "0 \<le> c * s" using True s01 by simp
    ultimately show ?thesis using a h01 hc01 by simp
  next
    case False
    then have "c \<le> 0" by simp
    have "c * 1 \<le> c * s" using \<open>c \<le> 0\<close> s01 by (intro mult_left_mono_neg) auto
    moreover have "c * s \<le> 0" using \<open>c \<le> 0\<close> s01 by (simp add: mult_nonpos_nonneg)
    ultimately show ?thesis using a h01 hc01 by simp
  qed
qed

lemma haversine_Inr: "\<exists>d. haversine lon1 lat1 lon2 lat2 = Inr d"
  using haversine_a_bounds [of lon1 lat1 lon2 lat2]
  by (simp add: haversine_def Let_def math_sqrt_def)

lemma create_track_point_Inr:
  "\<exists>p. create_track_point self lon lat alt td g = Inr (p, g\<lparr>int_pos := Suc (int_pos g)\<rparr>)
       \<and> latitude p = lat \<and> longitude p = lon \<and> altitude p = alt
       \<and> timestamp p = start_time self + td
       \<and> trackId p = format_05d (track_id self)"
proof -
  obtain d where "haversine (center_lon self) (center_lat self) lon lat = Inr d"
    using haversine_Inr by blast
  then show ?thesis
    by (simp add: create_track_point_def random_icao_def Let_def)
qed

lemma emit_point_Inr:
  "\<exists>p g'. emit_point self lat lon ival i g = Inr (p, g') \<and> emitted self lat lon ival i g p g'"
proof -
  let ?g1 = "g\<lparr>unit_pos := Suc (unit_pos g)\<rparr>"
  let ?alt = "min_alt self + (max_alt self - min_alt self) * unit_draws g (unit_pos g)"
  obtain p where p: "create_track_point self lon lat ?alt (real i * ival) ?g1
      = Inr (p, ?g1\<lparr>int_pos := Suc (int_pos ?g1)\<rparr>)"
    "latitude p = lat" "longitude p = lon" "altitude p = ?alt"
    "timestamp p = start_time self + real i * ival" "trackId p = format_05d (track_id self)"
    using create_track_point_Inr [of self lon lat ?alt "real i * ival" ?g1] by blast
  show ?thesis
    using p by (simp add: emit_point_def get_altitude_def random_uniform_def emitted_def)
qed

lemma for_each_all2:
  assumes "\<And>x s. x \<in> set xs \<Longrightarrow> I s \<Longrightarrow> \<exists>p s'. body x s = Inr (p, s') \<and> I s' \<and> P x p"
    and "I s"
  shows "\<exists>ps s'. for_each body xs s = Inr (ps, s') \<and> I s' \<and> list_all2 P xs ps"
  using assms
proof (induction xs arbitrary: s)
  case Nil
  then show ?case by simp
next
  case (Cons x xs)
  obtain p s1 where b: "body x s = Inr (p, s1)" "I s1" "P x p"
    using Cons.prems(1) [of x s] Cons.prems(2) by auto
  obtain ps s2 where r: "for_each body xs s1 = Inr (ps, s2)" "I s2" "list_all2 P xs ps"
    using Cons.IH [of s1] Cons.prems(1) b(2) by auto
  show ?case using b r by simp
qed

lemma for_each_Inr_all2:
  assumes "\<And>x s p s'. x \<in> set xs \<Longrightarrow> I s \<Longrightarrow> body x s = Inr (p, s') \<Longrightarrow> I s' \<and> P x p"
    and "I s" and "for_each body xs s = Inr (ps, s')"
  shows "I s' \<and> list_all2 P xs ps"
  using assms
proof (induction xs arbitrary: s ps)
  case Nil
  then show ?case by simp
next
  case (Cons x xs)
  from Cons.prems(3) obtain p s1 ps1 where
    b: "body x s = Inr (p, s1)" and r: "for_each body xs s1 = Inr (ps1, s')" and e: "ps = p # ps1"
    by (auto split: sum.splits prod.splits)
  have 1: "I s1 \<and> P x p" using Cons.prems(1) [of x s p s1] Cons.prems(2) b by simp
  have 2: "I s' \<and> list_all2 P xs ps1"
    using Cons.IH [of s1 ps1] Cons.prems(1) 1 r by auto
  show ?case using 1 2 e by simp
qed

lemma emit_point_facts:
  assumes "emit_point self lat lon ival i g = Inr (p, g')"
  shows "emitted self lat lon ival i g p g'"
  using emit_point_Inr [of self lat lon ival i g] assms by auto

lemma nth_py_range: "k < nat n \<Longrightarrow> py_range n ! k = k"
  by (simp add: py_range_def)

lemma length_py_range [simp]: "length (py_range n) = nat n"
  by (simp add: py_range_def)

lemma set_py_range: "i \<in> set (py_range n) \<longleftrightarrow> i < nat n"
  by (auto simp: py_range_def)

lemma circular_body:
  assumes "1 \<le> n"
  shows "CircularTrackGenerator_body self n ival i g =
     emit_point self (center_lat self + radius self * cos (circular_angle n i))
       (center_lon self + radius self * sin (circular_angle n i)) ival i g"
  using assms by (simp add: CircularTrackGenerator_body_def py_truediv_def circular_angle_def Let_def)

lemma truncate_sel [simp]:
  "min_alt (base_gen.truncate self) = min_alt self"
  "max_alt (base_gen.truncate self) = max_alt self"
  "start_time (base_gen.truncate self) = start_time self"
  "track_id (base_gen.truncate self) = track_id self"
  "center_lat (base_gen.truncate self) = center_lat self"
  "center_lon (base_gen.truncate self) = center_lon self"
  by (simp_all add: base_gen.truncate_def)

lemma in_band_truncate [simp]: "in_band (base_gen.truncate self) p = in_band self p"
  by (simp add: in_band_def)

lemma stamped_truncate [simp]: "stamped (base_gen.truncate self) ival i p = stamped self ival i p"
  by (simp add: stamped_def)

lemma uniform_between:
  fixes a b u :: real
  assumes "0 \<le> u" "u \<le> 1"
  shows "min a b \<le> a + (b - a) * u \<and> a + (b - a) * u \<le> max a b"
proof (cases "a \<le> b")
  case True
  have 1: "0 \<le> (b - a) * u" using True assms by simp
  have "(b - a) * u \<le> (b - a) * 1"
    using True assms by (intro mult_left_mono) auto
  then have 2: "(b - a) * u \<le> b - a" by simp
  have "min a b = a" "max a b = b" using True by simp_all
  then show ?thesis using 1 2 by linarith
next
  case False
  then have ba: "b - a \<le> 0" by simp
  have 1: "(b - a) * u \<le> 0" using ba assms by (simp add: mult_nonpos_nonneg)
  have "(b - a) * 1 \<le> (b - a) * u"
    using ba assms by (intro mult_left_mono_neg) auto
  then have 2: "b - a \<le> (b - a) * u" by simp
  have "min a b = b" "max a b = a" using False by simp_all
  then show ?thesis using 1 2 by linarith
qed

lemma emitted_ok:
  assumes "rng_ok g" "emitted self lat lon ival i g p g'"
  shows "rng_ok g' \<and> in_band self p \<and> stamped self ival i p"
proof -
  have u: "0 \<le> unit_draws g (unit_pos g)" "unit_draws g (unit_pos g) \<le> 1"
    using assms(1) by (auto simp: rng_ok_def intro: less_imp_le)
  show ?thesis
    using assms uniform_between [OF u, of "min_alt self" "max_alt self"]
    by (simp add: emitted_def rng_ok_def in_band_def stamped_def)
qed

lemma emit_point_ok:
  assumes "rng_ok g"
  shows "\<exists>p g'. emit_point self lat lon ival i g = Inr (p, g')
     \<and> rng_ok g' \<and> in_band self p \<and> stamped self ival i p
     \<and> latitude p = lat \<and> longitude p = lon"
proof -
  obtain p g' where e: "emit_point self lat lon ival i g = Inr (p, g')"
      "emitted self lat lon ival i g p g'"
    using emit_point_Inr by blast
  then show ?thesis using emitted_ok [OF assms e(2)] by (auto simp: emitted_def)
qed

lemma rng_ok_uniform:
  "rng_ok g \<Longrightarrow> rng_ok (snd (random_uniform a b g))"
  by (simp add: random_uniform_def rng_ok_def)

lemma for_each_range:
  assumes "\<And>i s. i < nat n \<Longrightarrow> I s \<Longrightarrow> \<exists>p s'. body i s = Inr (p, s') \<and> I s' \<and> P i p"
    and "I s"
  shows "\<exists>ps s'. for_each body (py_range n) s = Inr (ps, s') \<and> I s'
     \<and> length ps = nat n \<and> (\<forall>k < nat n. P k (ps ! k))"
proof -
  obtain ps s' where run: "for_each body (py_range n) s = Inr (ps, s')" "I s'"
    and all: "list_all2 P (py_range n) ps"
    using for_each_all2 [where I = I and P = P and body = body and xs = "py_range n" and s = s]
      assms by (auto simp: set_py_range)
  have "length ps = nat n" using list_all2_lengthD [OF all] by simp
  moreover have "P k (ps ! k)" if "k < nat n" for k
    using list_all2_nthD [OF all, of k] that by (simp add: nth_py_range)
  ultimately show ?thesis using run by blast
qed

lemma for_each_enumerate:
  assumes "\<And>i s. i < length xs \<Longrightarrow> I s
             \<Longrightarrow> \<exists>p s'. body (i, xs ! i) s = Inr (p, s') \<and> I s' \<and> P i p"
    and "I s"
  shows "\<exists>ps s'. for_each body (py_enumerate xs) s = Inr (ps, s') \<and> I s'
     \<and> length ps = length xs \<and> (\<forall>k < length xs. P k (ps ! k))"
proof -
  let ?Q = "\<lambda>x p. P (fst x) p"
  have mem: "\<exists>p s'. body x s = Inr (p, s') \<and> I s' \<and> ?Q x p"
    if "x \<in> set (py_enumerate xs)" "I s" for x s
  proof -
    have "\<exists>i < length (py_enumerate xs). py_enumerate xs ! i = x"
      using that(1) by (simp only: in_set_conv_nth)
    then obtain i where i: "i < length (py_enumerate xs)" "py_enumerate xs ! i = x"
      by blast
    then have "i < length xs" "x = (i, xs ! i)"
      by (auto simp: py_enumerate_def)
    then show ?thesis using assms(1) [of i s] that(2) by simp
  qed
  obtain ps s' where run: "for_each body (py_enumerate xs) s = Inr (ps, s')" "I s'"
    and all: "list_all2 ?Q (py_enumerate xs) ps"
    using for_each_all2 [where I = I and P = ?Q and body = body
        and xs = "py_enumerate xs" and s = s] mem assms(2) by blast
  have len: "length ps = length xs"
    using list_all2_lengthD [OF all] by (simp add: py_enumerate_def)
  moreover have "P k (ps ! k)" if "k < length xs" for k
    using list_all2_nthD [OF all, of k] that by (simp add: py_enumerate_def)
  ultimately show ?thesis using run by blast
qed

lemma rng_ok_unit_pos [simp]: "rng_ok (g\<lparr>unit_pos := k\<rparr>) = rng_ok g"
  by (simp add: rng_ok_def)

lemma random_body_ok:
  assumes "rng_ok g"
  shows "\<exists>p g'. RandomTrackGenerator_body self ival i g = Inr (p, g')
     \<and> rng_ok g' \<and> in_band self p \<and> stamped self ival i p"
  using assms
  by (simp add: RandomTrackGenerator_body_def random_uniform_def Let_def)
     (metis emit_point_ok rng_ok_unit_pos)

lemma circular_body_ok:
  assumes "rng_ok g" "n \<noteq> 0"
  shows "\<exists>p g'. CircularTrackGenerator_body self n ival i g = Inr (p, g')
     \<and> rng_ok g' \<and> in_band self p \<and> stamped self ival i p"
  using assms
  by (simp add: CircularTrackGenerator_body_def py_truediv_def Let_def)
     (metis emit_point_ok)

lemma elliptical_body_ok:
  assumes "rng_ok g" "n \<noteq> 0"
  shows "\<exists>p g'. EllipticalTrackGenerator_body self n ival i g = Inr (p, g')
     \<and> rng_ok g' \<and> in_band self p \<and> stamped self ival i p"
  using assms
  by (simp add: EllipticalTrackGenerator_body_def py_truediv_def Let_def)
     (metis emit_point_ok)

lemma flyby_body_ok:
  assumes "rng_ok g" "n \<noteq> 1"
  shows "\<exists>p g'. FlybyTrackGenerator_body self n ival i g = Inr (p, g')
     \<and> rng_ok g' \<and> in_band self p \<and> stamped self ival i p"
  using assms
  by (simp add: FlybyTrackGenerator_body_def py_truediv_def Let_def)
     (metis emit_point_ok)

lemma zigzag_body_ok:
  assumes "rng_ok g"
  shows "\<exists>p g'. ZigzagTrackGenerator_body self n ival i g = Inr (p, g')
     \<and> rng_ok g' \<and> in_band self p \<and> stamped self ival i p"
  using assms
  by (simp add: ZigzagTrackGenerator_body_def py_truediv_def Let_def)
     (metis emit_point_ok)

lemma spiral_body_ok:
  assumes "rng_ok g" "n \<noteq> 0"
  shows "\<exists>p g'. SpiralTrackGenerator_body self n ival i g = Inr (p, g')
     \<and> rng_ok g' \<and> in_band self p \<and> stamped self ival i p"
  using assms
  by (simp add: SpiralTrackGenerator_body_def py_truediv_def Let_def)
     (metis emit_point_ok)

lemma path_body_ok:
  assumes "rng_ok g"
  shows "\<exists>p g'. path_body self ival (i, xs ! i) g = Inr (p, g')
     \<and> rng_ok g' \<and> in_band self p \<and> stamped self ival i p
     \<and> (latitude p, longitude p) = xs ! i"
  using emit_point_ok [OF assms, of self "fst (xs ! i)" "snd (xs ! i)" ival i]
  by (auto simp: path_body_def split: prod.splits)

lemma length_slice_step:
  "1 \<le> k \<Longrightarrow> length (slice_step k xs) = (length xs + k - 1) div k"
proof (induction k xs rule: slice_step.induct)
  case (1 k)
  then show ?case by simp
next
  case (2 k x xs)
  have "length (slice_step k (x # xs)) = Suc ((length xs - (k - 1) + k - 1) div k)"
    using 2 by simp
  also have "(length xs - (k - 1) + k - 1) div k = length xs div k"
  proof (cases "k - 1 \<le> length xs")
    case True
    then have e: "length xs - (k - 1) + k - 1 = length xs" using 2(2) by simp
    show ?thesis unfolding e by (rule refl)
  next
    case False
    then have l: "length xs < k" and e: "length xs - (k - 1) + k - 1 = k - 1"
      using 2(2) by simp_all
    have "(k - 1) div k = 0" using 2(2) by simp
    then show ?thesis unfolding e using l by simp
  qed
  also have "Suc (length xs div k) = (length (x # xs) + k - 1) div k"
    using 2(2) by simp
  finally show ?case .
qed

lemma nth_slice_step:
  "1 \<le> k \<Longrightarrow> j < length (slice_step k xs) \<Longrightarrow> slice_step k xs ! j = xs ! (j * k)"
proof (induction k xs arbitrary: j rule: slice_step.induct)
  case (1 k)
  then show ?case by simp
next
  case (2 k x xs)
  show ?case
  proof (cases j)
    case 0
    then show ?thesis by simp
  next
    case (Suc j')
    have lt: "j' < length (slice_step k (drop (k - 1) xs))"
      using 2(3) Suc by simp
    have in_range: "j' * k < length (drop (k - 1) xs)"
    proof -
      have "j' < (length (drop (k - 1) xs) + k - 1) div k"
        using lt length_slice_step [OF 2(2), of "drop (k - 1) xs"] by simp
      then have "Suc j' \<le> (length (drop (k - 1) xs) + k - 1) div k"
        by simp
      then have "Suc j' * k \<le> length (drop (k - 1) xs) + k - 1"
        using less_eq_div_iff_mult_less_eq [of k "Suc j'" "length (drop (k - 1) xs) + k - 1"] 2(2)
        by simp
      then have "j' * k + k \<le> length (drop (k - 1) xs) + k - 1"
        by simp
      then show ?thesis using 2(2) by linarith
    qed
    have "slice_step k (x # xs) ! j = slice_step k (drop (k - 1) xs) ! j'"
      using Suc by simp
    also have "\<dots> = drop (k - 1) xs ! (j' * k)"
      using 2(1) [OF 2(2) lt] .
    also have "\<dots> = xs ! (k - 1 + j' * k)"
      using in_range by simp
    also have "\<dots> = (x # xs) ! (j * k)"
      using Suc 2(2) by simp
    finally show ?thesis .
  qed
qed

lemma random_generate_ok:
  assumes "rng_ok g"
  shows "\<exists>pts g'. RandomTrackGenerator_generate self n ival g = Inr (pts, g') \<and> rng_ok g'
     \<and> length pts = nat n \<and> (\<forall>k < nat n. in_band self (pts ! k) \<and> stamped self ival k (pts ! k))"
  unfolding RandomTrackGenerator_generate_def
  by (rule for_each_range [where I = rng_ok]) (use assms random_body_ok in auto)

lemma circular_generate_ok:
  assumes "rng_ok g"
  shows "\<exists>pts g'. CircularTrackGenerator_generate self n ival g = Inr (pts, g') \<and> rng_ok g'
     \<and> length pts = nat n \<and> (\<forall>k < nat n. in_band self (pts ! k) \<and> stamped self ival k (pts ! k))"
  unfolding CircularTrackGenerator_generate_def
proof (rule for_each_range [where I = rng_ok])
  show "rng_ok g" by fact
  show "\<exists>p s'. CircularTrackGenerator_body self n ival i s = Inr (p, s') \<and> rng_ok s'
      \<and> in_band self p \<and> stamped self ival i p" if "i < nat n" "rng_ok s" for i s
    using circular_body_ok [of s n self ival i] that by auto
qed

lemma elliptical_generate_ok:
  assumes "rng_ok g"
  shows "\<exists>pts g'. EllipticalTrackGenerator_generate self n ival g = Inr (pts, g') \<and> rng_ok g'
     \<and> length pts = nat n \<and> (\<forall>k < nat n. in_band self (pts ! k) \<and> stamped self ival k (pts ! k))"
  unfolding EllipticalTrackGenerator_generate_def
proof (rule for_each_range [where I = rng_ok])
  show "rng_ok g" by fact
  show "\<exists>p s'. EllipticalTrackGenerator_body self n ival i s = Inr (p, s') \<and> rng_ok s'
      \<and> in_band self p \<and> stamped self ival i p" if "i < nat n" "rng_ok s" for i s
    using elliptical_body_ok [of s n self ival i] that by auto
qed

lemma spiral_generate_ok:
  assumes "rng_ok g"
  shows "\<exists>pts g'. SpiralTrackGenerator_generate self n ival g = Inr (pts, g') \<and> rng_ok g'
     \<and> length pts = nat n \<and> (\<forall>k < nat n. in_band self (pts ! k) \<and> stamped self ival k (pts ! k))"
  unfolding SpiralTrackGenerator_generate_def
proof (rule for_each_range [where I = rng_ok])
  show "rng_ok g" by fact
  show "\<exists>p s'. SpiralTrackGenerator_body self n ival i s = Inr (p, s') \<and> rng_ok s'
      \<and> in_band self p \<and> stamped self ival i p" if "i < nat n" "rng_ok s" for i s
    using spiral_body_ok [of s n self ival i] that by auto
qed

lemma zigzag_generate_ok:
  assumes "rng_ok g"
  shows "\<exists>pts g'. ZigzagTrackGenerator_generate self n ival g = Inr (pts, g') \<and> rng_ok g'
     \<and> length pts = nat n \<and> (\<forall>k < nat n. in_band self (pts ! k) \<and> stamped self ival k (pts ! k))"
  unfolding ZigzagTrackGenerator_generate_def
  by (rule for_each_range [where I = rng_ok]) (use assms zigzag_body_ok in auto)

lemma flyby_generate_ok:
  assumes "rng_ok g" "n \<noteq> 1"
  shows "\<exists>pts g'. FlybyTrackGenerator_generate self n ival g = Inr (pts, g') \<and> rng_ok g'
     \<and> length pts = nat n \<and> (\<forall>k < nat n. in_band self (pts ! k) \<and> stamped self ival k (pts ! k))"
  unfolding FlybyTrackGenerator_generate_def
  by (rule for_each_range [where I = rng_ok]) (use assms flyby_body_ok in auto)

lemma flyby_generate_raises:
  "FlybyTrackGenerator_generate self 1 ival g = Inl ZeroDivisionError"
  by (simp add: FlybyTrackGenerator_generate_def py_range_def FlybyTrackGenerator_body_def
      py_truediv_def)

lemma sample_path_raises:
  "sample_path self path 0 ival g = Inl ZeroDivisionError"
  by (simp add: sample_path_def py_floordiv_def)

lemma sample_path_ok:
  assumes "rng_ok g" "n \<noteq> 0"
  shows "\<exists>pts g'. sample_path self path n ival g = Inr (pts, g') \<and> rng_ok g'
     \<and> length pts = length (slice_step (path_step path n) path)
     \<and> (\<forall>k < length pts. in_band self (pts ! k) \<and> stamped self ival k (pts ! k)
           \<and> (latitude (pts ! k), longitude (pts ! k)) = slice_step (path_step path n) path ! k)"
proof -
  let ?xs = "slice_step (path_step path n) path"
  have "\<exists>ps s'. for_each (path_body self ival) (py_enumerate ?xs) g = Inr (ps, s') \<and> rng_ok s'
     \<and> length ps = length ?xs
     \<and> (\<forall>k < length ?xs. in_band self (ps ! k) \<and> stamped self ival k (ps ! k)
           \<and> (latitude (ps ! k), longitude (ps ! k)) = ?xs ! k)"
    by (rule for_each_enumerate [where I = rng_ok]) (use assms path_body_ok in auto)
  then show ?thesis
    using assms(2) by (auto simp: sample_path_def py_floordiv_def path_step_def Let_def)
qed

lemma generator_raises:
  "raises_zero_division gen n \<Longrightarrow> generator_generate gen n ival g = Inl ZeroDivisionError"
  by (cases gen)
     (simp_all add: flyby_generate_raises sample_path_raises SquareTrackGenerator_generate_def
        RectangleTrackGenerator_generate_def)

lemma generator_ok:
  assumes "rng_ok g" "\<not> raises_zero_division gen n"
  shows "\<exists>pts g'. generator_generate gen n ival g = Inr (pts, g') \<and> rng_ok g'
     \<and> (\<forall>k < length pts. in_band (gen_base gen) (pts ! k)
           \<and> stamped (gen_base gen) ival k (pts ! k))"
proof (cases gen)
  case (RandomTrackGenerator self)
  then show ?thesis using random_generate_ok [OF assms(1), of self n ival] by auto
next
  case (CircularTrackGenerator self)
  then show ?thesis using circular_generate_ok [OF assms(1), of self n ival] by auto
next
  case (EllipticalTrackGenerator self)
  then show ?thesis using elliptical_generate_ok [OF assms(1), of self n ival] by auto
next
  case (FlybyTrackGenerator self)
  then show ?thesis using flyby_generate_ok [OF assms(1), of n self ival] assms(2) by auto
next
  case (SquareTrackGenerator self)
  then show ?thesis
    using sample_path_ok [OF assms(1), of n self "square_path self" ival] assms(2)
    by (auto simp: SquareTrackGenerator_generate_def)
next
  case (RectangleTrackGenerator self)
  then show ?thesis
    using sample_path_ok [OF assms(1), of n self "rectangle_path self" ival] assms(2)
    by (auto simp: RectangleTrackGenerator_generate_def)
next
  case (ZigzagTrackGenerator self)
  then show ?thesis using zigzag_generate_ok [OF assms(1), of self n ival] by auto
next
  case (SpiralTrackGenerator self)
  then show ?thesis using spiral_generate_ok [OF assms(1), of self n ival] by auto
qed

lemma generator_Inr_facts:
  assumes "rng_ok g" "generator_generate gen n ival g = Inr (pts, g')"
  shows "rng_ok g' \<and> \<not> raises_zero_division gen n
     \<and> (\<forall>k < length pts. in_band (gen_base gen) (pts ! k)
           \<and> stamped (gen_base gen) ival k (pts ! k))"
proof -
  have nr: "\<not> raises_zero_division gen n"
    using generator_raises [of gen n ival g] assms(2) by auto
  show ?thesis using generator_ok [OF assms(1) nr, of ival] assms(2) nr by auto
qed

lemma rng_ok_example [simp]: "rng_ok example_rng"
  by (simp add: rng_ok_def example_rng_def)

lemma zigzag_single:
  assumes "rng_ok g"
  shows "\<exists>p g'. ZigzagTrackGenerator_generate self 1 ival g = Inr ([p], g')
     \<and> latitude p = center_lat self \<and> longitude p = center_lon self"
proof -
  obtain p g' where "emit_point self (center_lat self) (center_lon self) ival 0 g = Inr (p, g')"
    "latitude p = center_lat self" "longitude p = center_lon self"
    using emit_point_ok [OF assms] by blast
  then show ?thesis
    by (simp add: ZigzagTrackGenerator_generate_def py_range_def ZigzagTrackGenerator_body_def)
qed

lemma digits_of_small: "n < b \<Longrightarrow> digits_of b n = [digit_char n]"
  by (simp add: digits_of.simps)

lemma digits_of_step:
  "2 \<le> b \<Longrightarrow> b \<le> n \<Longrightarrow> digits_of b n = digits_of b (n div b) @ [digit_char (n mod b)]"
  by (subst digits_of.simps) simp

lemma replicate_numeral:
  "replicate (numeral k) x = x # replicate (pred_numeral k) x"
  by (simp add: numeral_eq_Suc)

lemma format_05d_examples:
  "format_05d 10000 = ''10000''" "format_05d 10001 = ''10001''" "format_05d 10002 = ''10002''"
  "format_05d 7 = ''00007''"
  by (simp_all add: format_05d_def zero_pad_def digits_of_small digits_of_step digit_char_def
      replicate_numeral)

section \<open>The circular generator\<close>

lemma example_circular_simps [simp]:
  "center_lat example_circular = 34" "center_lon example_circular = - 118"
  "radius example_circular = 0.005"
  by (simp_all add: example_circular_def example_base_def CircularTrackGenerator_init_def
      BaseTrackGenerator_def base_gen.extend_def circular_gen.fields_def)

text \<open>
  Claim C5. For every \<open>num_points \<ge> 1\<close>, \<open>CircularTrackGenerator.generate\<close> returns
  \<open>num_points\<close> points, and point \<open>i\<close> has latitude \<open>center_lat + radius * cos \<theta>\<^sub>i\<close> and
  longitude \<open>center_lon + radius * sin \<theta>\<^sub>i\<close> with \<open>\<theta>\<^sub>i = (2 pi / num_points) * i\<close>.
  Consecutive angles differ by \<open>2 pi / num_points\<close>, and every point lies at distance
  \<open>|radius|\<close> from the center in degree coordinates, which is \<open>radius\<close> itself for a radius
  that is not negative.
\<close>

theorem circular_points:
  assumes "1 \<le> num_points"
  shows "\<exists>pts g'. CircularTrackGenerator_generate self num_points ival g = Inr (pts, g')
     \<and> length pts = nat num_points
     \<and> (\<forall>i < nat num_points.
          latitude (pts ! i) = center_lat self + radius self * cos (circular_angle num_points i)
        \<and> longitude (pts ! i) = center_lon self + radius self * sin (circular_angle num_points i)
        \<and> circular_angle num_points (Suc i) - circular_angle num_points i
            = 2 * pi / of_int num_points
        \<and> sqrt ((latitude (pts ! i) - center_lat self)\<^sup>2
                 + (longitude (pts ! i) - center_lon self)\<^sup>2) = \<bar>radius self\<bar>)"
proof -
  let ?P = "\<lambda>i p. latitude p = center_lat self + radius self * cos (circular_angle num_points i)
        \<and> longitude p = center_lon self + radius self * sin (circular_angle num_points i)"
  have step: "\<exists>p s'. CircularTrackGenerator_body self num_points ival x s = Inr (p, s') \<and> True \<and> ?P x p"
    for x s
    using emit_point_Inr [of self _ _ ival x s] 
    unfolding circular_body [OF assms] emitted_def by blast
  obtain pts g' where run: "for_each (CircularTrackGenerator_body self num_points ival)
        (py_range num_points) g = Inr (pts, g')"
    and all: "list_all2 ?P (py_range num_points) pts"
    using for_each_all2 [where I = "\<lambda>_. True" and P = ?P
        and body = "CircularTrackGenerator_body self num_points ival"
        and xs = "py_range num_points" and s = g] step by blast
  have len: "length pts = nat num_points"
    using list_all2_lengthD [OF all] by simp
  have pt: "?P i (pts ! i)" if "i < nat num_points" for i
    using list_all2_nthD [OF all, of i] that by (simp add: nth_py_range)
  have ang: "circular_angle num_points (Suc i) - circular_angle num_points i
            = 2 * pi / of_int num_points" for i
    by (simp add: circular_angle_def algebra_simps add_divide_distrib)
  have dist: "sqrt ((latitude (pts ! i) - center_lat self)\<^sup>2
                 + (longitude (pts ! i) - center_lon self)\<^sup>2) = \<bar>radius self\<bar>"
    if "i < nat num_points" for i
  proof -
    have "(latitude (pts ! i) - center_lat self)\<^sup>2 + (longitude (pts ! i) - center_lon self)\<^sup>2
        = (radius self * cos (circular_angle num_points i))\<^sup>2
            + (radius self * sin (circular_angle num_points i))\<^sup>2"
      using pt [OF that] by simp
    also have "\<dots> = (radius self)\<^sup>2 * ((cos (circular_angle num_points i))\<^sup>2
            + (sin (circular_angle num_points i))\<^sup>2)"
      by (simp only: power_mult_distrib distrib_left)
    also have "\<dots> = (radius self)\<^sup>2"
      by simp
    finally show ?thesis by simp
  qed
  show ?thesis
    unfolding CircularTrackGenerator_generate_def
    using run len pt ang dist by blast
qed

theorem circular_points_witness:
  "(1::int) \<le> 4 \<and>
   (\<exists>pts g'. CircularTrackGenerator_generate example_circular 4 10 example_rng = Inr (pts, g')
      \<and> length pts = 4
      \<and> latitude (pts ! 0) = 34.005 \<and> longitude (pts ! 0) = - 118
      \<and> latitude (pts ! 1) = 34 \<and> longitude (pts ! 1) = - 117.995
      \<and> latitude (pts ! 2) = 33.995 \<and> longitude (pts ! 2) = - 118)"
proof -
  obtain pts g' where run:
      "CircularTrackGenerator_generate example_circular 4 10 example_rng = Inr (pts, g')"
    and len: "length pts = nat 4"
    and pt: "\<forall>i < nat 4.
          latitude (pts ! i) = center_lat example_circular
             + radius example_circular * cos (circular_angle 4 i)
        \<and> longitude (pts ! i) = center_lon example_circular
             + radius example_circular * sin (circular_angle 4 i)
        \<and> circular_angle 4 (Suc i) - circular_angle 4 i = 2 * pi / of_int 4
        \<and> sqrt ((latitude (pts ! i) - center_lat example_circular)\<^sup>2
                 + (longitude (pts ! i) - center_lon example_circular)\<^sup>2)
            = \<bar>radius example_circular\<bar>"
    using circular_points [of 4 example_circular 10 example_rng] by auto
  have a0: "circular_angle 4 0 = 0" and a1: "circular_angle 4 (Suc 0) = pi / 2"
    and a2: "circular_angle 4 2 = pi"
    by (simp_all add: circular_angle_def)
  have "latitude (pts ! 0) = 34.005 \<and> longitude (pts ! 0) = - 118"
    using pt [rule_format, of 0] by (simp add: a0)
  moreover have "latitude (pts ! 1) = 34 \<and> longitude (pts ! 1) = - 117.995"
    using pt [rule_format, of 1] by (simp add: a1)
  moreover have "latitude (pts ! 2) = 33.995 \<and> longitude (pts ! 2) = - 118"
    using pt [rule_format, of 2] by (simp add: a2)
  ultimately show ?thesis using run len by simp
qed

section \<open>The fly-by and zigzag generators with one point\<close>

text \<open>
  Claim C10. \<open>FlybyTrackGenerator.generate\<close> divides by \<open>num_points - 1\<close> without a guard:
  with \<open>num_points \<ge> 2\<close> it returns \<open>num_points\<close> points, with \<open>num_points = 1\<close> it raises
  \<open>ZeroDivisionError\<close>, so among the positive point counts it returns exactly for those
  that are at least 2. \<open>ZigzagTrackGenerator.generate\<close> guards the case and returns a
  single point, placed at the center, for \<open>num_points = 1\<close>.
\<close>

theorem flyby_needs_two_points:
  assumes "rng_ok g"
  shows "(2 \<le> n \<longrightarrow>
            (\<exists>pts g'. FlybyTrackGenerator_generate self n ival g = Inr (pts, g')
               \<and> length pts = nat n))
     \<and> FlybyTrackGenerator_generate self 1 ival g = Inl ZeroDivisionError
     \<and> (1 \<le> n \<longrightarrow> ((\<exists>pts g'. FlybyTrackGenerator_generate self n ival g = Inr (pts, g'))
                        \<longleftrightarrow> 2 \<le> n))
     \<and> (\<exists>p g'. ZigzagTrackGenerator_generate z 1 ival g = Inr ([p], g')
            \<and> latitude p = center_lat z \<and> longitude p = center_lon z)"
proof -
  have a: "\<exists>pts g'. FlybyTrackGenerator_generate self n ival g = Inr (pts, g')
               \<and> length pts = nat n" if "2 \<le> n"
    using flyby_generate_ok [OF assms, of n self ival] that by auto
  have b: "FlybyTrackGenerator_generate self 1 ival g = Inl ZeroDivisionError"
    by (rule flyby_generate_raises)
  have c: "(\<exists>pts g'. FlybyTrackGenerator_generate self n ival g = Inr (pts, g')) \<longleftrightarrow> 2 \<le> n"
    if "1 \<le> n"
  proof (cases "n = 1")
    case True
    then show ?thesis using b by simp
  next
    case False
    then have "2 \<le> n" using that by simp
    then show ?thesis using a by blast
  qed
  show ?thesis using a b c zigzag_single [OF assms, of z ival] by blast
qed

theorem flyby_needs_two_points_witness:
  "rng_ok example_rng \<and> (2::int) \<le> 3 \<and> (1::int) \<le> 3
   \<and> (\<exists>pts g'. FlybyTrackGenerator_generate example_flyby 3 10 example_rng = Inr (pts, g')
         \<and> length pts = 3)
   \<and> FlybyTrackGenerator_generate example_flyby 1 10 example_rng = Inl ZeroDivisionError
   \<and> (\<exists>p g'. ZigzagTrackGenerator_generate example_zigzag 1 10 example_rng = Inr ([p], g'))"
  using flyby_needs_two_points [of example_rng 3 example_flyby 10 example_zigzag]
  by auto

section \<open>Selection of the generator\<close>

lemma lower_random [simp]: "lower ''random'' = ''random''"
  by (simp add: lower_def lower_char_def less_eq_char_def)

lemma select_generator_cong:
  "track_generator_class s1 = track_generator_class s2 \<Longrightarrow>
   select_generator s1 b = select_generator s2 b"
  by (simp add: select_generator_def)

lemma select_generator_unknown:
  assumes "track_generator_class self \<notin> maneuver_names"
  shows "select_generator self b = RandomTrackGenerator b"
  using assms by (simp add: select_generator_def maneuver_names_def)

lemma select_generator_random:
  assumes "track_generator_class self = ''random''"
  shows "select_generator self b = RandomTrackGenerator b"
  using assms by (simp add: select_generator_def)

lemma init_sel [simp]:
  "num_tracks (ArtificialTrackGenerator_init n cls clat clon calt sep delay mn mx fly file fmt npts ival) = n"
  "track_generator_class (ArtificialTrackGenerator_init n cls clat clon calt sep delay mn mx fly file fmt npts ival) = lower cls"
  "cfg_center_lat (ArtificialTrackGenerator_init n cls clat clon calt sep delay mn mx fly file fmt npts ival) = clat"
  "cfg_center_lon (ArtificialTrackGenerator_init n cls clat clon calt sep delay mn mx fly file fmt npts ival) = clon"
  "cfg_center_alt (ArtificialTrackGenerator_init n cls clat clon calt sep delay mn mx fly file fmt npts ival) = calt"
  "cfg_separation_distance (ArtificialTrackGenerator_init n cls clat clon calt sep delay mn mx fly file fmt npts ival) = sep"
  "time_delay (ArtificialTrackGenerator_init n cls clat clon calt sep delay mn mx fly file fmt npts ival) = delay"
  "cfg_min_alt (ArtificialTrackGenerator_init n cls clat clon calt sep delay mn mx fly file fmt npts ival)
     = (case mn of Some m \<Rightarrow> m | None \<Rightarrow> calt)"
  "cfg_max_alt (ArtificialTrackGenerator_init n cls clat clon calt sep delay mn mx fly file fmt npts ival)
     = (case mx of Some m \<Rightarrow> m | None \<Rightarrow> calt)"
  "fly_along (ArtificialTrackGenerator_init n cls clat clon calt sep delay mn mx fly file fmt npts ival) = fly"
  "initial_track_id (ArtificialTrackGenerator_init n cls clat clon calt sep delay mn mx fly file fmt npts ival) = 10000"
  "ownship_trajectory_file (ArtificialTrackGenerator_init n cls clat clon calt sep delay mn mx fly file fmt npts ival) = file"
  "ownship_format (ArtificialTrackGenerator_init n cls clat clon calt sep delay mn mx fly file fmt npts ival) = fmt"
  "cfg_num_points (ArtificialTrackGenerator_init n cls clat clon calt sep delay mn mx fly file fmt npts ival) = npts"
  "cfg_interval_seconds (ArtificialTrackGenerator_init n cls clat clon calt sep delay mn mx fly file fmt npts ival) = ival"
  by (simp_all add: ArtificialTrackGenerator_init_def)

text \<open>
  Claim C7. For every maneuver selector that, lowercased, is none of \<open>random\<close>,
  \<open>circular\<close>, \<open>elliptical\<close>, \<open>flyby\<close>, \<open>square\<close>, \<open>rectangle\<close>, \<open>zigzag\<close>, \<open>spiral\<close>,
  \<open>_select_generator\<close> returns the random-maneuver generator (no exception is among its
  results), the same generator as for the selector \<open>random\<close>, and the whole of
  \<open>ArtificialTrackGenerator.generate\<close> behaves as if \<open>random\<close> had been selected.
\<close>

theorem unknown_selector_is_random:
  assumes "lower cls \<notin> maneuver_names"
  shows "select_generator
           (ArtificialTrackGenerator_init n cls clat clon calt sep delay mn mx fly file fmt npts ival) b
         = RandomTrackGenerator b
     \<and> select_generator
           (ArtificialTrackGenerator_init n cls clat clon calt sep delay mn mx fly file fmt npts ival) b
         = select_generator
           (ArtificialTrackGenerator_init n ''random'' clat clon calt sep delay mn mx fly file fmt npts ival) b
     \<and> ArtificialTrackGenerator_generate
           (ArtificialTrackGenerator_init n cls clat clon calt sep delay mn mx fly file fmt npts ival)
           env t0 g
         = ArtificialTrackGenerator_generate
           (ArtificialTrackGenerator_init n ''random'' clat clon calt sep delay mn mx fly file fmt npts ival)
           env t0 g"
proof -
  let ?a = "ArtificialTrackGenerator_init n cls clat clon calt sep delay mn mx fly file fmt npts ival"
  let ?r = "ArtificialTrackGenerator_init n ''random'' clat clon calt sep delay mn mx fly file fmt npts ival"
  have sa: "select_generator ?a = RandomTrackGenerator"
    using assms by (intro ext select_generator_unknown) simp
  have sr: "select_generator ?r = RandomTrackGenerator"
    by (intro ext select_generator_random) simp
  have gt: "generate_track ?a = generate_track ?r"
    by (intro ext) (simp add: generate_track_def sa sr)
  have it: "independent_track ?a = independent_track ?r"
    by (intro ext) (simp add: independent_track_def gt)
  have rt: "relative_track ?a = relative_track ?r"
    by (intro ext) (simp add: relative_track_def)
  have "ArtificialTrackGenerator_generate ?a env t0 g = ArtificialTrackGenerator_generate ?r env t0 g"
    unfolding ArtificialTrackGenerator_generate_def it rt gt
    by (simp split: option.splits)
  then show ?thesis using sa sr by simp
qed

theorem unknown_selector_is_random_witness:
  "lower ''Helix'' \<notin> maneuver_names
   \<and> select_generator
       (ArtificialTrackGenerator_init 3 ''Helix'' 33.75 (- 118.25) 1000 0.005 30 None None False
          None ''json'' 10 10) example_base
     = RandomTrackGenerator example_base"
proof -
  have h: "lower ''Helix'' \<notin> maneuver_names"
    by (simp add: lower_def lower_char_def less_eq_char_def maneuver_names_def)
  show ?thesis
    using h unknown_selector_is_random [OF h, of 3 "33.75" "- 118.25" 1000 "0.005" 30 None None False
          None "''json''" 10 10 example_base]
    by simp
qed

section \<open>The format of the ownship file\<close>

lemma csv_loop_not_unsupported: "csv_loop env rows \<noteq> Inl unsupported_format"
proof (induction rows)
  case Nil
  show ?case by simp
next
  case (Cons r rest)
  obtain i row where r: "r = (i, row)" by (cases r)
  show ?case
  proof (cases "csv_lat_lon_alt env row")
    case None
    then show ?thesis using Cons r by simp
  next
    case (Some t)
    obtain lat lon alt where t: "t = (lat, lon, alt)" by (cases t)
    show ?thesis
      using Cons Some r t
      by (auto simp: py_bind_def unsupported_format_def split: option.splits sum.splits if_splits)
  qed
qed

text \<open>
  Claim C8. \<open>load_ownship_trajectory\<close> raises its unsupported-format \<open>ValueError\<close> if and
  only if the lowercased format is neither \<open>json\<close> nor \<open>csv\<close>, provided opening and
  parsing the file does not itself raise that error. For \<open>json\<close> and \<open>csv\<close> in any
  casing it goes on to read the file: the result is that of loading and normalising the JSON
  data, respectively of the loop over the CSV rows.
\<close>

theorem unsupported_format_iff:
  assumes "open_json env file_path \<noteq> Inl unsupported_format"
    and "open_csv env file_path \<noteq> Inl unsupported_format"
  shows "(load_ownship_trajectory env file_path file_format = Inl unsupported_format
            \<longleftrightarrow> lower file_format \<noteq> ''json'' \<and> lower file_format \<noteq> ''csv'')
     \<and> (lower file_format = ''json'' \<longrightarrow>
           load_ownship_trajectory env file_path file_format
             = py_bind (open_json env file_path) (\<lambda>data. Inr (map normalize_keys data)))
     \<and> (lower file_format = ''csv'' \<longrightarrow>
           load_ownship_trajectory env file_path file_format
             = py_bind (open_csv env file_path) (\<lambda>rows. csv_loop env (py_enumerate rows)))"
proof -
  have j: "py_bind (open_json env file_path) (\<lambda>data. Inr (map normalize_keys data))
             \<noteq> Inl unsupported_format"
    using assms(1) by (cases "open_json env file_path") simp_all
  have c: "py_bind (open_csv env file_path) (\<lambda>rows. csv_loop env (py_enumerate rows))
             \<noteq> Inl unsupported_format"
    using assms(2) csv_loop_not_unsupported by (cases "open_csv env file_path") simp_all
  show ?thesis using j c by (simp add: load_ownship_trajectory_def)
qed

theorem unsupported_format_iff_witness:
  "open_json example_env ''own'' \<noteq> Inl unsupported_format
   \<and> open_csv example_env ''own'' \<noteq> Inl unsupported_format
   \<and> load_ownship_trajectory example_env ''own'' ''xml'' = Inl unsupported_format
   \<and> load_ownship_trajectory example_env ''own'' ''JSON''
       = Inr [[''time'' \<mapsto> 0, ''latitude'' \<mapsto> 1, ''lon'' \<mapsto> 2, ''alt'' \<mapsto> 3, ''lat'' \<mapsto> 1]]
   \<and> load_ownship_trajectory example_env ''own'' ''Csv''
       = Inl (ValueError ''could not convert string to float'')"
proof -
  have a: "open_json example_env ''own'' \<noteq> Inl unsupported_format"
    and b: "open_csv example_env ''own'' \<noteq> Inl unsupported_format"
    by (simp_all add: example_env_def)
  have l: "lower ''xml'' = ''xml''" "lower ''JSON'' = ''json''" "lower ''Csv'' = ''csv''"
    by code_simp+
  have x: "load_ownship_trajectory example_env ''own'' ''xml'' = Inl unsupported_format"
    using unsupported_format_iff [OF a b, of "''xml''"] by (simp add: l)
  have j: "load_ownship_trajectory example_env ''own'' ''JSON''
       = Inr [[''time'' \<mapsto> 0, ''latitude'' \<mapsto> 1, ''lon'' \<mapsto> 2, ''alt'' \<mapsto> 3, ''lat'' \<mapsto> 1]]"
    using unsupported_format_iff [OF a b, of "''JSON''"]
    by (simp add: l example_env_def normalize_keys_def)
  have c: "load_ownship_trajectory example_env ''own'' ''Csv''
       = Inl (ValueError ''could not convert string to float'')"
    using unsupported_format_iff [OF a b, of "''Csv''"]
    by (simp add: l example_env_def py_enumerate_def csv_lat_lon_alt_def)
  show ?thesis using a b x j c by simp
qed

section \<open>Independent tracks\<close>

lemma gen_base_set_start_time [simp]:
  "gen_base (set_start_time t gen) = (gen_base gen)\<lparr>start_time := t\<rparr>"
  by (cases gen) (simp_all add: base_gen.truncate_def)

lemma raises_set_start_time [simp]:
  "raises_zero_division (set_start_time t gen) n = raises_zero_division gen n"
  by (cases gen) simp_all

lemma gen_base_select [simp]: "gen_base (select_generator self b) = b"
  by (simp add: select_generator_def Let_def base_gen.truncate_def base_gen.extend_def
      CircularTrackGenerator_init_def EllipticalTrackGenerator_init_def FlybyTrackGenerator_init_def
      SquareTrackGenerator_init_def RectangleTrackGenerator_init_def ZigzagTrackGenerator_init_def
      SpiralTrackGenerator_init_def)

lemma raises_select:
  "raises_zero_division (select_generator self b) (cfg_num_points self) = config_raises self"
  by (auto simp: select_generator_def Let_def config_raises_def)

lemma BaseTrackGenerator_sel [simp]:
  "center_lat (BaseTrackGenerator clat clon calt mn mx tid src ttype aref now) = clat"
  "center_lon (BaseTrackGenerator clat clon calt mn mx tid src ttype aref now) = clon"
  "min_alt (BaseTrackGenerator clat clon calt mn mx tid src ttype aref now)
     = (case mn of Some m \<Rightarrow> m | None \<Rightarrow> calt)"
  "max_alt (BaseTrackGenerator clat clon calt mn mx tid src ttype aref now)
     = (case mx of Some m \<Rightarrow> m | None \<Rightarrow> calt)"
  "track_id (BaseTrackGenerator clat clon calt mn mx tid src ttype aref now) = tid"
  "start_time (BaseTrackGenerator clat clon calt mn mx tid src ttype aref now) = now"
  by (simp_all add: BaseTrackGenerator_def)

lemma generate_track_raises:
  assumes "config_raises self"
  shows "generate_track self now tid clat clon t0 g = Inl ZeroDivisionError"
  using assms by (simp add: generate_track_def Let_def generator_raises raises_select)

lemma generate_track_ok:
  assumes "rng_ok g" "\<not> config_raises self"
  shows "\<exists>pts g'. generate_track self now tid clat clon t0 g = Inr (pts, g') \<and> rng_ok g'
     \<and> (\<forall>k < length pts. track_point_ok self tid t0 k (pts ! k))"
proof -
  let ?b = "BaseTrackGenerator clat clon (cfg_center_alt self)
                (Some (cfg_min_alt self)) (Some (cfg_max_alt self)) tid
                ''ARTIFICIAL'' ''Surveillance'' ''MSL'' now"
  let ?gen = "set_start_time t0 (select_generator self ?b)"
  have nr: "\<not> raises_zero_division ?gen (cfg_num_points self)"
    using assms(2) by (simp add: raises_select)
  obtain pts g' where run: "generator_generate ?gen (cfg_num_points self)
        (cfg_interval_seconds self) g = Inr (pts, g')" "rng_ok g'"
    and pt: "\<forall>k < length pts. in_band (gen_base ?gen) (pts ! k)
           \<and> stamped (gen_base ?gen) (cfg_interval_seconds self) k (pts ! k)"
    using generator_ok [OF assms(1) nr] by blast
  have "track_point_ok self tid t0 k (pts ! k)" if "k < length pts" for k
    using pt that by (simp add: track_point_ok_def in_band_def stamped_def)
  then show ?thesis using run by (simp add: generate_track_def Let_def)
qed

lemma emit_loop:
  assumes "rng_ok g"
    and "\<And>i s. i < nat n \<Longrightarrow> body i s = emit_point self (lat i) (lon i) ival i s"
  shows "\<exists>pts g'. for_each body (py_range n) g = Inr (pts, g') \<and> rng_ok g'
     \<and> length pts = nat n
     \<and> (\<forall>k < nat n. latitude (pts ! k) = lat k \<and> longitude (pts ! k) = lon k)"
proof (rule for_each_range [where I = rng_ok])
  show "rng_ok g" by fact
  show "\<exists>p s'. body i s = Inr (p, s') \<and> rng_ok s' \<and> latitude p = lat i \<and> longitude p = lon i"
    if "i < nat n" "rng_ok s" for i s
    using emit_point_ok [OF that(2), of self "lat i" "lon i" ival i] assms(2) [OF that(1), of s]
    by auto
qed

lemma elliptical_body:
  assumes "n \<noteq> 0"
  shows "EllipticalTrackGenerator_body self n ival i g =
     emit_point self (center_lat self + radius_y self * sin (2 * pi / of_int n * real i))
       (center_lon self + radius_x self * cos (2 * pi / of_int n * real i)) ival i g"
  using assms by (simp add: EllipticalTrackGenerator_body_def py_truediv_def Let_def)

lemma flyby_body:
  assumes "n \<noteq> 1"
  shows "FlybyTrackGenerator_body self n ival i g =
     emit_point self
       (center_lat self + (- approach_distance self
           + (approach_distance self + exit_distance self) * (real i / of_int (n - 1)))
           * cos (bearing self))
       (center_lon self + (- approach_distance self
           + (approach_distance self + exit_distance self) * (real i / of_int (n - 1)))
           * sin (bearing self)) ival i g"
  using assms by (simp add: FlybyTrackGenerator_body_def py_truediv_def Let_def)

lemma zigzag_body:
  "ZigzagTrackGenerator_body self n ival i g =
     emit_point self
       (center_lat self
          + 0.01 * (if 1 < n then real i / of_int (n - 1) else 0) * cos (direction self)
          + amplitude self
              * sin (2 * pi * frequency self * (if 1 < n then real i / of_int (n - 1) else 0))
              * cos (direction self + pi / 2))
       (center_lon self
          + 0.01 * (if 1 < n then real i / of_int (n - 1) else 0) * sin (direction self)
          + amplitude self
              * sin (2 * pi * frequency self * (if 1 < n then real i / of_int (n - 1) else 0))
              * sin (direction self + pi / 2)) ival i g"
  by (simp add: ZigzagTrackGenerator_body_def py_truediv_def Let_def)

lemma spiral_body:
  assumes "n \<noteq> 0"
  shows "SpiralTrackGenerator_body self n ival i g =
     emit_point self
       (center_lat self + (initial_radius self + radius_increment self * real i)
           * cos (2 * pi * rotations self * (real i / of_int n)))
       (center_lon self + (initial_radius self + radius_increment self * real i)
           * sin (2 * pi * rotations self * (real i / of_int n))) ival i g"
  using assms by (simp add: SpiralTrackGenerator_body_def py_truediv_def Let_def)

lemma random_body_near:
  assumes "rng_ok g"
  shows "\<exists>p g'. RandomTrackGenerator_body self ival i g = Inr (p, g') \<and> rng_ok g'
     \<and> \<bar>latitude p - center_lat self\<bar> \<le> 0.01 \<and> \<bar>longitude p - center_lon self\<bar> \<le> 0.01"
proof -
  define u where "u = unit_draws g (unit_pos g)"
  define v where "v = unit_draws g (Suc (unit_pos g))"
  have u: "0 \<le> u" "u \<le> 1" and v: "0 \<le> v" "v \<le> 1"
    using assms by (auto simp: rng_ok_def u_def v_def intro: less_imp_le)
  let ?g2 = "g\<lparr>unit_pos := Suc (Suc (unit_pos g))\<rparr>"
  have ok: "rng_ok ?g2" using assms by simp
  obtain p g' where e: "emit_point self (center_lat self + (- 0.01 + (0.01 - (- 0.01)) * u))
        (center_lon self + (- 0.01 + (0.01 - (- 0.01)) * v)) ival i ?g2 = Inr (p, g')"
      "rng_ok g'"
      "latitude p = center_lat self + (- 0.01 + (0.01 - (- 0.01)) * u)"
      "longitude p = center_lon self + (- 0.01 + (0.01 - (- 0.01)) * v)"
    using emit_point_ok [OF ok] by blast
  have run: "RandomTrackGenerator_body self ival i g = Inr (p, g')"
    using e(1) by (simp add: RandomTrackGenerator_body_def random_uniform_def Let_def u_def v_def)
  have near: "\<bar>- 0.01 + (0.01 - (- 0.01)) * w\<bar> \<le> 0.01" if "0 \<le> w" "w \<le> 1" for w :: real
    using that by (simp only: abs_le_iff) simp
  have "\<bar>latitude p - center_lat self\<bar> \<le> 0.01" using near [OF u] unfolding e(3) by simp
  moreover have "\<bar>longitude p - center_lon self\<bar> \<le> 0.01" using near [OF v] unfolding e(4) by simp
  ultimately show ?thesis using run e(2) by blast
qed

lemma circular_track_at:
  assumes "rng_ok g"
  shows "\<exists>pts g'. CircularTrackGenerator_generate self n ival g = Inr (pts, g') \<and> rng_ok g'
     \<and> length pts = nat n
     \<and> (\<forall>k < nat n.
           latitude (pts ! k) = center_lat self + radius self * cos (2 * pi / of_int n * real k)
         \<and> longitude (pts ! k) = center_lon self + radius self * sin (2 * pi / of_int n * real k))"
  unfolding CircularTrackGenerator_generate_def
  by (rule emit_loop [OF assms, where self = self and ival = ival
        and lat = "\<lambda>k. center_lat self + radius self * cos (2 * pi / of_int n * real k)"
        and lon = "\<lambda>k. center_lon self + radius self * sin (2 * pi / of_int n * real k)"])
     (simp add: circular_body circular_angle_def)

lemma elliptical_track_at:
  assumes "rng_ok g"
  shows "\<exists>pts g'. EllipticalTrackGenerator_generate self n ival g = Inr (pts, g') \<and> rng_ok g'
     \<and> length pts = nat n
     \<and> (\<forall>k < nat n.
           latitude (pts ! k) = center_lat self + radius_y self * sin (2 * pi / of_int n * real k)
         \<and> longitude (pts ! k) = center_lon self + radius_x self * cos (2 * pi / of_int n * real k))"
  unfolding EllipticalTrackGenerator_generate_def
  by (rule emit_loop [OF assms, where self = self and ival = ival
        and lat = "\<lambda>k. center_lat self + radius_y self * sin (2 * pi / of_int n * real k)"
        and lon = "\<lambda>k. center_lon self + radius_x self * cos (2 * pi / of_int n * real k)"])
     (simp add: elliptical_body)

lemma flyby_track_at:
  assumes "rng_ok g" "n \<noteq> 1"
  shows "\<exists>pts g'. FlybyTrackGenerator_generate self n ival g = Inr (pts, g') \<and> rng_ok g'
     \<and> length pts = nat n
     \<and> (\<forall>k < nat n.
           latitude (pts ! k) = center_lat self + (- approach_distance self
               + (approach_distance self + exit_distance self) * (real k / of_int (n - 1)))
               * cos (bearing self)
         \<and> longitude (pts ! k) = center_lon self + (- approach_distance self
               + (approach_distance self + exit_distance self) * (real k / of_int (n - 1)))
               * sin (bearing self))"
  unfolding FlybyTrackGenerator_generate_def
  by (rule emit_loop [OF assms(1), where self = self and ival = ival
        and lat = "\<lambda>k. center_lat self + (- approach_distance self
               + (approach_distance self + exit_distance self) * (real k / of_int (n - 1)))
               * cos (bearing self)"
        and lon = "\<lambda>k. center_lon self + (- approach_distance self
               + (approach_distance self + exit_distance self) * (real k / of_int (n - 1)))
               * sin (bearing self)"])
     (simp only: flyby_body [OF assms(2)])

lemma zigzag_track_at:
  assumes "rng_ok g"
  shows "\<exists>pts g'. ZigzagTrackGenerator_generate self n ival g = Inr (pts, g') \<and> rng_ok g'
     \<and> length pts = nat n
     \<and> (\<forall>k < nat n.
           latitude (pts ! k) = center_lat self
             + 0.01 * (if 1 < n then real k / of_int (n - 1) else 0) * cos (direction self)
             + amplitude self
                 * sin (2 * pi * frequency self * (if 1 < n then real k / of_int (n - 1) else 0))
                 * cos (direction self + pi / 2)
         \<and> longitude (pts ! k) = center_lon self
             + 0.01 * (if 1 < n then real k / of_int (n - 1) else 0) * sin (direction self)
             + amplitude self
                 * sin (2 * pi * frequency self * (if 1 < n then real k / of_int (n - 1) else 0))
                 * sin (direction self + pi / 2))"
  unfolding ZigzagTrackGenerator_generate_def
  by (rule emit_loop [OF assms(1), where self = self and ival = ival
        and lat = "\<lambda>k. center_lat self
             + 0.01 * (if 1 < n then real k / of_int (n - 1) else 0) * cos (direction self)
             + amplitude self
                 * sin (2 * pi * frequency self * (if 1 < n then real k / of_int (n - 1) else 0))
                 * cos (direction self + pi / 2)"
        and lon = "\<lambda>k. center_lon self
             + 0.01 * (if 1 < n then real k / of_int (n - 1) else 0) * sin (direction self)
             + amplitude self
                 * sin (2 * pi * frequency self * (if 1 < n then real k / of_int (n - 1) else 0))
                 * sin (direction self + pi / 2)"])
     (simp only: zigzag_body)

lemma spiral_track_at:
  assumes "rng_ok g"
  shows "\<exists>pts g'. SpiralTrackGenerator_generate self n ival g = Inr (pts, g') \<and> rng_ok g'
     \<and> length pts = nat n
     \<and> (\<forall>k < nat n.
           latitude (pts ! k) = center_lat self
             + (initial_radius self + radius_increment self * real k)
                 * cos (2 * pi * rotations self * (real k / of_int n))
         \<and> longitude (pts ! k) = center_lon self
             + (initial_radius self + radius_increment self * real k)
                 * sin (2 * pi * rotations self * (real k / of_int n)))"
  unfolding SpiralTrackGenerator_generate_def
  by (rule emit_loop [OF assms(1), where self = self and ival = ival
        and lat = "\<lambda>k. center_lat self
             + (initial_radius self + radius_increment self * real k)
                 * cos (2 * pi * rotations self * (real k / of_int n))"
        and lon = "\<lambda>k. center_lon self
             + (initial_radius self + radius_increment self * real k)
                 * sin (2 * pi * rotations self * (real k / of_int n))"])
     (simp add: spiral_body)

lemma random_track_near:
  assumes "rng_ok g"
  shows "\<exists>pts g'. RandomTrackGenerator_generate self n ival g = Inr (pts, g') \<and> rng_ok g'
     \<and> length pts = nat n
     \<and> (\<forall>k < nat n. \<bar>latitude (pts ! k) - center_lat self\<bar> \<le> 0.01
           \<and> \<bar>longitude (pts ! k) - center_lon self\<bar> \<le> 0.01)"
  unfolding RandomTrackGenerator_generate_def
proof (rule for_each_range [where I = rng_ok])
  show "rng_ok g" by fact
  show "\<exists>p s'. RandomTrackGenerator_body self ival i s = Inr (p, s') \<and> rng_ok s'
      \<and> \<bar>latitude p - center_lat self\<bar> \<le> 0.01 \<and> \<bar>longitude p - center_lon self\<bar> \<le> 0.01"
    if "i < nat n" "rng_ok s" for i s
    using random_body_near [OF that(2)] by blast
qed

lemma stride_index:
  fixes s k :: nat
  assumes "1 \<le> s" "k < (7 + s) div s"
  shows "k * s < 8"
proof -
  have "Suc k * s \<le> (7 + s) div s * s" using assms(2) by (intro mult_right_mono) simp_all
  also have "\<dots> \<le> 7 + s" by (rule div_times_less_eq_dividend)
  finally show ?thesis by simp
qed

lemma perimeter_path_4:
  "perimeter_path [a, b, c, d] =
     [a, ((fst a + fst b) / 2, (snd a + snd b) / 2), b, ((fst b + fst c) / 2, (snd b + snd c) / 2),
      c, ((fst c + fst d) / 2, (snd c + snd d) / 2), d, ((fst d + fst a) / 2, (snd d + snd a) / 2)]"
  by (simp add: perimeter_path_def Let_def)

lemma square_path_offsets:
  "square_path self = map (\<lambda>(a, b). (center_lat self + a, center_lon self + b))
     (perimeter_offsets (side_length self / 2) (side_length self / 2))"
  by (simp add: square_path_def Let_def perimeter_path_4 perimeter_offsets_def)

lemma rectangle_path_offsets:
  "rectangle_path self = map (\<lambda>(a, b). (center_lat self + a, center_lon self + b))
     (perimeter_offsets (height self / 2) (width self / 2))"
  by (simp add: rectangle_path_def Let_def perimeter_path_4 perimeter_offsets_def)

lemma sample_path_at:
  assumes g: "rng_ok g" and n: "n \<noteq> 0"
    and path: "path = map (\<lambda>(a, b). (clat + a, clon + b)) (perimeter_offsets h w)"
  defines "s \<equiv> nat (max 1 (8 div n))"
  shows "\<exists>pts g'. sample_path self path n ival g = Inr (pts, g') \<and> rng_ok g'
     \<and> length pts = (7 + s) div s
     \<and> (\<forall>k < (7 + s) div s.
           latitude (pts ! k) = clat + fst (perimeter_offsets h w ! (k * s))
         \<and> longitude (pts ! k) = clon + snd (perimeter_offsets h w ! (k * s)))"
proof -
  have l8: "length path = 8" "length (perimeter_offsets h w) = 8"
    by (simp_all add: path perimeter_offsets_def)
  have st: "path_step path n = s" by (simp add: path_step_def l8 s_def)
  have s1: "1 \<le> s" by (simp add: s_def)
  obtain pts g' where run: "sample_path self path n ival g = Inr (pts, g')" "rng_ok g'"
    and len: "length pts = length (slice_step s path)"
    and pt: "\<forall>k < length pts.
       (latitude (pts ! k), longitude (pts ! k)) = slice_step s path ! k"
    using sample_path_ok [OF g n, of self path ival] unfolding st by blast
  have cnt: "length (slice_step s path) = (7 + s) div s"
    using length_slice_step [OF s1, of path] by (simp add: l8)
  have "latitude (pts ! k) = clat + fst (perimeter_offsets h w ! (k * s))
      \<and> longitude (pts ! k) = clon + snd (perimeter_offsets h w ! (k * s))"
    if k: "k < (7 + s) div s" for k
  proof -
    have i: "k * s < 8" using stride_index [OF s1 k] .
    have kk: "k < length (slice_step s path)" using k cnt by simp
    have "(latitude (pts ! k), longitude (pts ! k)) = path ! (k * s)"
      using pt k len cnt nth_slice_step [OF s1 kk] by simp
    also have "\<dots> = (clat + fst (perimeter_offsets h w ! (k * s)),
        clon + snd (perimeter_offsets h w ! (k * s)))"
      unfolding path using i l8(2) by (simp add: case_prod_beta)
    finally show ?thesis by simp
  qed
  then show ?thesis using run len cnt by simp
qed

lemma maneuver_init_sel [simp]:
  "center_lat (CircularTrackGenerator_init b r) = center_lat b"
  "center_lon (CircularTrackGenerator_init b r) = center_lon b"
  "radius (CircularTrackGenerator_init b r) = r"
  "center_lat (EllipticalTrackGenerator_init b rx ry) = center_lat b"
  "center_lon (EllipticalTrackGenerator_init b rx ry) = center_lon b"
  "radius_x (EllipticalTrackGenerator_init b rx ry) = rx"
  "radius_y (EllipticalTrackGenerator_init b rx ry) = ry"
  "center_lat (FlybyTrackGenerator_init b ap ex bd) = center_lat b"
  "center_lon (FlybyTrackGenerator_init b ap ex bd) = center_lon b"
  "approach_distance (FlybyTrackGenerator_init b ap ex bd) = ap"
  "exit_distance (FlybyTrackGenerator_init b ap ex bd) = ex"
  "bearing (FlybyTrackGenerator_init b ap ex bd) = radians bd"
  "center_lat (SquareTrackGenerator_init b sd) = center_lat b"
  "center_lon (SquareTrackGenerator_init b sd) = center_lon b"
  "side_length (SquareTrackGenerator_init b sd) = sd"
  "center_lat (RectangleTrackGenerator_init b wd ht) = center_lat b"
  "center_lon (RectangleTrackGenerator_init b wd ht) = center_lon b"
  "width (RectangleTrackGenerator_init b wd ht) = wd"
  "height (RectangleTrackGenerator_init b wd ht) = ht"
  "center_lat (ZigzagTrackGenerator_init b dd am fr) = center_lat b"
  "center_lon (ZigzagTrackGenerator_init b dd am fr) = center_lon b"
  "direction (ZigzagTrackGenerator_init b dd am fr) = radians dd"
  "amplitude (ZigzagTrackGenerator_init b dd am fr) = am"
  "frequency (ZigzagTrackGenerator_init b dd am fr) = fr"
  "center_lat (SpiralTrackGenerator_init b r0 dr ro) = center_lat b"
  "center_lon (SpiralTrackGenerator_init b r0 dr ro) = center_lon b"
  "initial_radius (SpiralTrackGenerator_init b r0 dr ro) = r0"
  "radius_increment (SpiralTrackGenerator_init b r0 dr ro) = dr"
  "rotations (SpiralTrackGenerator_init b r0 dr ro) = ro"
  by (simp_all add: CircularTrackGenerator_init_def EllipticalTrackGenerator_init_def
      FlybyTrackGenerator_init_def SquareTrackGenerator_init_def RectangleTrackGenerator_init_def
      ZigzagTrackGenerator_init_def SpiralTrackGenerator_init_def base_gen.extend_def
      circular_gen.fields_def elliptical_gen.fields_def flyby_gen.fields_def square_gen.fields_def
      rectangle_gen.fields_def zigzag_gen.fields_def spiral_gen.fields_def)

lemma generate_track_at:
  assumes g: "rng_ok g" and nr: "\<not> config_raises self"
  shows "\<exists>pts g'. generate_track self now tid clat clon t0 g = Inr (pts, g')
     \<and> length pts = track_length self
     \<and> (\<forall>k < track_length self. track_point_at self clat clon k (pts ! k))"
proof -
  define b where "b = BaseTrackGenerator clat clon (cfg_center_alt self)
                (Some (cfg_min_alt self)) (Some (cfg_max_alt self)) tid
                ''ARTIFICIAL'' ''Surveillance'' ''MSL'' now"
  define n where "n = cfg_num_points self"
  define ival where "ival = cfg_interval_seconds self"
  define cls where "cls = track_generator_class self"
  have gt: "generate_track self now tid clat clon t0 g
      = generator_generate (set_start_time t0 (select_generator self b)) n ival g"
    by (simp add: generate_track_def Let_def b_def n_def ival_def)
  have bc: "center_lat b = clat" "center_lon b = clon" by (simp_all add: b_def)
  consider (circular) "cls = ''circular''" | (elliptical) "cls = ''elliptical''"
    | (flyby) "cls = ''flyby''" | (square) "cls = ''square''" | (rectangle) "cls = ''rectangle''"
    | (zigzag) "cls = ''zigzag''" | (spiral) "cls = ''spiral''"
    | (other) "cls \<notin> {''circular'', ''elliptical'', ''flyby'', ''square'', ''rectangle'',
         ''zigzag'', ''spiral''}"
    by (simp only: insert_iff empty_iff) argo
  then show ?thesis
  proof cases
    case circular
    let ?x = "(CircularTrackGenerator_init b 0.005)\<lparr>start_time := t0\<rparr>"
    have run: "generate_track self now tid clat clon t0 g = CircularTrackGenerator_generate ?x n ival g"
      unfolding gt using circular by (simp add: select_generator_def cls_def)
    have len: "track_length self = nat n"
      using circular by (simp add: track_length_def cls_def n_def)
    obtain pts g' where r: "CircularTrackGenerator_generate ?x n ival g = Inr (pts, g')"
      "length pts = nat n"
      "\<forall>k < nat n.
           latitude (pts ! k) = center_lat ?x + radius ?x * cos (2 * pi / of_int n * real k)
         \<and> longitude (pts ! k) = center_lon ?x + radius ?x * sin (2 * pi / of_int n * real k)"
      using circular_track_at [OF g, of ?x n ival] by blast
    have "track_point_at self clat clon k (pts ! k)" if "k < nat n" for k
      using r(3) [rule_format, OF that] circular
      by (simp add: track_point_at_def maneuver_offset_def cls_def [symmetric] n_def [symmetric] bc
          Let_def)
    then show ?thesis unfolding run len using r(1,2) by simp
  next
    case elliptical
    let ?x = "(EllipticalTrackGenerator_init b 0.01 0.005)\<lparr>start_time := t0\<rparr>"
    have run: "generate_track self now tid clat clon t0 g
        = EllipticalTrackGenerator_generate ?x n ival g"
      unfolding gt using elliptical by (simp add: select_generator_def cls_def)
    have len: "track_length self = nat n"
      using elliptical by (simp add: track_length_def cls_def n_def)
    obtain pts g' where r: "EllipticalTrackGenerator_generate ?x n ival g = Inr (pts, g')"
      "length pts = nat n"
      "\<forall>k < nat n.
           latitude (pts ! k) = center_lat ?x + radius_y ?x * sin (2 * pi / of_int n * real k)
         \<and> longitude (pts ! k) = center_lon ?x + radius_x ?x * cos (2 * pi / of_int n * real k)"
      using elliptical_track_at [OF g, of ?x n ival] by blast
    have "track_point_at self clat clon k (pts ! k)" if "k < nat n" for k
      using r(3) [rule_format, OF that] elliptical
      by (simp add: track_point_at_def maneuver_offset_def cls_def [symmetric] n_def [symmetric] bc
          Let_def)
    then show ?thesis unfolding run len using r(1,2) by simp
  next
    case flyby
    let ?x = "(FlybyTrackGenerator_init b 0.02 0.02 45)\<lparr>start_time := t0\<rparr>"
    have n1: "n \<noteq> 1" using nr flyby by (simp add: config_raises_def cls_def n_def)
    have run: "generate_track self now tid clat clon t0 g = FlybyTrackGenerator_generate ?x n ival g"
      unfolding gt using flyby by (simp add: select_generator_def cls_def)
    have len: "track_length self = nat n"
      using flyby by (simp add: track_length_def cls_def n_def)
    obtain pts g' where r: "FlybyTrackGenerator_generate ?x n ival g = Inr (pts, g')"
      "length pts = nat n"
      "\<forall>k < nat n.
           latitude (pts ! k) = center_lat ?x + (- approach_distance ?x
               + (approach_distance ?x + exit_distance ?x) * (real k / of_int (n - 1)))
               * cos (bearing ?x)
         \<and> longitude (pts ! k) = center_lon ?x + (- approach_distance ?x
               + (approach_distance ?x + exit_distance ?x) * (real k / of_int (n - 1)))
               * sin (bearing ?x)"
      using flyby_track_at [OF g n1, of ?x ival] by blast
    have "track_point_at self clat clon k (pts ! k)" if "k < nat n" for k
      using r(3) [rule_format, OF that] flyby
      by (simp add: track_point_at_def maneuver_offset_def cls_def [symmetric] n_def [symmetric] bc
          Let_def)
    then show ?thesis unfolding run len using r(1,2) by simp
  next
    case square
    let ?x = "(SquareTrackGenerator_init b 0.02)\<lparr>start_time := t0\<rparr>"
    have n0: "n \<noteq> 0" using nr square by (simp add: config_raises_def cls_def n_def)
    have run: "generate_track self now tid clat clon t0 g
        = sample_path ?x (square_path ?x) n ival g"
      unfolding gt using square
      by (simp add: select_generator_def cls_def SquareTrackGenerator_generate_def)
    have len: "track_length self = (7 + nat (max 1 (8 div n))) div nat (max 1 (8 div n))"
      using square by (simp add: track_length_def cls_def n_def Let_def)
    have path: "square_path ?x
        = map (\<lambda>(a, b). (clat + a, clon + b)) (perimeter_offsets 0.01 0.01)"
      unfolding square_path_offsets by (simp add: bc)
    obtain pts g' where r: "sample_path ?x (square_path ?x) n ival g = Inr (pts, g')"
      "length pts = (7 + nat (max 1 (8 div n))) div nat (max 1 (8 div n))"
      "\<forall>k < (7 + nat (max 1 (8 div n))) div nat (max 1 (8 div n)).
           latitude (pts ! k) = clat + fst (perimeter_offsets 0.01 0.01 ! (k * nat (max 1 (8 div n))))
         \<and> longitude (pts ! k)
             = clon + snd (perimeter_offsets 0.01 0.01 ! (k * nat (max 1 (8 div n))))"
      using sample_path_at [OF g n0 path, of ?x ival] by blast
    have "track_point_at self clat clon k (pts ! k)"
      if "k < (7 + nat (max 1 (8 div n))) div nat (max 1 (8 div n))" for k
      using r(3) [rule_format, OF that] square
      by (simp add: track_point_at_def maneuver_offset_def cls_def [symmetric] n_def [symmetric]
          Let_def)
    then show ?thesis unfolding run len using r(1,2) by simp
  next
    case rectangle
    let ?x = "(RectangleTrackGenerator_init b 0.03 0.01)\<lparr>start_time := t0\<rparr>"
    have n0: "n \<noteq> 0" using nr rectangle by (simp add: config_raises_def cls_def n_def)
    have run: "generate_track self now tid clat clon t0 g
        = sample_path ?x (rectangle_path ?x) n ival g"
      unfolding gt using rectangle
      by (simp add: select_generator_def cls_def RectangleTrackGenerator_generate_def)
    have len: "track_length self = (7 + nat (max 1 (8 div n))) div nat (max 1 (8 div n))"
      using rectangle by (simp add: track_length_def cls_def n_def Let_def)
    have path: "rectangle_path ?x
        = map (\<lambda>(a, b). (clat + a, clon + b)) (perimeter_offsets 0.005 0.015)"
      unfolding rectangle_path_offsets by (simp add: bc)
    obtain pts g' where r: "sample_path ?x (rectangle_path ?x) n ival g = Inr (pts, g')"
      "length pts = (7 + nat (max 1 (8 div n))) div nat (max 1 (8 div n))"
      "\<forall>k < (7 + nat (max 1 (8 div n))) div nat (max 1 (8 div n)).
           latitude (pts ! k)
             = clat + fst (perimeter_offsets 0.005 0.015 ! (k * nat (max 1 (8 div n))))
         \<and> longitude (pts ! k)
             = clon + snd (perimeter_offsets 0.005 0.015 ! (k * nat (max 1 (8 div n))))"
      using sample_path_at [OF g n0 path, of ?x ival] by blast
    have "track_point_at self clat clon k (pts ! k)"
      if "k < (7 + nat (max 1 (8 div n))) div nat (max 1 (8 div n))" for k
      using r(3) [rule_format, OF that] rectangle
      by (simp add: track_point_at_def maneuver_offset_def cls_def [symmetric] n_def [symmetric]
          Let_def)
    then show ?thesis unfolding run len using r(1,2) by simp
  next
    case zigzag
    let ?x = "(ZigzagTrackGenerator_init b 0 0.005 2)\<lparr>start_time := t0\<rparr>"
    have run: "generate_track self now tid clat clon t0 g = ZigzagTrackGenerator_generate ?x n ival g"
      unfolding gt using zigzag by (simp add: select_generator_def cls_def)
    have len: "track_length self = nat n"
      using zigzag by (simp add: track_length_def cls_def n_def)
    obtain pts g' where r: "ZigzagTrackGenerator_generate ?x n ival g = Inr (pts, g')"
      "length pts = nat n"
      "\<forall>k < nat n.
           latitude (pts ! k) = center_lat ?x
             + 0.01 * (if 1 < n then real k / of_int (n - 1) else 0) * cos (direction ?x)
             + amplitude ?x
                 * sin (2 * pi * frequency ?x * (if 1 < n then real k / of_int (n - 1) else 0))
                 * cos (direction ?x + pi / 2)
         \<and> longitude (pts ! k) = center_lon ?x
             + 0.01 * (if 1 < n then real k / of_int (n - 1) else 0) * sin (direction ?x)
             + amplitude ?x
                 * sin (2 * pi * frequency ?x * (if 1 < n then real k / of_int (n - 1) else 0))
                 * sin (direction ?x + pi / 2)"
      using zigzag_track_at [OF g, of ?x n ival] by blast
    have "track_point_at self clat clon k (pts ! k)" if "k < nat n" for k
      using r(3) [rule_format, OF that] zigzag
      by (simp add: track_point_at_def maneuver_offset_def cls_def [symmetric] n_def [symmetric] bc
          radians_def Let_def)
    then show ?thesis unfolding run len using r(1,2) by simp
  next
    case spiral
    let ?x = "(SpiralTrackGenerator_init b 0.002 0.001 3)\<lparr>start_time := t0\<rparr>"
    have run: "generate_track self now tid clat clon t0 g = SpiralTrackGenerator_generate ?x n ival g"
      unfolding gt using spiral by (simp add: select_generator_def cls_def)
    have len: "track_length self = nat n"
      using spiral by (simp add: track_length_def cls_def n_def)
    obtain pts g' where r: "SpiralTrackGenerator_generate ?x n ival g = Inr (pts, g')"
      "length pts = nat n"
      "\<forall>k < nat n.
           latitude (pts ! k) = center_lat ?x
             + (initial_radius ?x + radius_increment ?x * real k)
                 * cos (2 * pi * rotations ?x * (real k / of_int n))
         \<and> longitude (pts ! k) = center_lon ?x
             + (initial_radius ?x + radius_increment ?x * real k)
                 * sin (2 * pi * rotations ?x * (real k / of_int n))"
      using spiral_track_at [OF g, of ?x n ival] by blast
    have "track_point_at self clat clon k (pts ! k)" if "k < nat n" for k
      using r(3) [rule_format, OF that] spiral
      by (simp add: track_point_at_def maneuver_offset_def cls_def [symmetric] n_def [symmetric] bc
          Let_def)
    then show ?thesis unfolding run len using r(1,2) by simp
  next
    case other
    let ?x = "b\<lparr>start_time := t0\<rparr>"
    have run: "generate_track self now tid clat clon t0 g = RandomTrackGenerator_generate ?x n ival g"
      unfolding gt using other by (simp add: select_generator_def cls_def Let_def)
    have len: "track_length self = nat n"
      using other by (simp add: track_length_def cls_def n_def)
    obtain pts g' where r: "RandomTrackGenerator_generate ?x n ival g = Inr (pts, g')"
      "length pts = nat n"
      "\<forall>k < nat n. \<bar>latitude (pts ! k) - center_lat ?x\<bar> \<le> 0.01
           \<and> \<bar>longitude (pts ! k) - center_lon ?x\<bar> \<le> 0.01"
      using random_track_near [OF g, of ?x n ival] by blast
    have "track_point_at self clat clon k (pts ! k)" if "k < nat n" for k
      using r(3) [rule_format, OF that] other
      by (simp add: track_point_at_def cls_def [symmetric] bc)
    then show ?thesis unfolding run len using r(1,2) by simp
  qed
qed

lemma independent_track_at:
  assumes "rng_ok g" "\<not> config_raises self"
  shows "\<exists>t g'. independent_track self t0 i g = Inr (t, g') \<and> rng_ok g'
     \<and> (\<exists>pts. t = TrackPoints pts \<and> length pts = track_length self
          \<and> (\<forall>j < track_length self.
                track_point_ok self (initial_track_id self + int i)
                  (t0 + real i * time_delay self) j (pts ! j)
              \<and> track_point_at self
                  (cfg_center_lat self + cfg_separation_distance self * real i)
                  (cfg_center_lon self) j (pts ! j)))"
proof -
  let ?run = "generate_track self t0 (initial_track_id self + int i)
               (cfg_center_lat self + cfg_separation_distance self * real i) (cfg_center_lon self)
               (t0 + real i * time_delay self) g"
  obtain pts g' where 1: "?run = Inr (pts, g')" "rng_ok g'"
     "\<forall>k < length pts. track_point_ok self (initial_track_id self + int i)
                  (t0 + real i * time_delay self) k (pts ! k)"
    using generate_track_ok [OF assms] by blast
  obtain qts h' where 2: "?run = Inr (qts, h')" "length qts = track_length self"
     "\<forall>k < track_length self. track_point_at self
         (cfg_center_lat self + cfg_separation_distance self * real i) (cfg_center_lon self)
         k (qts ! k)"
    using generate_track_at [OF assms] by blast
  have e: "qts = pts" using 1(1) 2(1) by simp
  have "independent_track self t0 i g = Inr (TrackPoints pts, g')"
    using 1(1) by (simp add: independent_track_def Let_def)
  then show ?thesis using 1(2,3) 2(2,3) unfolding e by simp
qed

text \<open>
  Claim C9. In independent mode (\<open>fly_along\<close> false), unless the configuration is one
  whose generator raises \<open>ZeroDivisionError\<close> (fly-by with one point, square or rectangle
  with zero points), \<open>generate\<close> returns \<open>num_tracks\<close> tracks. Track \<open>i\<close> has the number of
  points of its maneuver; its point \<open>j\<close> carries the track id \<open>initial_track_id + i\<close>,
  zero-padded to five digits, and the timestamp \<open>j * interval_seconds\<close> after the start
  time \<open>base_start_time + time_delay * i\<close> of its track, and lies where point \<open>j\<close> of the
  maneuver lies around the center of latitude \<open>center_lat + separation_distance * i\<close> and
  longitude \<open>center_lon\<close>.
\<close>

theorem independent_tracks:
  assumes "\<not> fly_along self" "rng_ok g"
  shows "if config_raises self \<and> 1 \<le> num_tracks self
         then ArtificialTrackGenerator_generate self env t0 g = Inl ZeroDivisionError
         else \<exists>tracks g'. ArtificialTrackGenerator_generate self env t0 g = Inr (tracks, g')
              \<and> length tracks = nat (num_tracks self)
              \<and> (\<forall>i < nat (num_tracks self). \<exists>pts.
                    tracks ! i = TrackPoints pts
                  \<and> length pts = track_length self
                  \<and> (\<forall>j < track_length self.
                        trackId (pts ! j) = format_05d (initial_track_id self + int i)
                      \<and> timestamp (pts ! j)
                          = t0 + real i * time_delay self + real j * cfg_interval_seconds self
                      \<and> track_point_at self
                          (cfg_center_lat self + cfg_separation_distance self * real i)
                          (cfg_center_lon self) j (pts ! j)))"
proof (cases "config_raises self")
  case True
  show ?thesis
  proof (cases "1 \<le> num_tracks self")
    case t: True
    then obtain m where m: "nat (num_tracks self) = Suc m"
      by (cases "nat (num_tracks self)") auto
    have "py_range (num_tracks self) = 0 # [1..<Suc m]"
      by (simp add: py_range_def m upt_rec)
    then have "ArtificialTrackGenerator_generate self env t0 g = Inl ZeroDivisionError"
      using assms(1) True
      by (simp add: ArtificialTrackGenerator_generate_def independent_track_def
          generate_track_raises Let_def)
    then show ?thesis using True t by simp
  next
    case False
    then have "py_range (num_tracks self) = []" by (simp add: py_range_def)
    then show ?thesis using assms(1) False
      by (simp add: ArtificialTrackGenerator_generate_def)
  qed
next
  case False
  let ?P = "\<lambda>i t. \<exists>pts. t = TrackPoints pts \<and> length pts = track_length self
          \<and> (\<forall>j < track_length self.
                track_point_ok self (initial_track_id self + int i)
                  (t0 + real i * time_delay self) j (pts ! j)
              \<and> track_point_at self
                  (cfg_center_lat self + cfg_separation_distance self * real i)
                  (cfg_center_lon self) j (pts ! j))"
  have "\<exists>ts g'. for_each (independent_track self t0) (py_range (num_tracks self)) g = Inr (ts, g')
      \<and> rng_ok g' \<and> length ts = nat (num_tracks self)
      \<and> (\<forall>k < nat (num_tracks self). ?P k (ts ! k))"
  proof (rule for_each_range [where I = rng_ok and P = ?P])
    show "rng_ok g" by (fact assms(2))
    show "\<exists>p s'. independent_track self t0 i s = Inr (p, s') \<and> rng_ok s' \<and> ?P i p"
      if "i < nat (num_tracks self)" "rng_ok s" for i s
      using independent_track_at [OF that(2) False, of t0 i] by blast
  qed
  then obtain ts g' where
    run: "for_each (independent_track self t0) (py_range (num_tracks self)) g = Inr (ts, g')"
    and len: "length ts = nat (num_tracks self)"
    and pt: "\<forall>k < nat (num_tracks self). ?P k (ts ! k)"
    by blast
  have "\<exists>pts. ts ! i = TrackPoints pts
        \<and> length pts = track_length self
        \<and> (\<forall>j < track_length self.
              trackId (pts ! j) = format_05d (initial_track_id self + int i)
            \<and> timestamp (pts ! j)
                = t0 + real i * time_delay self + real j * cfg_interval_seconds self
            \<and> track_point_at self
                (cfg_center_lat self + cfg_separation_distance self * real i)
                (cfg_center_lon self) j (pts ! j))"
    if i: "i < nat (num_tracks self)" for i
  proof -
    obtain pts where p: "ts ! i = TrackPoints pts" "length pts = track_length self"
      "\<forall>j < track_length self.
                track_point_ok self (initial_track_id self + int i)
                  (t0 + real i * time_delay self) j (pts ! j)
              \<and> track_point_at self
                  (cfg_center_lat self + cfg_separation_distance self * real i)
                  (cfg_center_lon self) j (pts ! j)"
      using pt [rule_format, OF i] by blast
    show ?thesis
    proof (intro exI conjI allI impI)
      show "ts ! i = TrackPoints pts" by (fact p(1))
      show "length pts = track_length self" by (fact p(2))
    next
      fix j assume j: "j < track_length self"
      note f = p(3) [rule_format, OF j]
      show "trackId (pts ! j) = format_05d (initial_track_id self + int i)"
        using f by (simp add: track_point_ok_def)
      show "timestamp (pts ! j)
          = t0 + real i * time_delay self + real j * cfg_interval_seconds self"
        using f by (simp add: track_point_ok_def)
      show "track_point_at self (cfg_center_lat self + cfg_separation_distance self * real i)
                (cfg_center_lon self) j (pts ! j)"
        using f by simp
    qed
  qed
  then show ?thesis
    using False assms(1) run len by (simp add: ArtificialTrackGenerator_generate_def)
qed

theorem independent_tracks_witness:
  "\<not> fly_along example_config \<and> rng_ok example_rng
   \<and> (\<exists>tracks g'. ArtificialTrackGenerator_generate example_config example_env 0 example_rng
                      = Inr (tracks, g')
        \<and> length tracks = 3
        \<and> (\<exists>pts. tracks ! 0 = TrackPoints pts \<and> length pts = 20
              \<and> trackId (pts ! 19) = ''10000'' \<and> timestamp (pts ! 19) = 190
              \<and> latitude (pts ! 0) = 33.755 \<and> longitude (pts ! 0) = - 118.25)
        \<and> (\<exists>pts. tracks ! 1 = TrackPoints pts \<and> length pts = 20
              \<and> trackId (pts ! 19) = ''10001'' \<and> timestamp (pts ! 19) = 220
              \<and> latitude (pts ! 0) = 33.76 \<and> longitude (pts ! 0) = - 118.25)
        \<and> (\<exists>pts. tracks ! 2 = TrackPoints pts \<and> length pts = 20
              \<and> trackId (pts ! 19) = ''10002'' \<and> timestamp (pts ! 19) = 250
              \<and> latitude (pts ! 0) = 33.765 \<and> longitude (pts ! 0) = - 118.25))"
proof -
  have c: "lower ''circular'' = ''circular''" by code_simp
  have nf: "\<not> fly_along example_config" by (simp add: example_config_def)
  have nr: "\<not> config_raises example_config"
    by (simp add: example_config_def config_raises_def c)
  have sel: "num_tracks example_config = 3" "initial_track_id example_config = 10000"
    "time_delay example_config = 30" "cfg_interval_seconds example_config = 10"
    "cfg_center_lat example_config = 33.75" "cfg_center_lon example_config = - 118.25"
    "cfg_separation_distance example_config = 0.005" "cfg_num_points example_config = 20"
    "track_generator_class example_config = ''circular''"
    by (simp_all add: example_config_def c)
  have tl: "track_length example_config = 20"
    by (simp add: track_length_def sel)
  have at: "track_point_at example_config clat clon 0 p
      \<longleftrightarrow> latitude p = clat + 0.005 \<and> longitude p = clon" for clat clon p
    by (simp add: track_point_at_def maneuver_offset_def sel Let_def)
  obtain tracks g' where
    run: "ArtificialTrackGenerator_generate example_config example_env 0 example_rng
            = Inr (tracks, g')"
    and len: "length tracks = 3"
    and tr: "\<forall>i < 3. \<exists>pts.
                    tracks ! i = TrackPoints pts
                  \<and> length pts = 20
                  \<and> (\<forall>j < 20.
                        trackId (pts ! j) = format_05d (10000 + int i)
                      \<and> timestamp (pts ! j) = 0 + real i * 30 + real j * 10
                      \<and> track_point_at example_config (33.75 + 0.005 * real i) (- 118.25) j
                          (pts ! j))"
    using independent_tracks [OF nf rng_ok_example, of example_env 0] nr
    by (auto simp: sel tl)
  have t0: "\<exists>pts. tracks ! 0 = TrackPoints pts \<and> length pts = 20
              \<and> trackId (pts ! 19) = ''10000'' \<and> timestamp (pts ! 19) = 190
              \<and> latitude (pts ! 0) = 33.755 \<and> longitude (pts ! 0) = - 118.25"
  proof -
    obtain pts where p: "tracks ! 0 = TrackPoints pts" "length pts = 20"
      "\<forall>j < 20. trackId (pts ! j) = format_05d (10000 + int 0)
                      \<and> timestamp (pts ! j) = 0 + real 0 * 30 + real j * 10
                      \<and> track_point_at example_config (33.75 + 0.005 * real 0) (- 118.25) j
                          (pts ! j)"
      using tr [rule_format, of 0] by auto
    show ?thesis
      using p(1,2) p(3) [rule_format, of 19] p(3) [rule_format, of 0]
      by (simp add: format_05d_examples at)
  qed
  have t1: "\<exists>pts. tracks ! 1 = TrackPoints pts \<and> length pts = 20
              \<and> trackId (pts ! 19) = ''10001'' \<and> timestamp (pts ! 19) = 220
              \<and> latitude (pts ! 0) = 33.76 \<and> longitude (pts ! 0) = - 118.25"
  proof -
    obtain pts where p: "tracks ! 1 = TrackPoints pts" "length pts = 20"
      "\<forall>j < 20. trackId (pts ! j) = format_05d (10000 + int 1)
                      \<and> timestamp (pts ! j) = 0 + real 1 * 30 + real j * 10
                      \<and> track_point_at example_config (33.75 + 0.005 * real 1) (- 118.25) j
                          (pts ! j)"
      using tr [rule_format, of 1] by auto
    show ?thesis
      using p(1,2) p(3) [rule_format, of 19] p(3) [rule_format, of 0]
      by (simp add: format_05d_examples at)
  qed
  have t2: "\<exists>pts. tracks ! 2 = TrackPoints pts \<and> length pts = 20
              \<and> trackId (pts ! 19) = ''10002'' \<and> timestamp (pts ! 19) = 250
              \<and> latitude (pts ! 0) = 33.765 \<and> longitude (pts ! 0) = - 118.25"
  proof -
    obtain pts where p: "tracks ! 2 = TrackPoints pts" "length pts = 20"
      "\<forall>j < 20. trackId (pts ! j) = format_05d (10000 + int 2)
                      \<and> timestamp (pts ! j) = 0 + real 2 * 30 + real j * 10
                      \<and> track_point_at example_config (33.75 + 0.005 * real 2) (- 118.25) j
                          (pts ! j)"
      using tr [rule_format, of 2] by auto
    show ?thesis
      using p(1,2) p(3) [rule_format, of 19] p(3) [rule_format, of 0]
      by (simp add: format_05d_examples at)
  qed
  show ?thesis using nf run len t0 t1 t2 by simp
qed

section \<open>The square and rectangle generators\<close>

lemma length_perimeter_path: "length (perimeter_path corners) = 2 * length corners"
  by (simp add: perimeter_path_def length_concat comp_def Let_def sum_list_triv)

lemma length_square_path [simp]: "length (square_path self) = 8"
  by (simp add: square_path_def Let_def length_perimeter_path)

lemma length_rectangle_path [simp]: "length (rectangle_path self) = 8"
  by (simp add: rectangle_path_def Let_def length_perimeter_path)

lemma path_step_8:
  assumes "length path = 8" "1 \<le> n"
  shows "path_step path n = (if n = 1 then 8 else if n = 2 then 4 else if n \<le> 4 then 2 else 1)"
proof -
  consider "n = 1" | "n = 2" | "n = 3" | "n = 4" | "n = 5" | "n = 6" | "n = 7" | "n = 8" | "9 \<le> n"
    using assms(2) by linarith
  then show ?thesis
    by cases (simp_all add: path_step_def assms(1) div_pos_pos_trivial)
qed

lemma sampled_count_8:
  assumes "length path = 8" "1 \<le> n"
  shows "length (slice_step (path_step path n) path)
           = (if n = 1 then 1 else if n = 2 then 2 else if n \<le> 4 then 4 else 8)"
proof -
  have "1 \<le> path_step path n" by (simp add: path_step_8 [OF assms])
  then have "length (slice_step (path_step path n) path)
      = (8 + path_step path n - 1) div path_step path n"
    using length_slice_step [of "path_step path n" path] assms(1) by simp
  then show ?thesis by (simp add: path_step_8 [OF assms])
qed

lemma sample_path_8:
  assumes "rng_ok g" "1 \<le> n" "length path = 8"
  shows "\<exists>pts g'. sample_path self path n ival g = Inr (pts, g')
     \<and> length path = 8
     \<and> path_step path n = nat (max 1 (8 div n))
     \<and> length pts = (if n = 1 then 1 else if n = 2 then 2 else if n \<le> 4 then 4 else 8)
     \<and> (\<forall>k < length pts.
           (latitude (pts ! k), longitude (pts ! k)) = path ! (k * path_step path n))
     \<and> (length pts = nat n \<longleftrightarrow> n \<in> {1, 2, 4, 8})"
proof -
  have n0: "n \<noteq> 0" using assms(2) by simp
  have st: "1 \<le> path_step path n" by (simp add: path_step_8 [OF assms(3,2)])
  obtain pts g' where run: "sample_path self path n ival g = Inr (pts, g')"
    and len: "length pts = length (slice_step (path_step path n) path)"
    and pt: "\<forall>k < length pts.
       (latitude (pts ! k), longitude (pts ! k)) = slice_step (path_step path n) path ! k"
    using sample_path_ok [OF assms(1) n0, of self path ival] by blast
  have cnt: "length pts = (if n = 1 then 1 else if n = 2 then 2 else if n \<le> 4 then 4 else 8)"
    using len sampled_count_8 [OF assms(3,2)] by simp
  have nth: "(latitude (pts ! k), longitude (pts ! k)) = path ! (k * path_step path n)"
    if "k < length pts" for k
    using pt that nth_slice_step [OF st, of k path] len by simp
  have iff: "length pts = nat n \<longleftrightarrow> n \<in> {1, 2, 4, 8}"
  proof -
    consider "n = 1" | "n = 2" | "n = 3" | "n = 4" | "n = 5" | "n = 6" | "n = 7" | "n = 8"
      | "9 \<le> n"
      using assms(2) by linarith
    then show ?thesis unfolding cnt by cases simp_all
  qed
  have stp: "path_step path n = nat (max 1 (8 div n))"
    by (simp add: path_step_def assms(3))
  show ?thesis
  proof (intro exI conjI)
    show "sample_path self path n ival g = Inr (pts, g')" by (fact run)
    show "length path = 8" by (fact assms(3))
    show "path_step path n = nat (max 1 (8 div n))" by (fact stp)
    show "length pts = (if n = 1 then 1 else if n = 2 then 2 else if n \<le> 4 then 4 else 8)"
      by (fact cnt)
    show "\<forall>k < length pts.
           (latitude (pts ! k), longitude (pts ! k)) = path ! (k * path_step path n)"
      using nth by simp
    show "length pts = nat n \<longleftrightarrow> n \<in> {1, 2, 4, 8}" by (fact iff)
  qed
qed

text \<open>
  Claim C3, as amended. For every \<open>num_points \<ge> 1\<close>, the square and rectangle generators
  sample their perimeter path of 8 points (4 corners and 4 edge midpoints) at the stride
  \<open>max(1, 8 // num_points)\<close>: point \<open>k\<close> of the track is path element \<open>k * stride\<close>. The
  track has 1, 2, 4 or 8 points for \<open>num_points\<close> equal to 1, equal to 2, in 3..4, and above 4;
  this is the requested number exactly when \<open>num_points\<close> is 1, 2, 4 or 8.
\<close>

theorem square_rectangle_sampling:
  assumes "rng_ok g" "1 \<le> num_points"
  shows "(\<exists>pts g'. SquareTrackGenerator_generate sq num_points ival g = Inr (pts, g')
            \<and> length (square_path sq) = 8
            \<and> path_step (square_path sq) num_points = nat (max 1 (8 div num_points))
            \<and> length pts = (if num_points = 1 then 1 else if num_points = 2 then 2
                             else if num_points \<le> 4 then 4 else 8)
            \<and> (\<forall>k < length pts. (latitude (pts ! k), longitude (pts ! k))
                   = square_path sq ! (k * path_step (square_path sq) num_points))
            \<and> (length pts = nat num_points \<longleftrightarrow> num_points \<in> {1, 2, 4, 8}))
       \<and> (\<exists>pts g'. RectangleTrackGenerator_generate rc num_points ival g = Inr (pts, g')
            \<and> length (rectangle_path rc) = 8
            \<and> path_step (rectangle_path rc) num_points = nat (max 1 (8 div num_points))
            \<and> length pts = (if num_points = 1 then 1 else if num_points = 2 then 2
                             else if num_points \<le> 4 then 4 else 8)
            \<and> (\<forall>k < length pts. (latitude (pts ! k), longitude (pts ! k))
                   = rectangle_path rc ! (k * path_step (rectangle_path rc) num_points))
            \<and> (length pts = nat num_points \<longleftrightarrow> num_points \<in> {1, 2, 4, 8}))"
  unfolding SquareTrackGenerator_generate_def RectangleTrackGenerator_generate_def
  by (rule conjI [OF sample_path_8 [OF assms length_square_path, where self = sq and ival = ival]
        sample_path_8 [OF assms length_rectangle_path, where self = rc and ival = ival]])

theorem square_rectangle_sampling_witness:
  "rng_ok example_rng \<and> (1::int) \<le> 3
   \<and> (\<exists>pts g'. SquareTrackGenerator_generate example_square 3 10 example_rng = Inr (pts, g')
          \<and> length pts = 4
          \<and> (latitude (pts ! 1), longitude (pts ! 1)) = square_path example_square ! 2)
   \<and> (\<exists>pts g'. RectangleTrackGenerator_generate example_rectangle 3 10 example_rng = Inr (pts, g')
          \<and> length pts = 4)"
proof -
  have n: "(1::int) \<le> 3" by simp
  have s: "path_step (square_path example_square) 3 = 2"
    by (simp add: path_step_def)
  note inst = square_rectangle_sampling [OF rng_ok_example n, of example_square 10 example_rectangle]
  obtain pts g' where sq:
     "SquareTrackGenerator_generate example_square 3 10 example_rng = Inr (pts, g')"
     "length pts = (if (3::int) = 1 then 1 else if (3::int) = 2 then 2
                             else if (3::int) \<le> 4 then 4 else 8)"
     "\<forall>k < length pts. (latitude (pts ! k), longitude (pts ! k))
                   = square_path example_square ! (k * path_step (square_path example_square) 3)"
    using conjunct1 [OF inst] by blast
  obtain rpts rg' where rc:
     "RectangleTrackGenerator_generate example_rectangle 3 10 example_rng = Inr (rpts, rg')"
     "length rpts = (if (3::int) = 1 then 1 else if (3::int) = 2 then 2
                             else if (3::int) \<le> 4 then 4 else 8)"
    using conjunct2 [OF inst] by blast
  have l: "length pts = 4" using sq(2) by simp
  have rl: "length rpts = 4" using rc(2) by simp
  have "(latitude (pts ! 1), longitude (pts ! 1)) = square_path example_square ! 2"
    using sq(3) [rule_format, of 1] l s by simp
  then show ?thesis using n sq(1) l rc(1) rl rng_ok_example by blast
qed

text \<open>
  The claim as stated fails: with the default \<open>num_points = 12\<close> the square generator does
  not return 12 points (it returns the 8 points of the path).
\<close>

theorem square_default_count_counterexample:
  "\<not> (\<exists>pts g'. SquareTrackGenerator_generate example_square 12 10 example_rng = Inr (pts, g')
          \<and> length pts = 12)"
proof
  assume "\<exists>pts g'. SquareTrackGenerator_generate example_square 12 10 example_rng = Inr (pts, g')
          \<and> length pts = 12"
  then obtain pts g' where a:
    "sample_path example_square (square_path example_square) 12 10 example_rng = Inr (pts, g')"
    "length pts = 12"
    unfolding SquareTrackGenerator_generate_def by blast
  have n: "(1::int) \<le> 12" by simp
  obtain qts h' where b:
    "sample_path example_square (square_path example_square) 12 10 example_rng = Inr (qts, h')"
    "length qts = (if (12::int) = 1 then 1 else if (12::int) = 2 then 2
                             else if (12::int) \<le> 4 then 4 else 8)"
    using sample_path_8 [OF rng_ok_example n length_square_path,
        where self = example_square and ival = 10] by blast
  have "length qts = 8" using b(2) by simp
  moreover have "qts = pts" using a(1) b(1) by simp
  ultimately show False using a(2) by simp
qed

section \<open>The ownship-relative generator\<close>

lemma cauchy2:
  fixes x y z w :: real
  shows "(x * y + z * w)\<^sup>2 \<le> (x\<^sup>2 + z\<^sup>2) * (y\<^sup>2 + w\<^sup>2)"
proof -
  have "(x\<^sup>2 + z\<^sup>2) * (y\<^sup>2 + w\<^sup>2) - (x * y + z * w)\<^sup>2 = (x * w - z * y)\<^sup>2"
    by (simp add: power2_eq_square algebra_simps)
  moreover have "0 \<le> (x * w - z * y)\<^sup>2" by simp
  ultimately show ?thesis by linarith
qed

lemma destination_arg_bounds:
  "- 1 \<le> destination_arg a d b \<and> destination_arg a d b \<le> 1"
proof -
  let ?u = "sin a * cos d + cos a * (sin d * cos b)"
  have "?u\<^sup>2 \<le> ((sin a)\<^sup>2 + (cos a)\<^sup>2) * ((cos d)\<^sup>2 + (sin d * cos b)\<^sup>2)"
    by (rule cauchy2)
  also have "\<dots> = (cos d)\<^sup>2 + (sin d)\<^sup>2 * (cos b)\<^sup>2"
    by (simp add: power_mult_distrib)
  also have "\<dots> \<le> (cos d)\<^sup>2 + (sin d)\<^sup>2 * 1"
    by (intro add_left_mono mult_left_mono) (simp_all add: abs_square_le_1)
  also have "\<dots> = 1" by simp
  finally have "?u\<^sup>2 \<le> 1" .
  then have "\<bar>?u\<bar> \<le> 1" by (simp add: abs_square_le_1)
  moreover have "destination_arg a d b = ?u"
    by (simp add: destination_arg_def mult.assoc)
  ultimately show ?thesis by (simp add: abs_le_iff)
qed

lemma destination_point_Inr: "\<exists>la lo. destination_point lat lon brg dst = Inr (la, lo)"
  using destination_arg_bounds [of "radians lat" "dst / 6371000" brg]
  by (simp add: destination_point_def Let_def math_asin_def)

lemma rel_body:
  assumes own: "ownship_track self = own"
    and k: "k < length own"
    and pos: "positioned (own ! k)"
    and nxt: "Suc k < length own \<longrightarrow> positioned (own ! Suc k)"
    and prev: "prev = (if k = 0 then None else Some (segment_bearing own (k - 1)))"
  shows "\<exists>p g'. OwnshipRelativeTrackGenerator_body self (k, own ! k) (prev, g)
            = Inr (p, (if Suc k < length own then Some (segment_bearing own k) else prev), g')
         \<and> displaced self (own ! k) (bearing_at own k) p"
proof -
  obtain a b h where abh: "sample_lat (own ! k) = Some a" "sample_lon (own ! k) = Some b"
      "sample_alt (own ! k) = Some h"
    using pos by (auto simp: positioned_def)
  define prev' where "prev' = (if Suc k < length own then Some (segment_bearing own k) else prev)"
  have cb: "choose_bearing own k (Some a) (Some b) prev = Inr (bearing_at own k, prev')"
  proof (cases "Suc k < length own")
    case True
    then obtain c d where cd: "sample_lat (own ! Suc k) = Some c" "sample_lon (own ! Suc k) = Some d"
      using nxt by (auto simp: positioned_def)
    have lt: "int k < int (length own) - 1" using True by simp
    show ?thesis
      using True cd abh
      by (simp add: choose_bearing_def lt number_def Let_def bearing_at_def prev'_def
          segment_bearing_def sample_lat_def sample_lon_def)
  next
    case False
    then have ge: "\<not> int k < int (length own) - 1" by simp
    have kn: "k = length own - 1" using False k by simp
    show ?thesis
    proof (cases "k = 0")
      case True
      then have "\<not> 2 \<le> length own" using kn by simp
      then show ?thesis
        using True False prev
        by (simp add: choose_bearing_def ge bearing_at_def prev'_def)
    next
      case k0: False
      then have "2 \<le> length own" "k - 1 = length own - 2" using kn by simp_all
      then show ?thesis
        using k0 False prev
        by (simp add: choose_bearing_def ge bearing_at_def prev'_def)
    qed
  qed
  obtain ob od where off: "choose_offset (relative_direction self) (bearing_at own k)
      (separation_distance self) = (ob, od)"
    by (cases "choose_offset (relative_direction self) (bearing_at own k) (separation_distance self)")
  obtain la lo where dp: "destination_point a b ob od = Inr (la, lo)"
    using destination_point_Inr by blast
  let ?td = "case (own ! k) ''time'' of Some t \<Rightarrow> t | None \<Rightarrow> real (k * 10)"
  obtain p where p: "create_track_point self lo la (h + alt_offset self) ?td g
        = Inr (p, g\<lparr>int_pos := Suc (int_pos g)\<rparr>)"
      "latitude p = la" "longitude p = lo" "altitude p = h + alt_offset self"
    using create_track_point_Inr [of self lo la "h + alt_offset self" ?td g] by blast
  have "OwnshipRelativeTrackGenerator_body self (k, own ! k) (prev, g)
            = Inr (p, prev', g\<lparr>int_pos := Suc (int_pos g)\<rparr>)"
    using abh cb off dp p(1)
    by (simp add: OwnshipRelativeTrackGenerator_body_def own Let_def number_def
        sample_lat_def sample_lon_def sample_alt_def)
  moreover have "displaced self (own ! k) (bearing_at own k) p"
    using abh off dp p(2-4) by (simp add: displaced_def)
  ultimately show ?thesis unfolding prev'_def by blast
qed

lemma rel_loop:
  assumes own: "ownship_track self = own"
    and pos: "\<forall>pt \<in> set own. positioned pt"
  shows "k \<le> length own \<Longrightarrow> m = length own - k
     \<Longrightarrow> prev = (if k = 0 then None else Some (segment_bearing own (k - 1)))
     \<Longrightarrow> \<exists>ps st. for_each (OwnshipRelativeTrackGenerator_body self)
                    (zip [k..<length own] (drop k own)) (prev, g) = Inr (ps, st)
          \<and> length ps = m
          \<and> (\<forall>j < m. displaced self (own ! (k + j)) (bearing_at own (k + j)) (ps ! j))"
proof (induction m arbitrary: k prev g)
  case 0
  then have "k = length own" by simp
  then show ?case using 0 by simp
next
  case (Suc m)
  then have k: "k < length own" by simp
  have z: "zip [k..<length own] (drop k own)
      = (k, own ! k) # zip [Suc k..<length own] (drop (Suc k) own)"
    using k by (simp add: upt_conv_Cons Cons_nth_drop_Suc [symmetric])
  have pk: "positioned (own ! k)" using pos k by simp
  have pn: "Suc k < length own \<longrightarrow> positioned (own ! Suc k)" using pos by simp
  define prev' where "prev' = (if Suc k < length own then Some (segment_bearing own k) else prev)"
  obtain p g' where b: "OwnshipRelativeTrackGenerator_body self (k, own ! k) (prev, g)
            = Inr (p, prev', g')"
      and d: "displaced self (own ! k) (bearing_at own k) p"
    using rel_body [OF own k pk pn Suc.prems(3), of g] unfolding prev'_def by blast
  have inv: "prev' = (if Suc k = 0 then None else Some (segment_bearing own (Suc k - 1)))"
    if "Suc k < length own"
    using that by (simp add: prev'_def)
  show ?case
  proof (cases "Suc k < length own")
    case True
    obtain ps st where r: "for_each (OwnshipRelativeTrackGenerator_body self)
          (zip [Suc k..<length own] (drop (Suc k) own)) (prev', g') = Inr (ps, st)"
        "length ps = m"
        "\<forall>j < m. displaced self (own ! (Suc k + j)) (bearing_at own (Suc k + j)) (ps ! j)"
    proof -
      have le: "Suc k \<le> length own" using True by simp
      have m': "m = length own - Suc k" using Suc.prems(2) by simp
      show ?thesis
        using Suc.IH [OF le m' inv [OF True], of g'] that by blast
    qed
    have "displaced self (own ! (k + j)) (bearing_at own (k + j)) ((p # ps) ! j)"
      if "j < Suc m" for j
    proof (cases j)
      case 0
      then show ?thesis using d by simp
    next
      case (Suc j')
      then show ?thesis using r(3) that by simp
    qed
    then show ?thesis using z b r(1,2) by simp
  next
    case False
    then have m0: "m = 0" and e: "Suc k = length own" using k Suc.prems(2) by simp_all
    have fe: "for_each (OwnshipRelativeTrackGenerator_body self)
        (zip [Suc k..<length own] (drop (Suc k) own)) (prev', g') = Inr ([], prev', g')"
      using e by simp
    show ?thesis unfolding z using b d m0 fe by simp
  qed
qed

lemma relative_generate_ok:
  assumes "\<forall>pt \<in> set (ownship_track self). positioned pt"
  shows "\<exists>pts g'. OwnshipRelativeTrackGenerator_generate self g = Inr (pts, g')
     \<and> length pts = length (ownship_track self)
     \<and> (\<forall>i < length (ownship_track self).
           displaced self (ownship_track self ! i) (bearing_at (ownship_track self) i) (pts ! i))"
proof -
  obtain ps st where r: "for_each (OwnshipRelativeTrackGenerator_body self)
        (zip [0..<length (ownship_track self)] (drop 0 (ownship_track self))) (None, g)
          = Inr (ps, st)"
     "length ps = length (ownship_track self)"
     "\<forall>j < length (ownship_track self).
         displaced self (ownship_track self ! (0 + j)) (bearing_at (ownship_track self) (0 + j)) (ps ! j)"
    using rel_loop [OF refl assms, of 0 "length (ownship_track self)" None g] by auto
  then show ?thesis
    by (cases st) (simp add: OwnshipRelativeTrackGenerator_generate_def py_enumerate_def)
qed

lemma relative_init_sel [simp]:
  "ownship_track (OwnshipRelativeTrackGenerator_init own sep dir off mn mx tid src ttype aref now) = own"
  "separation_distance (OwnshipRelativeTrackGenerator_init own sep dir off mn mx tid src ttype aref now) = sep"
  "relative_direction (OwnshipRelativeTrackGenerator_init own sep dir off mn mx tid src ttype aref now)
     = lower dir"
  "alt_offset (OwnshipRelativeTrackGenerator_init own sep dir off mn mx tid src ttype aref now) = off"
  "min_alt (OwnshipRelativeTrackGenerator_init own sep dir off mn mx tid src ttype aref now)
     = (case mn of Some m \<Rightarrow> m | None \<Rightarrow> 0)"
  "max_alt (OwnshipRelativeTrackGenerator_init own sep dir off mn mx tid src ttype aref now)
     = (case mx of Some m \<Rightarrow> m | None \<Rightarrow> 0)"
  "track_id (OwnshipRelativeTrackGenerator_init own sep dir off mn mx tid src ttype aref now) = tid"
  by (simp_all add: OwnshipRelativeTrackGenerator_init_def base_gen.extend_def
      ownship_relative_gen.fields_def BaseTrackGenerator_def)

lemma example_ownship_positioned: "\<forall>pt \<in> set example_ownship. positioned pt"
  by (simp add: example_ownship_def positioned_def sample_lat_def sample_lon_def sample_alt_def
      dict_get_def)

lemma example_ownship_alt:
  "sample_alt (example_ownship ! 0) = Some 5000" "sample_alt (example_ownship ! 1) = Some 5100"
  by (simp_all add: example_ownship_def sample_alt_def dict_get_def)

lemma relative_altitudes:
  assumes "\<forall>pt \<in> set (ownship_track self). positioned pt"
  shows "\<exists>pts g'. OwnshipRelativeTrackGenerator_generate self g = Inr (pts, g')
     \<and> length pts = length (ownship_track self)
     \<and> (\<forall>i < length (ownship_track self).
           altitude (pts ! i) = the (sample_alt (ownship_track self ! i)) + alt_offset self)"
proof -
  obtain pts g' where run: "OwnshipRelativeTrackGenerator_generate self g = Inr (pts, g')"
    and len: "length pts = length (ownship_track self)"
    and pt: "\<forall>i < length (ownship_track self).
        displaced self (ownship_track self ! i) (bearing_at (ownship_track self) i) (pts ! i)"
    using relative_generate_ok [OF assms] by blast
  have "altitude (pts ! i) = the (sample_alt (ownship_track self ! i)) + alt_offset self"
    if "i < length (ownship_track self)" for i
    using pt [rule_format, OF that] unfolding displaced_def by (rule conjunct2)
  then show ?thesis using run len by blast
qed

lemma compute_bearing_eq: "compute_bearing a b c d = initial_bearing a b c d"
  by (simp add: compute_bearing_def initial_bearing_def Let_def)

lemma segment_bearing_eq: "segment_bearing own i = reference_bearing own i"
  by (simp add: segment_bearing_def reference_bearing_def compute_bearing_eq)

lemma destination_point_eq:
  "destination_point lat lon theta d = Inr (great_circle_destination lat lon theta d)"
  using destination_arg_bounds [of "radians lat" "d / 6371000" theta]
  by (simp add: destination_point_def great_circle_destination_def Let_def math_asin_def
      destination_arg_def)

lemma displaced_placed:
  assumes "displaced self pt theta p"
  shows "placed_along self pt theta p"
  using assms
  by (simp add: displaced_def placed_along_def choose_offset_def relative_position_def
      destination_point_eq split: if_splits)

lemma relative_generate_placed:
  assumes "\<forall>pt \<in> set (ownship_track self). positioned pt"
  shows "\<exists>pts g'. OwnshipRelativeTrackGenerator_generate self g = Inr (pts, g')
     \<and> length pts = length (ownship_track self)
     \<and> (\<forall>i < length (ownship_track self).
           placed_along self (ownship_track self ! i) (bearing_at (ownship_track self) i) (pts ! i))"
proof -
  obtain pts g' where run: "OwnshipRelativeTrackGenerator_generate self g = Inr (pts, g')"
    and len: "length pts = length (ownship_track self)"
    and pt: "\<forall>i < length (ownship_track self).
        displaced self (ownship_track self ! i) (bearing_at (ownship_track self) i) (pts ! i)"
    using relative_generate_ok [OF assms] by blast
  have "placed_along self (ownship_track self ! i) (bearing_at (ownship_track self) i) (pts ! i)"
    if "i < length (ownship_track self)" for i
    using pt [rule_format, OF that] by (rule displaced_placed)
  then show ?thesis using run len by blast
qed

lemma example_ownship_position:
  "sample_lat (example_ownship ! 0) = Some 0" "sample_lon (example_ownship ! 0) = Some 0"
  "sample_lat (example_ownship ! Suc 0) = Some 1" "sample_lon (example_ownship ! Suc 0) = Some 0"
  by (simp_all add: example_ownship_def sample_lat_def sample_lon_def dict_get_def)

lemma example_bearing_north: "reference_bearing example_ownship 0 = 0"
proof -
  have "0 < radians 1" "radians 1 < pi" by (simp_all add: radians_def)
  then have "0 < sin (radians 1)" by (rule sin_gt_zero)
  then show ?thesis
    by (simp add: reference_bearing_def example_ownship_position initial_bearing_def atan2_def
        radians_def)
qed

lemma destination_north:
  assumes "0 \<le> d" "d < 6371000"
  shows "great_circle_destination 0 0 0 d = (degrees (d / 6371000), 0)"
proof -
  define x where "x = d / 6371000"
  have x: "0 \<le> x" "x < 1" unfolding x_def using assms by simp_all
  have p: "1 \<le> pi / 2" using pi_ge_two by simp
  have "- (pi / 2) < x" "x < pi / 2" using x p by linarith+
  then have c: "0 < cos x" by (rule cos_gt_zero_pi)
  have a: "arcsin (sin x) = x"
    using x p by (intro arcsin_sin) linarith+
  show ?thesis
    unfolding great_circle_destination_def x_def [symmetric] Let_def
    using c by (simp add: radians_def a atan2_def degrees_def)
qed

lemma example_relative_sel:
  "ownship_track example_relative = example_ownship"
  "relative_direction example_relative = ''ahead''"
  "separation_distance example_relative = 1000"
  "alt_offset example_relative = 50"
proof -
  have l: "lower ''Ahead'' = ''ahead''" by code_simp
  show "ownship_track example_relative = example_ownship"
    "separation_distance example_relative = 1000" "alt_offset example_relative = 50"
    by (simp_all add: example_relative_def)
  show "relative_direction example_relative = ''ahead''"
    by (simp add: example_relative_def l)
qed

text \<open>
  Claim C4, as amended. For every reference track whose \<open>n\<close> samples each carry a latitude,
  a longitude and an altitude, \<open>OwnshipRelativeTrackGenerator.generate\<close> returns exactly \<open>n\<close>
  points. Point \<open>i\<close>, for \<open>i < n - 1\<close>, is at the position reached from reference sample
  \<open>i\<close> by the separation distance along the initial great-circle bearing from sample \<open>i\<close>
  to sample \<open>i + 1\<close> (forwards for \<open>ahead\<close>, backwards for \<open>behind\<close>, along the bearing
  turned by \<open>pi\<close> for \<open>opposite\<close>), at the altitude of the sample plus the altitude offset.
  For \<open>n \<ge> 2\<close> the final point reuses the bearing of the segment from sample \<open>n - 2\<close> to
  sample \<open>n - 1\<close>; for \<open>n = 1\<close> there is no segment and the single point is placed along
  the bearing \<open>0\<close>.
\<close>

theorem ownship_relative_points:
  assumes "\<forall>pt \<in> set (ownship_track self). positioned pt"
  shows "\<exists>pts g'. OwnshipRelativeTrackGenerator_generate self g = Inr (pts, g')
     \<and> length pts = length (ownship_track self)
     \<and> (\<forall>i. Suc i < length (ownship_track self) \<longrightarrow>
           placed_along self (ownship_track self ! i)
             (reference_bearing (ownship_track self) i) (pts ! i))
     \<and> (2 \<le> length (ownship_track self) \<longrightarrow>
           placed_along self (ownship_track self ! (length (ownship_track self) - 1))
             (reference_bearing (ownship_track self) (length (ownship_track self) - 2))
             (pts ! (length (ownship_track self) - 1)))
     \<and> (length (ownship_track self) = 1 \<longrightarrow> placed_along self (ownship_track self ! 0) 0 (pts ! 0))"
proof -
  let ?own = "ownship_track self"
  obtain pts g' where run: "OwnshipRelativeTrackGenerator_generate self g = Inr (pts, g')"
    and len: "length pts = length ?own"
    and pt: "\<forall>i < length ?own. placed_along self (?own ! i) (bearing_at ?own i) (pts ! i)"
    using relative_generate_placed [OF assms] by blast
  have a: "placed_along self (?own ! i) (reference_bearing ?own i) (pts ! i)"
    if "Suc i < length ?own" for i
    using pt [rule_format, of i] that by (simp add: bearing_at_def segment_bearing_eq)
  have b: "placed_along self (?own ! (length ?own - 1)) (reference_bearing ?own (length ?own - 2))
             (pts ! (length ?own - 1))" if "2 \<le> length ?own"
  proof -
    have 1: "length ?own - 1 < length ?own" and 2: "\<not> Suc (length ?own - 1) < length ?own"
      using that by simp_all
    show ?thesis
      using pt [rule_format, OF 1] that 2 unfolding bearing_at_def segment_bearing_eq by simp
  qed
  have c: "placed_along self (?own ! 0) 0 (pts ! 0)" if "length ?own = 1"
    using pt [rule_format, of 0] that by (simp add: bearing_at_def)
  show ?thesis
  proof (intro exI conjI)
    show "OwnshipRelativeTrackGenerator_generate self g = Inr (pts, g')" by (fact run)
    show "length pts = length ?own" by (fact len)
    show "\<forall>i. Suc i < length ?own \<longrightarrow>
           placed_along self (?own ! i) (reference_bearing ?own i) (pts ! i)"
      using a by simp
    show "2 \<le> length ?own \<longrightarrow>
           placed_along self (?own ! (length ?own - 1)) (reference_bearing ?own (length ?own - 2))
             (pts ! (length ?own - 1))"
      using b by simp
    show "length ?own = 1 \<longrightarrow> placed_along self (?own ! 0) 0 (pts ! 0)"
      using c by simp
  qed
qed

theorem ownship_relative_points_witness:
  "list_all positioned (ownship_track example_relative)
   \<and> (\<exists>pts g'. OwnshipRelativeTrackGenerator_generate example_relative example_rng = Inr (pts, g')
         \<and> length pts = 2
         \<and> latitude (pts ! 0) = degrees (1000 / 6371000) \<and> longitude (pts ! 0) = 0
         \<and> altitude (pts ! 0) = 5050
         \<and> (latitude (pts ! 1), longitude (pts ! 1)) = great_circle_destination 1 0 0 1000
         \<and> altitude (pts ! 1) = 5150)"
proof -
  note own = example_relative_sel(1)
  have n: "length example_ownship = 2" by (simp add: example_ownship_def)
  have pos: "\<forall>pt \<in> set (ownship_track example_relative). positioned pt"
    unfolding own by (rule example_ownship_positioned)
  obtain pts g' where run:
      "OwnshipRelativeTrackGenerator_generate example_relative example_rng = Inr (pts, g')"
    and len: "length pts = length (ownship_track example_relative)"
    and a: "\<forall>i. Suc i < length (ownship_track example_relative) \<longrightarrow>
           placed_along example_relative (ownship_track example_relative ! i)
             (reference_bearing (ownship_track example_relative) i) (pts ! i)"
    and b: "2 \<le> length (ownship_track example_relative) \<longrightarrow>
           placed_along example_relative
             (ownship_track example_relative ! (length (ownship_track example_relative) - 1))
             (reference_bearing (ownship_track example_relative)
                (length (ownship_track example_relative) - 2))
             (pts ! (length (ownship_track example_relative) - 1))"
    using ownship_relative_points [OF pos, of example_rng] by blast
  have d0: "placed_along example_relative (example_ownship ! 0) 0 (pts ! 0)"
    using a [rule_format, of 0] by (simp add: own n example_bearing_north)
  have d1: "placed_along example_relative (example_ownship ! Suc 0) 0 (pts ! Suc 0)"
    using b by (simp add: own n example_bearing_north)
  have rp: "relative_position ''ahead'' 1000 lat lon 0 = great_circle_destination lat lon 0 1000"
    for lat lon
    by (simp add: relative_position_def)
  have alt1: "sample_alt (example_ownship ! Suc 0) = Some 5100"
    using example_ownship_alt(2) by simp
  have p0: "(latitude (pts ! 0), longitude (pts ! 0)) = (degrees (1000 / 6371000), 0)"
    using d0 destination_north [of 1000]
    by (simp add: placed_along_def example_relative_sel example_ownship_position rp)
  have a0: "altitude (pts ! 0) = 5050"
    using d0 by (simp add: placed_along_def example_relative_sel example_ownship_alt)
  have p1: "(latitude (pts ! 1), longitude (pts ! 1)) = great_circle_destination 1 0 0 1000"
    using d1 by (simp add: placed_along_def example_relative_sel example_ownship_position rp)
  have a1: "altitude (pts ! 1) = 5150"
    using d1 by (simp add: placed_along_def example_relative_sel alt1)
  have l2: "length pts = 2" using len by (simp add: own n)
  have pos': "list_all positioned (ownship_track example_relative)"
    using pos by (simp only: list_all_iff)
  have la0: "latitude (pts ! 0) = degrees (1000 / 6371000)" and lo0: "longitude (pts ! 0) = 0"
    using p0 by simp_all
  show ?thesis
    by (intro conjI exI) (fact pos', fact run, fact l2, fact la0, fact lo0, fact a0, fact p1, fact a1)
qed

text \<open>
  The claim as stated fails for \<open>n = 1\<close>: the track has no previous segment whose bearing
  the final point could reuse; the point is placed along the bearing \<open>0\<close>, due north of
  the sample.
\<close>

theorem single_sample_bearing_counterexample:
  "\<not> (\<exists>j. Suc j < length (ownship_track example_single)
          \<and> (\<exists>pts g'. OwnshipRelativeTrackGenerator_generate example_single example_rng
                         = Inr (pts, g')
                \<and> placed_along example_single (last (ownship_track example_single))
                     (reference_bearing (ownship_track example_single) j) (last pts)))
   \<and> (\<exists>p g'. OwnshipRelativeTrackGenerator_generate example_single example_rng = Inr ([p], g')
         \<and> (latitude p, longitude p) = great_circle_destination 10 20 0 1000)"
proof -
  have n: "length (ownship_track example_single) = 1"
    by (simp add: example_single_def)
  have pos: "\<forall>pt \<in> set (ownship_track example_single). positioned pt"
    by (simp add: example_single_def positioned_def sample_lat_def sample_lon_def sample_alt_def
        dict_get_def)
  have l: "lower ''ahead'' = ''ahead''" by code_simp
  have sel: "relative_direction example_single = ''ahead''"
    "separation_distance example_single = 1000"
    "sample_lat (ownship_track example_single ! 0) = Some 10"
    "sample_lon (ownship_track example_single ! 0) = Some 20"
    by (simp_all add: example_single_def l sample_lat_def sample_lon_def dict_get_def)
  obtain pts g' where run:
      "OwnshipRelativeTrackGenerator_generate example_single example_rng = Inr (pts, g')"
    and len: "length pts = length (ownship_track example_single)"
    and pt: "\<forall>i < length (ownship_track example_single).
        placed_along example_single (ownship_track example_single ! i)
          (bearing_at (ownship_track example_single) i) (pts ! i)"
    using relative_generate_placed [OF pos, of example_rng] by blast
  obtain p where p: "pts = [p]"
    using len n by (cases pts) auto
  have "placed_along example_single (ownship_track example_single ! 0) 0 p"
    using pt [rule_format, of 0] n p by (simp add: bearing_at_def)
  then have "(latitude p, longitude p) = great_circle_destination 10 20 0 1000"
    by (simp add: placed_along_def sel relative_position_def)
  then show ?thesis using run p n by auto
qed

section \<open>Altitudes\<close>

text \<open>
  Claim C1, as amended. Every point of a track made by one of the eight parametric
  generators (random, circular, elliptical, flyby, square, rectangle, zigzag, spiral) has
  its altitude between \<open>min_alt\<close> and \<open>max_alt\<close>, that is within \<open>[min_alt, max_alt]\<close> when
  \<open>min_alt \<le> max_alt\<close>; the generators return such a track unless they raise
  \<open>ZeroDivisionError\<close>. The ownship-relative generator does not use the bounds: the
  altitude of its point \<open>i\<close> is the altitude of reference sample \<open>i\<close> plus the altitude offset.
\<close>

theorem altitude_bounds:
  assumes "rng_ok g"
  shows "(if raises_zero_division gen num_points
          then generator_generate gen num_points ival g = Inl ZeroDivisionError
          else \<exists>pts g'. generator_generate gen num_points ival g = Inr (pts, g')
                 \<and> (\<forall>k < length pts.
                        min (min_alt (gen_base gen)) (max_alt (gen_base gen)) \<le> altitude (pts ! k)
                      \<and> altitude (pts ! k) \<le> max (min_alt (gen_base gen)) (max_alt (gen_base gen))
                      \<and> (min_alt (gen_base gen) \<le> max_alt (gen_base gen) \<longrightarrow>
                           min_alt (gen_base gen) \<le> altitude (pts ! k)
                         \<and> altitude (pts ! k) \<le> max_alt (gen_base gen))))
     \<and> ((\<forall>pt \<in> set (ownship_track rel). positioned pt) \<longrightarrow>
          (\<exists>pts g'. OwnshipRelativeTrackGenerator_generate rel g = Inr (pts, g')
             \<and> length pts = length (ownship_track rel)
             \<and> (\<forall>i < length (ownship_track rel).
                   altitude (pts ! i) = the (sample_alt (ownship_track rel ! i)) + alt_offset rel)))"
proof -
  have a: "generator_generate gen num_points ival g = Inl ZeroDivisionError"
    if "raises_zero_division gen num_points"
    using generator_raises [OF that] .
  have b: "\<exists>pts g'. generator_generate gen num_points ival g = Inr (pts, g')
                 \<and> (\<forall>k < length pts.
                        min (min_alt (gen_base gen)) (max_alt (gen_base gen)) \<le> altitude (pts ! k)
                      \<and> altitude (pts ! k) \<le> max (min_alt (gen_base gen)) (max_alt (gen_base gen))
                      \<and> (min_alt (gen_base gen) \<le> max_alt (gen_base gen) \<longrightarrow>
                           min_alt (gen_base gen) \<le> altitude (pts ! k)
                         \<and> altitude (pts ! k) \<le> max_alt (gen_base gen)))"
    if nr: "\<not> raises_zero_division gen num_points"
  proof -
    obtain pts g' where run: "generator_generate gen num_points ival g = Inr (pts, g')"
      and pt: "\<forall>k < length pts. in_band (gen_base gen) (pts ! k)
           \<and> stamped (gen_base gen) ival k (pts ! k)"
      using generator_ok [OF assms nr] by blast
    have "min (min_alt (gen_base gen)) (max_alt (gen_base gen)) \<le> altitude (pts ! k)
        \<and> altitude (pts ! k) \<le> max (min_alt (gen_base gen)) (max_alt (gen_base gen))
        \<and> (min_alt (gen_base gen) \<le> max_alt (gen_base gen) \<longrightarrow>
             min_alt (gen_base gen) \<le> altitude (pts ! k)
           \<and> altitude (pts ! k) \<le> max_alt (gen_base gen))"
      if "k < length pts" for k
    proof -
      have 1: "min (min_alt (gen_base gen)) (max_alt (gen_base gen)) \<le> altitude (pts ! k)"
        and 2: "altitude (pts ! k) \<le> max (min_alt (gen_base gen)) (max_alt (gen_base gen))"
        using pt [rule_format, OF that] by (simp_all add: in_band_def)
      have 3: "min_alt (gen_base gen) \<le> max_alt (gen_base gen) \<longrightarrow>
             min_alt (gen_base gen) \<le> altitude (pts ! k)
           \<and> altitude (pts ! k) \<le> max_alt (gen_base gen)"
      proof
        assume "min_alt (gen_base gen) \<le> max_alt (gen_base gen)"
        then have "min (min_alt (gen_base gen)) (max_alt (gen_base gen)) = min_alt (gen_base gen)"
          "max (min_alt (gen_base gen)) (max_alt (gen_base gen)) = max_alt (gen_base gen)"
          by simp_all
        then show "min_alt (gen_base gen) \<le> altitude (pts ! k)
           \<and> altitude (pts ! k) \<le> max_alt (gen_base gen)"
          using 1 2 by simp
      qed
      show ?thesis using 1 2 3 by (intro conjI)
    qed
    then show ?thesis using run by blast
  qed
  have c: "\<exists>pts g'. OwnshipRelativeTrackGenerator_generate rel g = Inr (pts, g')
             \<and> length pts = length (ownship_track rel)
             \<and> (\<forall>i < length (ownship_track rel).
                   altitude (pts ! i) = the (sample_alt (ownship_track rel ! i)) + alt_offset rel)"
    if "\<forall>pt \<in> set (ownship_track rel). positioned pt"
    using relative_altitudes [OF that] .
  show ?thesis
  proof (cases "raises_zero_division gen num_points")
    case True
    then show ?thesis using a c by simp
  next
    case False
    then show ?thesis using b c by simp
  qed
qed

theorem altitude_bounds_witness:
  "rng_ok example_rng
   \<and> \<not> raises_zero_division (CircularTrackGenerator example_circular) 4
   \<and> min_alt (gen_base (CircularTrackGenerator example_circular))
       \<le> max_alt (gen_base (CircularTrackGenerator example_circular))
   \<and> (\<exists>pts g'. generator_generate (CircularTrackGenerator example_circular) 4 10 example_rng
                    = Inr (pts, g')
         \<and> (\<forall>k < length pts. 900 \<le> altitude (pts ! k) \<and> altitude (pts ! k) \<le> 1100))
   \<and> list_all positioned (ownship_track example_relative)
   \<and> (\<exists>pts g'. OwnshipRelativeTrackGenerator_generate example_relative example_rng = Inr (pts, g')
         \<and> altitude (pts ! 0) = 5050)"
proof -
  let ?gen = "CircularTrackGenerator example_circular"
  have nr: "\<not> raises_zero_division ?gen 4" by simp
  have lo: "min_alt (gen_base ?gen) = 900" and hi: "max_alt (gen_base ?gen) = 1100"
    by (simp_all add: example_circular_def example_base_def CircularTrackGenerator_init_def
        base_gen.extend_def)
  have own: "ownship_track example_relative = example_ownship"
    by (simp add: example_relative_def)
  have pos: "\<forall>pt \<in> set (ownship_track example_relative). positioned pt"
    unfolding own by (rule example_ownship_positioned)
  note inst = altitude_bounds [OF rng_ok_example, of ?gen 4 10 example_relative]
  have le: "min_alt (gen_base ?gen) \<le> max_alt (gen_base ?gen)"
    unfolding lo hi by simp
  have circ: "\<exists>pts g'. generator_generate ?gen 4 10 example_rng = Inr (pts, g')
         \<and> (\<forall>k < length pts. 900 \<le> altitude (pts ! k) \<and> altitude (pts ! k) \<le> 1100)"
  proof -
    have "\<exists>pts g'. generator_generate ?gen 4 10 example_rng = Inr (pts, g')
                 \<and> (\<forall>k < length pts.
                        min 900 1100 \<le> altitude (pts ! k)
                      \<and> altitude (pts ! k) \<le> max 900 1100
                      \<and> ((900::real) \<le> 1100 \<longrightarrow>
                           900 \<le> altitude (pts ! k)
                         \<and> altitude (pts ! k) \<le> 1100))"
      using conjunct1 [OF inst] nr unfolding lo hi by (simp only: if_False)
    then obtain pts g' where r: "generator_generate ?gen 4 10 example_rng = Inr (pts, g')"
      and b: "\<forall>k < length pts.
                        min 900 1100 \<le> altitude (pts ! k)
                      \<and> altitude (pts ! k) \<le> max 900 1100
                      \<and> ((900::real) \<le> 1100 \<longrightarrow>
                           900 \<le> altitude (pts ! k)
                         \<and> altitude (pts ! k) \<le> 1100)"
      by blast
    have "\<forall>k < length pts. 900 \<le> altitude (pts ! k) \<and> altitude (pts ! k) \<le> 1100"
      using b by simp
    then show ?thesis using r by blast
  qed
  have rel: "\<exists>pts g'. OwnshipRelativeTrackGenerator_generate example_relative example_rng
         = Inr (pts, g') \<and> altitude (pts ! 0) = 5050"
  proof -
    obtain pts g' where
      r: "OwnshipRelativeTrackGenerator_generate example_relative example_rng = Inr (pts, g')"
      and al: "\<forall>i < length (ownship_track example_relative).
         altitude (pts ! i) = the (sample_alt (ownship_track example_relative ! i))
                                + alt_offset example_relative"
      using mp [OF conjunct2 [OF inst] pos] by blast
    have "altitude (pts ! 0) = 5050"
      using al [rule_format, of 0]
      by (simp add: own example_ownship_alt) (simp add: example_ownship_def example_relative_def)
    then show ?thesis using r by blast
  qed
  have pos': "list_all positioned (ownship_track example_relative)"
    using pos by (simp only: list_all_iff)
  show ?thesis
    by (intro conjI) (fact rng_ok_example, fact nr, fact le, fact circ, fact pos', fact rel)
qed

text \<open>
  The claim as stated fails for the ownship-relative generator: with bounds 900 and 1100,
  a reference sample at 5000 and an offset of 50, the first point has altitude 5050.
\<close>

theorem relative_altitude_counterexample:
  "\<not> (\<forall>pts g'. OwnshipRelativeTrackGenerator_generate example_relative example_rng = Inr (pts, g')
         \<longrightarrow> (\<forall>p \<in> set pts. min_alt example_relative \<le> altitude p
                  \<and> altitude p \<le> max_alt example_relative))"
proof -
  have own: "ownship_track example_relative = example_ownship"
    by (simp add: example_relative_def)
  have pos: "\<forall>pt \<in> set (ownship_track example_relative). positioned pt"
    unfolding own by (rule example_ownship_positioned)
  obtain pts g' where
    r: "OwnshipRelativeTrackGenerator_generate example_relative example_rng = Inr (pts, g')"
    and len: "length pts = length (ownship_track example_relative)"
    and al: "\<forall>i < length (ownship_track example_relative).
       altitude (pts ! i) = the (sample_alt (ownship_track example_relative ! i))
                              + alt_offset example_relative"
    using relative_altitudes [OF pos, of example_rng] by blast
  have l2: "length pts = 2" using len by (simp add: own example_ownship_def)
  have a0: "altitude (pts ! 0) = 5050"
    using al [rule_format, of 0]
    by (simp add: own example_ownship_alt) (simp add: example_ownship_def example_relative_def)
  have mem: "pts ! 0 \<in> set pts" using l2 by simp
  have hi: "max_alt example_relative = 1100" by (simp add: example_relative_def)
  have "\<not> altitude (pts ! 0) \<le> max_alt example_relative"
    unfolding hi a0 by simp
  then show ?thesis using r mem by blast
qed

section \<open>The world origin of the scenario\<close>

lemma example_trajectory_files:
  "trajectory_files example_folder
     = [(1, ''10000_trajectory.json''), (2, ''10001_trajectory.json'')]"
  by code_simp

lemma later_files_keep_origin:
  assumes "idx \<noteq> 1" "scenario_step dir tf fp scs (idx, f) sc = Inr sc'"
  shows "origin sc' = origin sc"
  using assms
  by (auto simp: scenario_step_def Let_def py_bind_eq_Inr split: if_splits)

lemma later_loop_keeps_origin:
  assumes "\<forall>it \<in> set its. fst it \<noteq> 1" "scenario_loop dir tf fp scs its sc = Inr sc'"
  shows "origin sc' = origin sc"
  using assms
proof (induction its arbitrary: sc)
  case Nil
  then show ?case by simp
next
  case (Cons it its)
  obtain idx f where it: "it = (idx, f)" by (cases it)
  obtain sc1 where 1: "scenario_step dir tf fp scs (idx, f) sc = Inr sc1"
    and 2: "scenario_loop dir tf fp scs its sc1 = Inr sc'"
    using Cons.prems(2) it by (auto simp: py_bind_eq_Inr)
  have "idx \<noteq> 1" using Cons.prems(1) it by simp
  then have "origin sc1 = origin sc" using later_files_keep_origin 1 by blast
  moreover have "origin sc' = origin sc1" using Cons.IH [of sc1] Cons.prems(1) 2 by simp
  ultimately show ?case by simp
qed

lemma zip_upt_tail:
  assumes "zip [i..<j] xs = (k, f) # rest"
  shows "\<forall>it \<in> set rest. i < fst it"
proof (cases "i < j")
  case True
  then have u: "[i..<j] = i # [Suc i..<j]" by (rule upt_conv_Cons)
  obtain g fs where xs: "xs = g # fs"
    using assms unfolding u by (cases xs) auto
  have "rest = zip [Suc i..<j] fs"
    using assms unfolding u xs by auto
  then show ?thesis by (auto dest: set_zip_leftD)
next
  case False
  then show ?thesis using assms by simp
qed

lemma first_file_empty_no_origin:
  assumes "trajectory_files dir = (1, f) # rest"
    and "json_load dir (path_join tf f) = Inr []"
    and "generate_scenario_json dir tf fp a b = Inr sc"
  shows "origin sc = None"
proof -
  let ?scs = "case a of None \<Rightarrow> [\<lparr> sensor_name = ''rgb_camera_0'', sensor_parent = None \<rparr>]
             | Some scs \<Rightarrow> scs"
  let ?sc0 = "\<lparr> origin = None, sync_topics = [], actors = [], sensors = [],
                  fmu_models = [], add_sensors_to_vehicles = (case b of None \<Rightarrow> [] | Some vs \<Rightarrow> vs) \<rparr>"
  have st: "scenario_step dir tf fp ?scs (1, f) ?sc0 = Inr ?sc0"
    using assms(2) by (simp add: scenario_step_def Let_def)
  have loop: "scenario_loop dir tf fp ?scs rest ?sc0 = Inr sc"
    using assms(1,3) st by (simp add: generate_scenario_json_def Let_def)
  have z: "zip [1..<Suc (length (sort (filter (\<lambda>f. endswith f ''_trajectory.json'') (listdir dir))))]
             (sort (filter (\<lambda>f. endswith f ''_trajectory.json'') (listdir dir))) = (1, f) # rest"
    using assms(1) by (simp only: trajectory_files_def Let_def)
  have "\<forall>it \<in> set rest. 1 < fst it"
    by (rule zip_upt_tail [OF z])
  then have "\<forall>it \<in> set rest. fst it \<noteq> 1"
    by auto
  then have "origin sc = origin ?sc0" using later_loop_keeps_origin loop by blast
  then show ?thesis by simp
qed

text \<open>
  Claim C2 says that the world origin is the first waypoint of the first non-empty
  trajectory in lexicographic file order, also when the first file is empty. The code sets
  the origin only in the iteration with \<open>idx = 1\<close>, and \<open>idx\<close> counts files, not actors: in a
  folder whose first trajectory file is empty and whose second holds one waypoint, the
  scenario is assembled with one actor, no origin and no sensors.
\<close>

theorem origin_unset_when_first_file_empty:
  "\<exists>sc. generate_scenario_json example_folder ''trajectories''
            ''dev_scripts/fmu/trajectory_follower_fmu_model.fmu'' None None = Inr sc
      \<and> origin sc = None
      \<and> map actor_name (actors sc) = [''actor10001'']
      \<and> sensors sc = []"
proof -
  have j0: "json_load example_folder ''trajectories/10000_trajectory.json'' = Inr []"
    by (simp add: example_folder_def)
  have j1: "json_load example_folder ''trajectories/10001_trajectory.json''
      = Inr [[''time'' \<mapsto> 0, ''lat'' \<mapsto> 1, ''lon'' \<mapsto> 2, ''alt'' \<mapsto> 3]]"
    by (simp add: example_folder_def)
  have p0: "path_join ''trajectories'' ''10000_trajectory.json''
      = ''trajectories/10000_trajectory.json''"
    and p1: "path_join ''trajectories'' ''10001_trajectory.json''
      = ''trajectories/10001_trajectory.json''"
    by (simp_all add: path_join_def)
  have s1: "split_first ''10001_trajectory.json'' = ''10001''"
    by (simp add: split_first_def)
  show ?thesis
    by (simp add: generate_scenario_json_def example_trajectory_files scenario_step_def
        Let_def j0 j1 p0 p1 s1)
qed

section \<open>The round trip through NED coordinates\<close>




lemma atan2_range: "- pi < atan2 y x \<and> atan2 y x \<le> pi"
proof -
  have a: "- (pi / 2) < arctan (y / x)" "arctan (y / x) < pi / 2"
    by (rule arctan_lbound, rule arctan_ubound)
  have z: "0 \<le> y \<Longrightarrow> x < 0 \<Longrightarrow> arctan (y / x) \<le> 0"
    by (simp add: divide_nonneg_neg arctan_le_zero_iff)
  have n: "y < 0 \<Longrightarrow> x < 0 \<Longrightarrow> 0 < arctan (y / x)"
    by (simp add: divide_neg_neg arctan_less_zero_iff zero_less_arctan_iff)
  show ?thesis
    unfolding atan2_def using a z n pi_gt_zero by (auto; linarith)
qed



lemma sqrt_one_plus_ge_one: "0 \<le> b \<Longrightarrow> 1 \<le> sqrt (1 + b * T\<^sup>2)" for b T :: real
  by simp












































end
